theory Spec2Isabelle
  imports Complex_Main "HOL-Library.Word" "HOL-Library.AList"
begin

unbundle bit_operations_syntax

section \<open>Data model of calibrations/96\_Ramsey\_arb\_flux.py\<close>

text \<open>
  The script is one linear Python module.  Its collaborators (the QuAM machine, the QM
  runtime, the fitting library, the node framework) are libraries; what they return is
  an input of the model, collected in the record \<open>env\<close> below.  Python floats are
  modelled by \<open>real\<close>: a value is the exact one where a float is the nearest float, and
  no theorem below speaks of an input at which floats give an infinity or NaN.

  Exceptions are values: the built-in Python errors the script and its libraries run into,
  and \<open>LibraryError\<close> for any other exception a library call raises.
\<close>

datatype error =
    KeyError string
  | NameError string
  | AttributeError string
  | IndexError string
  | ZeroDivisionError string
  | TypeError string
  | LibraryError string

text \<open>
  A qubit of the machine: the script reads \<open>q.name\<close> and \<open>q.grid_location\<close>.  The two
  calibrated parameters the module docstring speaks of (qubit frequency, \<open>T2_ramsey\<close>)
  are kept as fields so that the saved machine can be compared with the loaded one.
\<close>

record qubit =
  name :: string
  grid_location :: string
  f_01 :: real
  T2ramsey :: real

text \<open>\<open>machine.qubits\<close> is a dictionary from names to qubits, \<open>machine.active_qubits\<close> a list.\<close>

record quam =
  machine_qubits :: "(string \<times> qubit) list"
  active_qubits :: "qubit list"

datatype flux_point = Joint | Independent

text \<open>
  \<open>Parameters.qubits\<close> is declared \<open>Optional[List[str]]\<close>, and the script also compares it
  with the empty string: the three shapes are kept apart.
\<close>

datatype qubits_param = QNone | QStr string | QList "string list"

record parameters =
  qubits :: qubits_param
  num_averages :: int
  frequency_detuning_in_mhz :: real
  min_wait_time_in_ns :: int
  max_wait_time_in_ns :: int
  flux_point_joint_or_independent :: flux_point
  use_state_discrimination :: bool
  simulate :: bool
  simulation_duration_ns :: int
  timeout :: int
  load_data_id :: "int option"
  multiplexed :: bool

text \<open>The class attributes of \<open>Parameters\<close> (lines 44 to 55).\<close>

definition Parameters :: parameters where
  "Parameters = \<lparr> qubits = QList [''qD1''], num_averages = 1500,
     frequency_detuning_in_mhz = 5, min_wait_time_in_ns = 16, max_wait_time_in_ns = 5000,
     flux_point_joint_or_independent = Joint, use_state_discrimination = True,
     simulate = False, simulation_duration_ns = 2500, timeout = 100,
     load_data_id = None, multiplexed = True \<rparr>"

subsection \<open>Qubit selection (lines 72 to 76)\<close>

text \<open>
  \<open>[machine.qubits[q] for q in node.parameters.qubits]\<close>: the names are looked up from
  left to right and the first missing one raises \<open>KeyError\<close>.
\<close>

fun lookup_qubits :: "quam \<Rightarrow> string list \<Rightarrow> error + qubit list" where
  "lookup_qubits m [] = Inr []"
| "lookup_qubits m (q # rest) =
     (case map_of (machine_qubits m) q of
        None \<Rightarrow> Inl (KeyError q)
      | Some qb \<Rightarrow>
          (case lookup_qubits m rest of
             Inl e \<Rightarrow> Inl e
           | Inr qbs \<Rightarrow> Inr (qb # qbs)))"

text \<open>
  A non-empty Python string is iterated character by character, each character being a
  one-letter name.
\<close>

definition select_qubits :: "quam \<Rightarrow> qubits_param \<Rightarrow> error + qubit list" where
  "select_qubits m qp =
     (case qp of
        QNone \<Rightarrow> Inr (active_qubits m)
      | QStr s \<Rightarrow> if s = [] then Inr (active_qubits m)
                  else lookup_qubits m (map (\<lambda>c. [c]) s)
      | QList names \<Rightarrow> lookup_qubits m names)"

subsection \<open>The idle-time sweep (lines 82 to 89)\<close>

text \<open>
  \<open>np.arange(start, stop, step)\<close> on integers, for the positive steps the script uses
  (the step is the literal 4): \<open>start, start + step, ...\<close> below \<open>stop\<close>.
\<close>

function arange :: "int \<Rightarrow> int \<Rightarrow> int \<Rightarrow> int list" where
  "arange start stop step =
     (if 0 < step \<and> start < stop then start # arange (start + step) stop step else [])"
  by pat_completeness auto
termination
  by (relation "measure (\<lambda>(start, stop, step). nat (stop - start))") auto

declare arange.simps [simp del]

text \<open>
  The parameters are Python integers, of any size; the arrays numpy builds from them hold
  signed 64-bit integers, and a product of such arrays wraps around.
\<close>

definition in_int64 :: "int \<Rightarrow> bool" where
  "in_int64 x \<longleftrightarrow> - (2 ^ 63) \<le> x \<and> x < 2 ^ 63"

definition int64_mult :: "int \<Rightarrow> int \<Rightarrow> int" where
  "int64_mult a b = sint ((word_of_int a :: 64 word) * word_of_int b)"

subsection \<open>Datasets, fit arrays and the node's results\<close>

text \<open>
  The labelled array of the run: the names along \<open>qubit\<close>, the values along \<open>time\<close> and
  the data variable \<open>state\<close> (one row for each qubit).
\<close>

record dataset =
  qubit_coord :: "string list"
  time_coord :: "int list"
  state_var :: "real list list"

text \<open>
  Modelled from the spec: \<open>fetch_results_as_xarray\<close> (module
  \<open>iqcc_calibration_tools.storage.save_utils\<close>) is not under src/.  The spec calls its
  result ``a labeled multi-dimensional result array indexed by qubit and idle time'': the
  qubit names and the sweep values passed in become the coordinates, the result handles
  the data.
\<close>

definition fetch_results_as_xarray ::
  "real list list \<Rightarrow> qubit list \<Rightarrow> int list \<Rightarrow> dataset" where
  "fetch_results_as_xarray handles qbs sweep =
     \<lparr> qubit_coord = map name qbs, time_coord = sweep, state_var = handles \<rparr>"

text \<open>\<open>ds.assign_coords({"time": (["time"], vals)})\<close> replaces the time coordinate.\<close>

definition assign_coords_time :: "dataset \<Rightarrow> int list \<Rightarrow> dataset" where
  "assign_coords_time ds vals = ds \<lparr> time_coord := vals \<rparr>"

text \<open>
  What a fit returns for one qubit, along the dimension \<open>fit_vals\<close>; the fit array is
  labelled by qubit name.
\<close>

record fit_vals =
  fv_a :: real
  fv_f :: real
  fv_phi :: real
  fv_offset :: real
  fv_decay :: real
  fv_decay_decay :: real

type_synonym fit_array = "(string \<times> fit_vals) list"

type_synonym data_array = "(string \<times> real) list"

datatype decay_model = DecayExp | DecayGaussian

datatype figure = SamplesFigure | GridFigure decay_model

type_synonym fit_results = "(string \<times> (string \<times> real) list) list"

datatype rvalue =
    VFigure figure
  | VDataset dataset
  | VFitResults fit_results
  | VParameters parameters

text \<open>What \<open>node.save()\<close> persists: the results, the machine and the outcomes.\<close>

record saved_node =
  sv_results :: "(string \<times> rvalue) list"
  sv_machine :: quam
  sv_outcomes :: "(string \<times> string) list"

subsection \<open>The analysis block (lines 206 to 240, repeated at lines 287 to 321)\<close>

text \<open>\<open>fit.sel(fit_vals=...)\<close> picks one fitted value for every qubit.\<close>

definition sel :: "(fit_vals \<Rightarrow> real) \<Rightarrow> fit_array \<Rightarrow> data_array" where
  "sel field fit = map (\<lambda>(q, v). (q, field v)) fit"

text \<open>
  \<open>frequency.where(frequency > 0, drop=True)\<close> on a one-dimensional array: the labels
  whose value fails the condition are removed.
\<close>

definition where_positive_drop :: "data_array \<Rightarrow> data_array" where
  "where_positive_drop xs = filter (\<lambda>(q, x). 0 < x) xs"

text \<open>\<open>arr.loc[label]\<close> raises \<open>KeyError\<close> for a label the array does not have.\<close>

definition loc :: "data_array \<Rightarrow> string \<Rightarrow> error + real" where
  "loc arr q = (case map_of arr q of None \<Rightarrow> Inl (KeyError q) | Some x \<Rightarrow> Inr x)"

definition frequency_of :: "fit_array \<Rightarrow> data_array" where
  "frequency_of fit = where_positive_drop (sel fv_f fit)"

definition tau_of :: "fit_array \<Rightarrow> data_array" where
  "tau_of fit = map (\<lambda>(q, d). (q, 1 / d)) (sel fv_decay fit)"

definition tau_error_of :: "fit_array \<Rightarrow> data_array" where
  "tau_error_of fit =
     map (\<lambda>(q, v). (q, (1 / fv_decay v) * (sqrt (fv_decay_decay v) / fv_decay v))) fit"

definition decay_of :: "fit_array \<Rightarrow> data_array" where
  "decay_of fit = map (\<lambda>(q, t). (q, (1 / 10 ^ 9) * t)) (tau_of fit)"

definition decay_error_of :: "fit_array \<Rightarrow> data_array" where
  "decay_error_of fit = map (\<lambda>(q, t). (q, (1 / 10 ^ 9) * t)) (tau_error_of fit)"

text \<open>The value of the dictionary comprehension for one qubit: its three entries in order.\<close>

definition fit_record :: "fit_array \<Rightarrow> string \<Rightarrow> error + (string \<times> real) list" where
  "fit_record fit q =
     (case loc (frequency_of fit) q of
        Inl e \<Rightarrow> Inl e
      | Inr f \<Rightarrow>
          (case loc (decay_of fit) q of
             Inl e \<Rightarrow> Inl e
           | Inr d \<Rightarrow>
               (case loc (decay_error_of fit) q of
                  Inl e \<Rightarrow> Inl e
                | Inr de \<Rightarrow>
                    Inr [(''freq_offset'', 10 ^ 9 * f), (''decay'', d), (''decay_error'', de)])))"

text \<open>
  \<open>{q.name: {...} for q in qubits}\<close>: the qubits in order, a repeated name overwriting
  the earlier entry in place.
\<close>

fun build_fit_results :: "fit_array \<Rightarrow> qubit list \<Rightarrow> fit_results \<Rightarrow> error + fit_results" where
  "build_fit_results fit [] acc = Inr acc"
| "build_fit_results fit (q # rest) acc =
     (case fit_record fit (name q) of
        Inl e \<Rightarrow> Inl e
      | Inr r \<Rightarrow> build_fit_results fit rest (AList.update (name q) r acc))"

definition make_fit_results :: "fit_array \<Rightarrow> qubit list \<Rightarrow> error + fit_results" where
  "make_fit_results fit qbs = build_fit_results fit qbs []"

section \<open>The script\<close>

subsection \<open>Collaborators\<close>

text \<open>
  What the libraries answer during one run: the machine \<open>Quam.load()\<close> returns; whether
  \<open>machine.connect()\<close>, \<open>qmm.simulate\<close> and the \<open>qm_session\<close>/\<open>qm.execute\<close> pair raise;
  what numpy holds as the sweep when a bound of the sweep does not fit 64 bits; whether
  the statements of the QUA program raise, given the number of qubits, the number of
  averages and the sweep (\<open>for_each_\<close>, for one, indexes the sweep it is given); the answer
  of \<open>results.is_processing()\<close> and of \<open>results.fetch_all()[0]\<close> at the k-th poll; whether
  \<open>progress_counter(n, n_avg)\<close> raises (it divides by the total it is given); the data
  behind \<open>job.result_handles\<close>; the results of the node \<open>load_from_id\<close> finds; the two
  fits; and whether drawing the grid of a fit raises, given the dataset.
\<close>

record env =
  quam_load :: quam
  connect :: "error option"
  np_wide_sweep :: "int \<Rightarrow> int \<Rightarrow> int list"
  build_program :: "nat \<Rightarrow> int \<Rightarrow> int list \<Rightarrow> error option"
  qmm_simulate :: "error option"
  session_execute :: "error option"
  is_processing :: "nat \<Rightarrow> bool"
  fetch_all :: "nat \<Rightarrow> error + int"
  progress_counter :: "int \<Rightarrow> int \<Rightarrow> error option"
  result_handles :: "real list list"
  load_from_id :: "int \<Rightarrow> error + (string \<times> rvalue) list"
  fit_oscillation_decay_exp :: "dataset \<Rightarrow> error + fit_array"
  fit_oscillation_decay_gaussian :: "dataset \<Rightarrow> error + fit_array"
  plot_grid :: "decay_model \<Rightarrow> dataset \<Rightarrow> error option"

text \<open>
  Lines 82 to 89, \<open>(np.arange(min, max, 4) // 4).astype(int)\<close>.  With both bounds in the
  64-bit range \<open>np.arange\<close> builds a 64-bit integer array whose entries lie between the
  bounds, and \<open>//\<close> is floor division, as \<open>div\<close> on \<open>int\<close> is.  With a bound outside that
  range numpy builds the array in another type before \<open>astype(int)\<close> brings it to 64-bit
  integers: what it holds then is the library's answer.
\<close>

definition idle_times :: "env \<Rightarrow> parameters \<Rightarrow> int list" where
  "idle_times env p =
     (if in_int64 (min_wait_time_in_ns p) \<and> in_int64 (max_wait_time_in_ns p)
      then map (\<lambda>x. x div 4) (arange (min_wait_time_in_ns p) (max_wait_time_in_ns p) 4)
      else np_wide_sweep env (min_wait_time_in_ns p) (max_wait_time_in_ns p))"

text \<open>The calls the script makes on its collaborators, in the order it makes them.\<close>

datatype event =
    LoadMachine
  | GenerateConfig
  | Connect
  | BuildProgram nat int "int list"
  | Simulate int
  | PlotSamples
  | Execute
  | IsProcessing bool
  | FetchCounter
  | FetchResults
  | LoadFromId int
  | Fit decay_model
  | Plot decay_model
  | Save

text \<open>
  A piece of the script takes the calls made so far and returns them extended, with a
  value or the exception raised; \<open>None\<close> is a script that never returns.
\<close>

type_synonym 'a script = "event list \<Rightarrow> (event list \<times> (error + 'a)) option"

definition ret :: "'a \<Rightarrow> 'a script" where
  "ret x = (\<lambda>t. Some (t, Inr x))"

definition raise :: "error \<Rightarrow> 'a script" where
  "raise e = (\<lambda>t. Some (t, Inl e))"

definition emit :: "event \<Rightarrow> unit script" where
  "emit ev = (\<lambda>t. Some (t @ [ev], Inr ()))"

definition lift :: "error + 'a \<Rightarrow> 'a script" where
  "lift r = (\<lambda>t. Some (t, r))"

definition may_raise :: "error option \<Rightarrow> unit script" where
  "may_raise r = (case r of None \<Rightarrow> ret () | Some e \<Rightarrow> raise e)"

text \<open>Sequencing: there is no \<open>try\<close> in the script, so the first exception ends it.\<close>

definition and_then :: "'a script \<Rightarrow> ('a \<Rightarrow> 'b script) \<Rightarrow> 'b script" where
  "and_then m f =
     (\<lambda>t. case m t of
             None \<Rightarrow> None
           | Some (t', Inl e) \<Rightarrow> Some (t', Inl e)
           | Some (t', Inr x) \<Rightarrow> f x t')"

subsection \<open>Initialisation (lines 57 to 76)\<close>

definition initialize :: "env \<Rightarrow> parameters \<Rightarrow> qubit list script" where
  "initialize env p =
     and_then (emit LoadMachine) (\<lambda>_.
     and_then (emit GenerateConfig) (\<lambda>_.
     and_then (if load_data_id p = None
               then and_then (emit Connect) (\<lambda>_. may_raise (connect env))
               else ret ()) (\<lambda>_.
     lift (select_qubits (quam_load env) (qubits p)))))"

subsection \<open>Simulation (lines 147 to 162)\<close>

text \<open>\<open>qmm\<close> is bound at line 69 only when \<open>load_data_id\<close> is \<open>None\<close>.\<close>

definition simulate_branch :: "env \<Rightarrow> parameters \<Rightarrow> saved_node script" where
  "simulate_branch env p =
     and_then (if load_data_id p = None then ret () else raise (NameError ''qmm'')) (\<lambda>_.
     and_then (emit (Simulate (simulation_duration_ns p * 4))) (\<lambda>_.
     and_then (may_raise (qmm_simulate env)) (\<lambda>_.
     and_then (emit PlotSamples) (\<lambda>_.
     and_then (emit Save) (\<lambda>_.
     ret \<lparr> sv_results = [(''figure'', VFigure SamplesFigure)],
           sv_machine = quam_load env, sv_outcomes = [] \<rparr>)))))"

subsection \<open>Execution and live polling (lines 164 to 173)\<close>

text \<open>
  The body of the loop at the k-th poll (lines 171 to 173):
  \<open>n = results.fetch_all()[0]; progress_counter(n, n_avg, ...)\<close>, and what it raises.
\<close>

definition poll_body :: "env \<Rightarrow> int \<Rightarrow> nat \<Rightarrow> error option" where
  "poll_body env n_avg k =
     (case fetch_all env k of
        Inl e \<Rightarrow> Some e
      | Inr n \<Rightarrow> progress_counter env n n_avg)"

text \<open>
  \<open>while results.is_processing(): ...\<close>.  The loop runs for as long as the runtime answers
  that the job is processing, unless its body raises.
\<close>

partial_function (option) poll_loop ::
  "env \<Rightarrow> int \<Rightarrow> nat \<Rightarrow> event list \<Rightarrow> (event list \<times> (error + unit)) option" where
  "poll_loop env n_avg k t =
     (if is_processing env k
      then (case poll_body env n_avg k of
              Some e \<Rightarrow> Some (t @ [IsProcessing True, FetchCounter], Inl e)
            | None \<Rightarrow> poll_loop env n_avg (Suc k) (t @ [IsProcessing True, FetchCounter]))
      else Some (t @ [IsProcessing False], Inr ()))"

definition execute_branch :: "env \<Rightarrow> parameters \<Rightarrow> unit script" where
  "execute_branch env p =
     and_then (emit Execute) (\<lambda>_.
     and_then (may_raise (session_execute env)) (\<lambda>_.
     poll_loop env (num_averages p) 0))"

subsection \<open>Data fetching and dataset creation (lines 177 to 190)\<close>

definition loaded_ds :: "(string \<times> rvalue) list \<Rightarrow> error + dataset" where
  "loaded_ds res =
     (case map_of res ''ds'' of
        None \<Rightarrow> Inl (KeyError ''ds'')
      | Some (VDataset d) \<Rightarrow> Inr d
      | Some _ \<Rightarrow> Inl (AttributeError ''state''))"

text \<open>Lines 180 to 183; the time coordinate is the 64-bit product \<open>4 * idle_times\<close>.\<close>

definition hardware_dataset :: "env \<Rightarrow> parameters \<Rightarrow> qubit list \<Rightarrow> dataset" where
  "hardware_dataset env p qbs =
     assign_coords_time
       (fetch_results_as_xarray (result_handles env) qbs (idle_times env p))
       (map (int64_mult 4) (idle_times env p))"

definition data_fetching :: "env \<Rightarrow> parameters \<Rightarrow> qubit list \<Rightarrow> dataset script" where
  "data_fetching env p qbs =
     (case load_data_id p of
        None \<Rightarrow> and_then (emit FetchResults) (\<lambda>_. ret (hardware_dataset env p qbs))
      | Some i \<Rightarrow>
          and_then (emit (LoadFromId i)) (\<lambda>_.
          and_then (lift (load_from_id env i)) (\<lambda>res.
          lift (loaded_ds res))))"

subsection \<open>Analysis and plotting (lines 193 to 272 and lines 274 to 353)\<close>

text \<open>
  The two blocks are the same text but for the fit they call and the key the figure is
  stored under; both store their record under \<open>"fit_results"\<close>.
\<close>

definition fit_with :: "env \<Rightarrow> decay_model \<Rightarrow> dataset \<Rightarrow> error + fit_array" where
  "fit_with env m ds =
     (case m of
        DecayExp \<Rightarrow> fit_oscillation_decay_exp env ds
      | DecayGaussian \<Rightarrow> fit_oscillation_decay_gaussian env ds)"

definition figure_key :: "decay_model \<Rightarrow> string" where
  "figure_key m = (case m of DecayExp \<Rightarrow> ''figure'' | DecayGaussian \<Rightarrow> ''figure_gaussian'')"

text \<open>
  The grid of the fit is drawn qubit by qubit (lines 248 to 268) before the title is set.
  \<open>date_time\<close>, which the title formats (line 269), is bound at line 165 only, inside the
  branch taken when \<open>load_data_id\<close> is \<open>None\<close>.  The figure is stored after that.
\<close>

definition analysis_block ::
  "env \<Rightarrow> parameters \<Rightarrow> qubit list \<Rightarrow> dataset \<Rightarrow> decay_model \<Rightarrow>
   (string \<times> rvalue) list \<Rightarrow> (string \<times> rvalue) list script" where
  "analysis_block env p qbs ds m results =
     and_then (emit (Fit m)) (\<lambda>_.
     and_then (lift (fit_with env m ds)) (\<lambda>fit.
     and_then (lift (make_fit_results fit qbs)) (\<lambda>fr.
     and_then (emit (Plot m)) (\<lambda>_.
     and_then (may_raise (plot_grid env m ds)) (\<lambda>_.
     and_then (if load_data_id p = None then ret () else raise (NameError ''date_time'')) (\<lambda>_.
     ret (AList.update (figure_key m) (VFigure (GridFigure m))
           (AList.update ''fit_results'' (VFitResults fr) results))))))))"

subsection \<open>Saving (lines 356 to 360) and the whole script\<close>

definition outcomes_of :: "qubit list \<Rightarrow> (string \<times> string) list" where
  "outcomes_of qbs = foldl (\<lambda>acc q. AList.update (name q) ''successful'' acc) [] qbs"

definition analyse_and_save :: "env \<Rightarrow> parameters \<Rightarrow> qubit list \<Rightarrow> saved_node script" where
  "analyse_and_save env p qbs =
     and_then (data_fetching env p qbs) (\<lambda>ds.
     and_then (analysis_block env p qbs ds DecayExp [(''ds'', VDataset ds)]) (\<lambda>r1.
     and_then (analysis_block env p qbs ds DecayGaussian r1) (\<lambda>r2.
     and_then (emit Save) (\<lambda>_.
     ret \<lparr> sv_results = AList.update ''initial_parameters'' (VParameters p) r2,
           sv_machine = quam_load env, sv_outcomes = outcomes_of qbs \<rparr>))))"

definition script :: "env \<Rightarrow> parameters \<Rightarrow> saved_node script" where
  "script env p =
     and_then (initialize env p) (\<lambda>qbs.
     and_then (emit (BuildProgram (length qbs) (num_averages p) (idle_times env p))) (\<lambda>_.
     and_then (may_raise (build_program env (length qbs) (num_averages p) (idle_times env p))) (\<lambda>_.
     if simulate p then simulate_branch env p
     else and_then (if load_data_id p = None then execute_branch env p else ret ()) (\<lambda>_.
          analyse_and_save env p qbs))))"

definition run :: "env \<Rightarrow> parameters \<Rightarrow> (event list \<times> (error + saved_node)) option" where
  "run env p = script env p []"

text \<open>The calls of a run that returns, and what it saved, if it saved.\<close>

definition trace_of :: "env \<Rightarrow> parameters \<Rightarrow> event list option" where
  "trace_of env p = map_option fst (run env p)"

definition saved_of :: "env \<Rightarrow> parameters \<Rightarrow> saved_node option" where
  "saved_of env p =
     (case run env p of Some (t, Inr sv) \<Rightarrow> Some sv | _ \<Rightarrow> None)"

definition raised_of :: "env \<Rightarrow> parameters \<Rightarrow> error option" where
  "raised_of env p =
     (case run env p of Some (t, Inl e) \<Rightarrow> Some e | _ \<Rightarrow> None)"

section \<open>The QUA program (lines 96 to 142)\<close>

text \<open>
  The integer variables of the program and its streams.  The pulse statements (\<open>play\<close>,
  \<open>wait\<close>, \<open>frame_rotation_2pi\<close>, \<open>align\<close>, \<open>reset_frame\<close>) act on the hardware and on no
  variable; what they make the qubit do shows in the value \<open>readout_state\<close> assigns, which
  is an input here: \<open>rd i n k\<close> is the state read for qubit \<open>i\<close> in averaging iteration
  \<open>n\<close> at the \<open>k\<close>-th idle time.  QUA integers are 32 bits wide.
\<close>

record qua_state =
  n_st :: "int list"
  init_state :: "32 word list"
  state :: "32 word list"
  final_state :: "32 word list"
  state_st :: "32 word list list"

text \<open>
  \<open>declare(int)\<close> gives no initial value: \<open>mem j\<close> stands for what the \<open>j\<close>-th declared
  variable holds before its first assignment.
\<close>

definition qua_declare :: "nat \<Rightarrow> (nat \<Rightarrow> 32 word) \<Rightarrow> qua_state" where
  "qua_declare num_qubits mem =
     \<lparr> n_st = [],
       init_state = map mem [0 ..< num_qubits],
       state = map mem [num_qubits ..< 2 * num_qubits],
       final_state = map mem [2 * num_qubits ..< 3 * num_qubits],
       state_st = replicate num_qubits [] \<rparr>"

text \<open>The variable lists of a program declared for \<open>num_qubits\<close> qubits have that length.\<close>

definition declared_for :: "nat \<Rightarrow> qua_state \<Rightarrow> bool" where
  "declared_for num_qubits s \<longleftrightarrow>
     length (init_state s) = num_qubits \<and> length (state s) = num_qubits \<and>
     length (final_state s) = num_qubits \<and> length (state_st s) = num_qubits"

text \<open>Lines 129 to 132: one measurement of qubit \<open>i\<close> reading \<open>r\<close>.\<close>

definition shot :: "nat \<Rightarrow> 32 word \<Rightarrow> qua_state \<Rightarrow> qua_state" where
  "shot i r s =
     (let s1 = s \<lparr> state := (state s)[i := r] \<rparr>;
          s2 = s1 \<lparr> final_state := (final_state s1)[i := (init_state s1 ! i) XOR (state s1 ! i)] \<rparr>;
          s3 = s2 \<lparr> state_st := (state_st s2)[i := state_st s2 ! i @ [final_state s2 ! i]] \<rparr>
      in s3 \<lparr> init_state := (init_state s3)[i := state s3 ! i] \<rparr>)"

text \<open>\<open>with for_each_(t, idle_times)\<close>, the position \<open>k\<close> counting the idle times done.\<close>

fun for_each_idle ::
  "nat \<Rightarrow> (nat \<Rightarrow> 32 word) \<Rightarrow> nat \<Rightarrow> int list \<Rightarrow> qua_state \<Rightarrow> qua_state" where
  "for_each_idle i rd k [] s = s"
| "for_each_idle i rd k (t # ts) s = for_each_idle i rd (Suc k) ts (shot i (rd k) s)"

text \<open>\<open>with for_(n, 0, n < n_avg, n + 1)\<close>, which first saves \<open>n\<close> to its stream.\<close>

function for_n ::
  "nat \<Rightarrow> (int \<Rightarrow> nat \<Rightarrow> 32 word) \<Rightarrow> int \<Rightarrow> int \<Rightarrow> int list \<Rightarrow> qua_state \<Rightarrow> qua_state" where
  "for_n i rd n n_avg ts s =
     (if n < n_avg
      then for_n i rd (n + 1) n_avg ts (for_each_idle i (rd n) 0 ts (s \<lparr> n_st := n_st s @ [n] \<rparr>))
      else s)"
  by pat_completeness auto
termination
  by (relation "measure (\<lambda>(i, rd, n, n_avg, ts, s). nat (n_avg - n))") auto

declare for_n.simps [simp del]

text \<open>\<open>for i, qubit in enumerate(qubits)\<close>: one block after the other.\<close>

definition ramsey ::
  "(nat \<Rightarrow> int \<Rightarrow> nat \<Rightarrow> 32 word) \<Rightarrow> (nat \<Rightarrow> 32 word) \<Rightarrow> nat \<Rightarrow> int \<Rightarrow> int list \<Rightarrow> qua_state" where
  "ramsey rd mem num_qubits n_avg ts =
     foldl (\<lambda>s i. for_n i (rd i) 0 n_avg ts s) (qua_declare num_qubits mem) [0 ..< num_qubits]"

text \<open>\<open>node.results[key]\<close> and \<open>node.machine\<close> of the node a run saved.\<close>

definition saved_result :: "env \<Rightarrow> parameters \<Rightarrow> string \<Rightarrow> rvalue option" where
  "saved_result env p key =
     (case saved_of env p of None \<Rightarrow> None | Some sv \<Rightarrow> map_of (sv_results sv) key)"

definition saved_machine :: "env \<Rightarrow> parameters \<Rightarrow> quam option" where
  "saved_machine env p = map_option sv_machine (saved_of env p)"

section \<open>Concrete runs\<close>

text \<open>
  A machine with two qubits, a hardware run on the first of them whose job is still
  processing at the first two polls, and the output of the two fits.  The libraries of
  \<open>env0\<close> raise where the installed ones do: \<open>for_each_\<close> on an empty sweep, the progress
  counter on a total of zero, the plot of a dataset with a single idle time.
\<close>

definition qD1 :: qubit where
  "qD1 = \<lparr> name = ''qD1'', grid_location = ''0,0'', f_01 = 5000000000, T2ramsey = 1 / 200000 \<rparr>"

definition qD2 :: qubit where
  "qD2 = \<lparr> name = ''qD2'', grid_location = ''1,0'', f_01 = 5100000000, T2ramsey = 1 / 250000 \<rparr>"

definition machine0 :: quam where
  "machine0 = \<lparr> machine_qubits = [(''qD1'', qD1), (''qD2'', qD2)], active_qubits = [qD1, qD2] \<rparr>"

definition exp_fit0 :: fit_array where
  "exp_fit0 = [(''qD1'', \<lparr> fv_a = 1 / 2, fv_f = 1 / 200, fv_phi = 0, fv_offset = 1 / 2,
                            fv_decay = 1 / 1000, fv_decay_decay = 0 \<rparr>)]"

definition gauss_fit0 :: fit_array where
  "gauss_fit0 = [(''qD1'', \<lparr> fv_a = 1 / 2, fv_f = 1 / 250, fv_phi = 0, fv_offset = 1 / 2,
                              fv_decay = 1 / 2000, fv_decay_decay = 0 \<rparr>)]"

definition env0 :: env where
  "env0 = \<lparr> quam_load = machine0, connect = None, np_wide_sweep = (\<lambda>a b. []),
     build_program =
       (\<lambda>nq n ts. if 0 < nq \<and> ts = [] then Some (IndexError ''list index out of range'')
                   else None),
     qmm_simulate = None, session_execute = None,
     is_processing = (\<lambda>k. k < 2), fetch_all = (\<lambda>k. Inr (int k)),
     progress_counter =
       (\<lambda>n total. if total = 0 then Some (ZeroDivisionError ''division by zero'') else None),
     result_handles = [[1, 0]],
     load_from_id = (\<lambda>i. Inl (LibraryError ''no such node'')),
     fit_oscillation_decay_exp = (\<lambda>ds. Inr exp_fit0),
     fit_oscillation_decay_gaussian = (\<lambda>ds. Inr gauss_fit0),
     plot_grid =
       (\<lambda>m ds. if length (time_coord ds) = 1 then Some (TypeError ''plot of one point'')
                 else None) \<rparr>"

definition params0 :: parameters where
  "params0 = Parameters \<lparr> min_wait_time_in_ns := 16, max_wait_time_in_ns := 24 \<rparr>"

text \<open>The results of a stored node, for a run with \<open>load_data_id\<close>.\<close>

definition stored0 :: "(string \<times> rvalue) list" where
  "stored0 = [(''ds'', VDataset \<lparr> qubit_coord = [''qD1''], time_coord = [16, 20],
                                      state_var = [[1, 0]] \<rparr>)]"

section \<open>Properties of the script's building blocks\<close>

lemmas script_defs = run_def script_def initialize_def and_then_def emit_def ret_def raise_def
  lift_def may_raise_def simulate_branch_def execute_branch_def data_fetching_def
  analysis_block_def analyse_and_save_def trace_of_def saved_of_def raised_of_def
  saved_result_def saved_machine_def

lemmas example_defs = env0_def params0_def Parameters_def machine0_def qD1_def qD2_def
  exp_fit0_def gauss_fit0_def select_qubits_def idle_times_def in_int64_def int64_mult_def
  arange.simps poll_loop.simps poll_body_def
  fit_with_def figure_key_def make_fit_results_def fit_record_def loc_def frequency_of_def
  decay_of_def decay_error_of_def tau_of_def tau_error_of_def sel_def where_positive_drop_def
  hardware_dataset_def fetch_results_as_xarray_def assign_coords_time_def outcomes_of_def
  loaded_ds_def stored0_def

lemma poll_loop_skip:
  "\<forall>i<j. is_processing env (k + i) \<and> poll_body env n_avg (k + i) = None \<Longrightarrow>
   poll_loop env n_avg k t =
     poll_loop env n_avg (k + j) (t @ concat (replicate j [IsProcessing True, FetchCounter]))"
proof (induction j arbitrary: k t)
  case 0
  then show ?case by simp
next
  case (Suc j)
  have first: "is_processing env k" "poll_body env n_avg k = None"
    using Suc.prems [rule_format, of 0] by simp_all
  have before: "\<forall>i<j. is_processing env (Suc k + i) \<and> poll_body env n_avg (Suc k + i) = None"
  proof (intro allI impI)
    fix i assume "i < j"
    then have "Suc i < Suc j" by simp
    from Suc.prems [rule_format, OF this]
    show "is_processing env (Suc k + i) \<and> poll_body env n_avg (Suc k + i) = None" by simp
  qed
  have "poll_loop env n_avg k t =
      poll_loop env n_avg (Suc k) (t @ [IsProcessing True, FetchCounter])"
    using first by (subst poll_loop.simps) simp
  also have "\<dots> = poll_loop env n_avg (Suc k + j)
      ((t @ [IsProcessing True, FetchCounter]) @
       concat (replicate j [IsProcessing True, FetchCounter]))"
    by (rule Suc.IH [OF before])
  finally show ?case by simp
qed

lemma poll_loop_finish:
  assumes "\<not> is_processing env (k + j)"
    and "\<forall>i<j. is_processing env (k + i) \<and> poll_body env n_avg (k + i) = None"
  shows "poll_loop env n_avg k t =
     Some (t @ concat (replicate j [IsProcessing True, FetchCounter]) @ [IsProcessing False], Inr ())"
  unfolding poll_loop_skip [OF assms(2)] using assms(1) by (subst poll_loop.simps) simp

lemma poll_loop_raises:
  assumes "is_processing env (k + j)" and "poll_body env n_avg (k + j) = Some e"
    and "\<forall>i<j. is_processing env (k + i) \<and> poll_body env n_avg (k + i) = None"
  shows "poll_loop env n_avg k t =
     Some (t @ concat (replicate j [IsProcessing True, FetchCounter]) @
           [IsProcessing True, FetchCounter], Inl e)"
  unfolding poll_loop_skip [OF assms(3)] using assms(1,2) by (subst poll_loop.simps) simp

lemma poll_loop_stops:
  assumes "poll_loop env n_avg k t = Some r"
  shows "\<exists>j. \<not> is_processing env (k + j) \<or> poll_body env n_avg (k + j) \<noteq> None"
proof -
  have step: "\<exists>j. \<not> is_processing env (k + j) \<or> poll_body env n_avg (k + j) \<noteq> None"
    if IH: "\<And>env n_avg k t r. f env n_avg k t = Some r \<Longrightarrow>
         \<exists>j. \<not> is_processing env (k + j) \<or> poll_body env n_avg (k + j) \<noteq> None"
    and body: "(if is_processing env k
                then (case poll_body env n_avg k of
                        None \<Rightarrow> f env n_avg (Suc k) (t @ [IsProcessing True, FetchCounter])
                      | Some e \<Rightarrow> Some (t @ [IsProcessing True, FetchCounter], Inl e))
                else Some (t @ [IsProcessing False], Inr ())) = Some r"
    for f env n_avg k and t :: "event list" and r :: "event list \<times> (error + unit)"
  proof (cases "is_processing env k \<and> poll_body env n_avg k = None")
    case True
    with body have "f env n_avg (Suc k) (t @ [IsProcessing True, FetchCounter]) = Some r" by simp
    from IH [OF this] obtain j where
      "\<not> is_processing env (Suc k + j) \<or> poll_body env n_avg (Suc k + j) \<noteq> None" ..
    then have "\<not> is_processing env (k + Suc j) \<or> poll_body env n_avg (k + Suc j) \<noteq> None"
      by simp
    then show ?thesis by (rule exI)
  next
    case False
    then have "\<not> is_processing env (k + 0) \<or> poll_body env n_avg (k + 0) \<noteq> None" by simp
    then show ?thesis by (rule exI)
  qed
  show ?thesis
    by (rule poll_loop.raw_induct [where P = "\<lambda>env n_avg k t r.
          \<exists>j. \<not> is_processing env (k + j) \<or> poll_body env n_avg (k + j) \<noteq> None", OF step assms])
qed

lemma poll_loop_Some:
  assumes "poll_loop env n_avg k t = Some r"
  obtains (finished) j where
      "\<forall>i<j. is_processing env (k + i) \<and> poll_body env n_avg (k + i) = None"
      "\<not> is_processing env (k + j)"
      "r = (t @ concat (replicate j [IsProcessing True, FetchCounter]) @ [IsProcessing False],
            Inr ())"
  | (raised) j e where
      "\<forall>i<j. is_processing env (k + i) \<and> poll_body env n_avg (k + i) = None"
      "is_processing env (k + j)" "poll_body env n_avg (k + j) = Some e"
      "r = (t @ concat (replicate j [IsProcessing True, FetchCounter]) @
            [IsProcessing True, FetchCounter], Inl e)"
proof -
  let ?S = "\<lambda>j. \<not> is_processing env (k + j) \<or> poll_body env n_avg (k + j) \<noteq> None"
  from poll_loop_stops [OF assms] obtain j0 where j0: "?S j0" ..
  define j where "j = (LEAST j. ?S j)"
  have stop: "?S j" unfolding j_def using j0 by (rule LeastI)
  have before: "\<forall>i<j. is_processing env (k + i) \<and> poll_body env n_avg (k + i) = None"
  proof (intro allI impI)
    fix i assume "i < j"
    then have "\<not> ?S i" unfolding j_def by (rule not_less_Least)
    then show "is_processing env (k + i) \<and> poll_body env n_avg (k + i) = None" by simp
  qed
  show thesis
  proof (cases "is_processing env (k + j)")
    case False
    from poll_loop_finish [OF False before, of t] assms
    have "r = (t @ concat (replicate j [IsProcessing True, FetchCounter]) @ [IsProcessing False],
            Inr ())" by simp
    with before False show thesis by (rule finished)
  next
    case True
    with stop obtain e where e: "poll_body env n_avg (k + j) = Some e" by auto
    from poll_loop_raises [OF True e before, of t] assms
    have "r = (t @ concat (replicate j [IsProcessing True, FetchCounter]) @
            [IsProcessing True, FetchCounter], Inl e)" by simp
    with before True e show thesis by (rule raised)
  qed
qed


lemma and_then_InrE:
  assumes "and_then m f t = Some (t'', Inr y)"
  obtains t' x where "m t = Some (t', Inr x)" and "f x t' = Some (t'', Inr y)"
  using assms by (auto simp: and_then_def split: option.splits sum.splits)

lemma and_then_cases:
  assumes "and_then m f t = Some (t'', r)"
  obtains (raised) e where "m t = Some (t'', Inl e)" and "r = Inl e"
    | (went_on) t' x where "m t = Some (t', Inr x)" and "f x t' = Some (t'', r)"
  using assms by (auto simp: and_then_def split: option.splits sum.splits)

lemma emit_Some [simp]: "emit ev t = Some (t', r) \<longleftrightarrow> t' = t @ [ev] \<and> r = Inr ()"
  by (auto simp: emit_def)

lemma ret_Some [simp]: "ret x t = Some (t', r) \<longleftrightarrow> t' = t \<and> r = Inr x"
  by (auto simp: ret_def)

lemma raise_Some [simp]: "raise e t = Some (t', r) \<longleftrightarrow> t' = t \<and> r = Inl e"
  by (auto simp: raise_def)

lemma lift_Some [simp]: "lift v t = Some (t', r) \<longleftrightarrow> t' = t \<and> r = v"
  by (auto simp: lift_def)

lemma may_raise_Some [simp]:
  "may_raise c t = Some (t', r) \<longleftrightarrow> t' = t \<and> r = (case c of None \<Rightarrow> Inr () | Some e \<Rightarrow> Inl e)"
  by (auto simp: may_raise_def split: option.splits)

lemma execute_branch_eq:
  "execute_branch env p t =
     (case session_execute env of
        Some e \<Rightarrow> Some (t @ [Execute], Inl e)
      | None \<Rightarrow> poll_loop env (num_averages p) 0 (t @ [Execute]))"
  by (simp add: execute_branch_def and_then_def emit_def may_raise_def ret_def raise_def
      split: option.splits)

lemma execute_branch_Some:
  assumes "execute_branch env p t = Some (t', r)"
  obtains (session_raised) e where "session_execute env = Some e"
      "t' = t @ [Execute]" "r = Inl e"
  | (finished) j where "session_execute env = None"
      "\<forall>i<j. is_processing env i \<and> poll_body env (num_averages p) i = None"
      "\<not> is_processing env j"
      "t' = t @ [Execute] @ concat (replicate j [IsProcessing True, FetchCounter]) @
            [IsProcessing False]" "r = Inr ()"
  | (poll_raised) j e where "session_execute env = None"
      "\<forall>i<j. is_processing env i \<and> poll_body env (num_averages p) i = None"
      "is_processing env j" "poll_body env (num_averages p) j = Some e"
      "t' = t @ [Execute] @ concat (replicate j [IsProcessing True, FetchCounter]) @
            [IsProcessing True, FetchCounter]" "r = Inl e"
proof (cases "session_execute env")
  case (Some e)
  with assms have "t' = t @ [Execute]" "r = Inl e" by (simp_all add: execute_branch_eq)
  with Some show thesis by (rule session_raised)
next
  case None
  with assms have pl: "poll_loop env (num_averages p) 0 (t @ [Execute]) = Some (t', r)"
    by (simp add: execute_branch_eq)
  from pl show thesis
  proof (cases rule: poll_loop_Some)
    case (finished j)
    from finished(1) have "\<forall>i<j. is_processing env i \<and> poll_body env (num_averages p) i = None"
      by simp
    moreover from finished(2) have "\<not> is_processing env j" by simp
    moreover from finished(3) have "t' = t @ [Execute] @
        concat (replicate j [IsProcessing True, FetchCounter]) @ [IsProcessing False]"
      and "r = Inr ()" by simp_all
    ultimately show thesis using None by (intro that(2))
  next
    case (raised j e)
    from raised(1) have "\<forall>i<j. is_processing env i \<and> poll_body env (num_averages p) i = None"
      by simp
    moreover from raised(2,3) have "is_processing env j" "poll_body env (num_averages p) j = Some e"
      by simp_all
    moreover from raised(4) have "t' = t @ [Execute] @
        concat (replicate j [IsProcessing True, FetchCounter]) @ [IsProcessing True, FetchCounter]"
      and "r = Inl e" by simp_all
    ultimately show thesis using None by (intro that(3))
  qed
qed

lemma execute_branch_Inr:
  assumes "execute_branch env p t = Some (t', Inr u)"
  shows "session_execute env = None \<and>
    (\<exists>j. \<not> is_processing env j \<and>
       (\<forall>i<j. is_processing env i \<and> poll_body env (num_averages p) i = None) \<and>
       t' = t @ [Execute] @ concat (replicate j [IsProcessing True, FetchCounter]) @ [IsProcessing False])"
  using assms by (cases rule: execute_branch_Some) auto

lemma analysis_block_Inr:
  assumes "analysis_block env p qbs ds m res t = Some (t', Inr res')"
  shows "load_data_id p = None \<and> plot_grid env m ds = None \<and>
    (\<exists>fit fr. fit_with env m ds = Inr fit \<and> make_fit_results fit qbs = Inr fr \<and>
       t' = t @ [Fit m, Plot m] \<and>
       res' = AList.update (figure_key m) (VFigure (GridFigure m))
                (AList.update ''fit_results'' (VFitResults fr) res))"
  using assms
  by (auto simp: analysis_block_def and_then_def emit_def lift_def ret_def raise_def may_raise_def
      split: option.splits sum.splits if_splits)

lemma analyse_and_save_Inr:
  assumes "analyse_and_save env p qbs t = Some (t', Inr sv)"
  shows "load_data_id p = None \<and>
    (\<exists>efit gfit fr1 fr2.
       fit_oscillation_decay_exp env (hardware_dataset env p qbs) = Inr efit \<and>
       make_fit_results efit qbs = Inr fr1 \<and>
       fit_oscillation_decay_gaussian env (hardware_dataset env p qbs) = Inr gfit \<and>
       make_fit_results gfit qbs = Inr fr2 \<and>
       plot_grid env DecayExp (hardware_dataset env p qbs) = None \<and>
       plot_grid env DecayGaussian (hardware_dataset env p qbs) = None \<and>
       t' = t @ [FetchResults, Fit DecayExp, Plot DecayExp, Fit DecayGaussian, Plot DecayGaussian, Save] \<and>
       sv = \<lparr> sv_results =
                [(''ds'', VDataset (hardware_dataset env p qbs)),
                 (''fit_results'', VFitResults fr2),
                 (''figure'', VFigure (GridFigure DecayExp)),
                 (''figure_gaussian'', VFigure (GridFigure DecayGaussian)),
                 (''initial_parameters'', VParameters p)],
              sv_machine = quam_load env, sv_outcomes = outcomes_of qbs \<rparr>)"
proof -
  from assms obtain t1 ds t2 r1 t3 r2 where
    df: "data_fetching env p qbs t = Some (t1, Inr ds)" and
    a1: "analysis_block env p qbs ds DecayExp [(''ds'', VDataset ds)] t1 = Some (t2, Inr r1)" and
    a2: "analysis_block env p qbs ds DecayGaussian r1 t2 = Some (t3, Inr r2)" and
    fin: "t' = t3 @ [Save]"
      "sv = \<lparr> sv_results = AList.update ''initial_parameters'' (VParameters p) r2,
              sv_machine = quam_load env, sv_outcomes = outcomes_of qbs \<rparr>"
    unfolding analyse_and_save_def by (elim and_then_InrE) auto
  from analysis_block_Inr [OF a1] have ld: "load_data_id p = None" by simp
  with df have ds: "ds = hardware_dataset env p qbs" and t1: "t1 = t @ [FetchResults]"
    by (auto simp: data_fetching_def and_then_def emit_def ret_def)
  from analysis_block_Inr [OF a1] analysis_block_Inr [OF a2] ld ds t1 fin
  show ?thesis
    by (auto simp: fit_with_def figure_key_def)
qed


lemma initialize_eq:
  "initialize env p t =
     Some (t @ [LoadMachine, GenerateConfig] @ (if load_data_id p = None then [Connect] else []),
           if load_data_id p = None
           then (case connect env of
                   None \<Rightarrow> select_qubits (quam_load env) (qubits p)
                 | Some e \<Rightarrow> Inl e)
           else select_qubits (quam_load env) (qubits p))"
  by (simp add: initialize_def and_then_def emit_def may_raise_def ret_def raise_def lift_def
      split: option.splits)

lemma run_saved_not_simulated:
  assumes ns: "\<not> simulate p" and run: "run env p = Some (tr, Inr sv)"
  obtains qbs efit gfit fr1 fr2 j where
    "load_data_id p = None" and "connect env = None" and "session_execute env = None" and
    "select_qubits (quam_load env) (qubits p) = Inr qbs" and
    "\<not> is_processing env j" and "\<forall>i<j. is_processing env i" and
    "fit_oscillation_decay_exp env (hardware_dataset env p qbs) = Inr efit" and
    "make_fit_results efit qbs = Inr fr1" and
    "fit_oscillation_decay_gaussian env (hardware_dataset env p qbs) = Inr gfit" and
    "make_fit_results gfit qbs = Inr fr2" and
    "tr = [LoadMachine, GenerateConfig, Connect,
           BuildProgram (length qbs) (num_averages p) (idle_times env p), Execute] @
          concat (replicate j [IsProcessing True, FetchCounter]) @
          [IsProcessing False, FetchResults, Fit DecayExp, Plot DecayExp,
           Fit DecayGaussian, Plot DecayGaussian, Save]" and
    "sv = \<lparr> sv_results =
              [(''ds'', VDataset (hardware_dataset env p qbs)),
               (''fit_results'', VFitResults fr2),
               (''figure'', VFigure (GridFigure DecayExp)),
               (''figure_gaussian'', VFigure (GridFigure DecayGaussian)),
               (''initial_parameters'', VParameters p)],
            sv_machine = quam_load env, sv_outcomes = outcomes_of qbs \<rparr>" and
    "build_program env (length qbs) (num_averages p) (idle_times env p) = None" and
    "\<forall>i<j. poll_body env (num_averages p) i = None" and
    "plot_grid env DecayExp (hardware_dataset env p qbs) = None" and
    "plot_grid env DecayGaussian (hardware_dataset env p qbs) = None"
proof -
  from run ns obtain t1 qbs t2 u where
    init: "initialize env p [] = Some (t1, Inr qbs)" and
    bp: "build_program env (length qbs) (num_averages p) (idle_times env p) = None" and
    ex: "(if load_data_id p = None then execute_branch env p else ret ())
           (t1 @ [BuildProgram (length qbs) (num_averages p) (idle_times env p)]) = Some (t2, Inr u)" and
    an: "analyse_and_save env p qbs t2 = Some (tr, Inr sv)"
    unfolding run_def script_def by (auto elim!: and_then_InrE split: option.splits)
  from analyse_and_save_Inr [OF an] obtain efit gfit fr1 fr2 where
    ld: "load_data_id p = None" and
    fits: "fit_oscillation_decay_exp env (hardware_dataset env p qbs) = Inr efit"
      "make_fit_results efit qbs = Inr fr1"
      "fit_oscillation_decay_gaussian env (hardware_dataset env p qbs) = Inr gfit"
      "make_fit_results gfit qbs = Inr fr2" and
    plots: "plot_grid env DecayExp (hardware_dataset env p qbs) = None"
      "plot_grid env DecayGaussian (hardware_dataset env p qbs) = None" and
    tr: "tr = t2 @ [FetchResults, Fit DecayExp, Plot DecayExp, Fit DecayGaussian,
                    Plot DecayGaussian, Save]" and
    sv: "sv = \<lparr> sv_results =
              [(''ds'', VDataset (hardware_dataset env p qbs)),
               (''fit_results'', VFitResults fr2),
               (''figure'', VFigure (GridFigure DecayExp)),
               (''figure_gaussian'', VFigure (GridFigure DecayGaussian)),
               (''initial_parameters'', VParameters p)],
            sv_machine = quam_load env, sv_outcomes = outcomes_of qbs \<rparr>"
    by blast
  from init ld have conn: "connect env = None"
    and sel: "select_qubits (quam_load env) (qubits p) = Inr qbs"
    and t1: "t1 = [LoadMachine, GenerateConfig, Connect]"
    by (auto simp: initialize_eq split: option.splits)
  from ex ld have "execute_branch env p
      (t1 @ [BuildProgram (length qbs) (num_averages p) (idle_times env p)]) = Some (t2, Inr u)"
    by simp
  from execute_branch_Inr [OF this] obtain j where
    sess: "session_execute env = None" and
    j: "\<not> is_processing env j"
      "\<forall>i<j. is_processing env i \<and> poll_body env (num_averages p) i = None" and
    t2: "t2 = (t1 @ [BuildProgram (length qbs) (num_averages p) (idle_times env p)]) @ [Execute] @
           concat (replicate j [IsProcessing True, FetchCounter]) @ [IsProcessing False]"
    by blast
  from j(2) have j1: "\<forall>i<j. is_processing env i"
    and j2: "\<forall>i<j. poll_body env (num_averages p) i = None" by simp_all
  show thesis
    by (rule that [OF ld conn sess sel j(1) j1 fits _ sv bp j2 plots]) (simp add: tr t2 t1)
qed

lemma run_simulated:
  assumes sim: "simulate p" and run: "run env p = Some (tr, r)"
  shows "FetchResults \<notin> set tr" and "LoadFromId i \<notin> set tr" and "Fit m \<notin> set tr"
    and "r = Inr sv \<Longrightarrow>
         sv = \<lparr> sv_results = [(''figure'', VFigure SamplesFigure)],
                sv_machine = quam_load env, sv_outcomes = [] \<rparr>"
  using assms
  by (auto simp: run_def script_def initialize_eq simulate_branch_def and_then_def emit_def
      may_raise_def ret_def raise_def lift_def split: option.splits sum.splits if_splits)

subsection \<open>The concrete runs, evaluated\<close>

lemma run_env0:
  "run env0 params0 =
     Some ([LoadMachine, GenerateConfig, Connect, BuildProgram 1 1500 [4, 5], Execute,
            IsProcessing True, FetchCounter, IsProcessing True, FetchCounter,
            IsProcessing False, FetchResults, Fit DecayExp, Plot DecayExp,
            Fit DecayGaussian, Plot DecayGaussian, Save],
           Inr \<lparr> sv_results =
                   [(''ds'', VDataset \<lparr> qubit_coord = [''qD1''], time_coord = [16, 20],
                                         state_var = [[1, 0]] \<rparr>),
                    (''fit_results'',
                     VFitResults [(''qD1'', [(''freq_offset'', 4000000), (''decay'', 1 / 500000),
                                             (''decay_error'', 0)])]),
                    (''figure'', VFigure (GridFigure DecayExp)),
                    (''figure_gaussian'', VFigure (GridFigure DecayGaussian)),
                    (''initial_parameters'', VParameters params0)],
                 sv_machine = machine0, sv_outcomes = [(''qD1'', ''successful'')] \<rparr>)"
  by (simp add: script_defs example_defs)

lemma run_env0_simulate:
  "run env0 (params0 \<lparr> simulate := True \<rparr>) =
     Some ([LoadMachine, GenerateConfig, Connect, BuildProgram 1 1500 [4, 5], Simulate 10000,
            PlotSamples, Save],
           Inr \<lparr> sv_results = [(''figure'', VFigure SamplesFigure)],
                 sv_machine = machine0, sv_outcomes = [] \<rparr>)"
  by (simp add: script_defs example_defs)

lemma exp_record0:
  "make_fit_results exp_fit0 [qD1] =
     Inr [(''qD1'', [(''freq_offset'', 5000000), (''decay'', 1 / 1000000), (''decay_error'', 0)])]"
  by (simp add: example_defs)

lemma lookup_qubits_present:
  "\<forall>n\<in>set names. map_of (machine_qubits m) n \<noteq> None \<Longrightarrow>
   lookup_qubits m names = Inr (map (\<lambda>n. the (map_of (machine_qubits m) n)) names)"
  by (induction names) auto

lemma lookup_qubits_absent:
  "\<forall>x\<in>set pre. map_of (machine_qubits m) x \<noteq> None \<Longrightarrow> map_of (machine_qubits m) n = None \<Longrightarrow>
   lookup_qubits m (pre @ n # post) = Inl (KeyError n)"
  by (induction pre) auto

lemma fit_record_keys:
  "fit_record fit k = Inr r \<Longrightarrow> map fst r = [''freq_offset'', ''decay'', ''decay_error'']"
  by (auto simp: fit_record_def split: sum.splits)

lemma build_fit_results_map_of:
  "build_fit_results fit qbs acc = Inr fr \<Longrightarrow>
   map_of fr k = (if k \<in> name ` set qbs
                  then (case fit_record fit k of Inr r \<Rightarrow> Some r | Inl e \<Rightarrow> None)
                  else map_of acc k)"
proof (induction qbs arbitrary: acc)
  case Nil
  then show ?case by simp
next
  case (Cons q qbs)
  then show ?case
    by (auto simp: update_conv' split: sum.splits)
qed

lemma build_fit_results_records:
  "build_fit_results fit qbs acc = Inr fr \<Longrightarrow> q \<in> set qbs \<Longrightarrow>
   \<exists>r. fit_record fit (name q) = Inr r"
proof (induction qbs arbitrary: acc)
  case Nil
  then show ?case by simp
next
  case (Cons a qbs)
  then show ?case by (auto split: sum.splits)
qed

lemma build_fit_results_keys:
  "build_fit_results fit qbs acc = Inr fr \<Longrightarrow> fst ` set fr = fst ` set acc \<union> name ` set qbs"
proof (induction qbs arbitrary: acc)
  case Nil
  then show ?case by simp
next
  case (Cons a qbs)
  then show ?case by (auto simp: dom_update split: sum.splits)
qed

lemma build_fit_results_distinct:
  "build_fit_results fit qbs acc = Inr fr \<Longrightarrow> distinct (map fst acc) \<Longrightarrow> distinct (map fst fr)"
proof (induction qbs arbitrary: acc)
  case Nil
  then show ?case by simp
next
  case (Cons a qbs)
  then show ?case by (auto simp: distinct_update split: sum.splits)
qed

lemma make_fit_results_entries:
  assumes "make_fit_results fit qbs = Inr fr"
  shows "fst ` set fr = name ` set qbs" and "distinct (map fst fr)"
    and "(k, r) \<in> set fr \<Longrightarrow> fit_record fit k = Inr r"
proof -
  from assms have b: "build_fit_results fit qbs [] = Inr fr" by (simp add: make_fit_results_def)
  from build_fit_results_keys [OF b] show keys: "fst ` set fr = name ` set qbs" by simp
  from build_fit_results_distinct [OF b] show d: "distinct (map fst fr)" by simp
  assume kr: "(k, r) \<in> set fr"
  then have "k \<in> name ` set qbs" using keys by force
  moreover from kr d have "map_of fr k = Some r" by simp
  ultimately show "fit_record fit k = Inr r"
    using build_fit_results_map_of [OF b, of k] by (auto split: sum.splits)
qed

lemma make_fit_results_lookup:
  assumes "make_fit_results fit qbs = Inr fr" and "q \<in> set qbs"
  shows "\<exists>r. fit_record fit (name q) = Inr r \<and> map_of fr (name q) = Some r"
proof -
  from assms(1) have b: "build_fit_results fit qbs [] = Inr fr" by (simp add: make_fit_results_def)
  from build_fit_results_records [OF b assms(2)] obtain r where r: "fit_record fit (name q) = Inr r" ..
  from assms(2) have "name q \<in> name ` set qbs" by simp
  with build_fit_results_map_of [OF b, of "name q"] r have "map_of fr (name q) = Some r" by simp
  with r show ?thesis by blast
qed

lemma run_saved_machine:
  assumes "run env p = Some (tr, Inr sv)"
  shows "sv_machine sv = quam_load env"
proof (cases "simulate p")
  case True
  from run_simulated(4) [OF True assms refl] show ?thesis by simp
next
  case False
  from False assms obtain qbs fr2 where
    "sv = \<lparr> sv_results =
              [(''ds'', VDataset (hardware_dataset env p qbs)),
               (''fit_results'', VFitResults fr2),
               (''figure'', VFigure (GridFigure DecayExp)),
               (''figure_gaussian'', VFigure (GridFigure DecayGaussian)),
               (''initial_parameters'', VParameters p)],
            sv_machine = quam_load env, sv_outcomes = outcomes_of qbs \<rparr>"
    by (rule run_saved_not_simulated)
  then show ?thesis by simp
qed

lemma and_then_emit: "and_then (emit ev) f t = f () (t @ [ev])"
  by (simp add: and_then_def emit_def)

lemma and_then_ret: "and_then (ret x) f t = f x t"
  by (simp add: and_then_def ret_def)

lemma and_then_assoc: "and_then (and_then m f) g = and_then m (\<lambda>x. and_then (f x) g)"
  by (rule ext) (simp add: and_then_def split: option.splits sum.splits prod.splits)

lemma analysis_block_eq:
  assumes "load_data_id p = None"
  shows "analysis_block env p qbs ds m res t =
    (case fit_with env m ds of
       Inl e \<Rightarrow> Some (t @ [Fit m], Inl e)
     | Inr fit \<Rightarrow>
         (case make_fit_results fit qbs of
            Inl e \<Rightarrow> Some (t @ [Fit m], Inl e)
          | Inr fr \<Rightarrow>
              (case plot_grid env m ds of
                 Some e \<Rightarrow> Some (t @ [Fit m, Plot m], Inl e)
               | None \<Rightarrow>
                   Some (t @ [Fit m, Plot m],
                         Inr (AList.update (figure_key m) (VFigure (GridFigure m))
                               (AList.update ''fit_results'' (VFitResults fr) res))))))"
  using assms
  by (simp add: analysis_block_def and_then_def emit_def lift_def ret_def raise_def may_raise_def
      split: sum.splits option.splits)

lemma analyse_and_save_eq:
  assumes "load_data_id p = None"
  shows "analyse_and_save env p qbs t =
    and_then (analysis_block env p qbs (hardware_dataset env p qbs) DecayExp
                [(''ds'', VDataset (hardware_dataset env p qbs))]) (\<lambda>r1.
    and_then (analysis_block env p qbs (hardware_dataset env p qbs) DecayGaussian r1) (\<lambda>r2.
    and_then (emit Save) (\<lambda>_.
    ret \<lparr> sv_results = AList.update ''initial_parameters'' (VParameters p) r2,
          sv_machine = quam_load env, sv_outcomes = outcomes_of qbs \<rparr>))) (t @ [FetchResults])"
  using assms
  by (simp add: analyse_and_save_def data_fetching_def and_then_assoc and_then_emit and_then_ret)

lemma analyse_and_save_exp_raises:
  assumes "load_data_id p = None"
    and "fit_oscillation_decay_exp env (hardware_dataset env p qbs) = Inl e"
  shows "analyse_and_save env p qbs t = Some (t @ [FetchResults, Fit DecayExp], Inl e)"
  using assms
  by (simp add: analyse_and_save_eq analysis_block_eq fit_with_def and_then_def)

lemma analyse_and_save_exp_record_raises:
  assumes "load_data_id p = None"
    and "fit_oscillation_decay_exp env (hardware_dataset env p qbs) = Inr efit"
    and "make_fit_results efit qbs = Inl e"
  shows "analyse_and_save env p qbs t = Some (t @ [FetchResults, Fit DecayExp], Inl e)"
  using assms
  by (simp add: analyse_and_save_eq analysis_block_eq fit_with_def and_then_def)

lemma analyse_and_save_exp_plot_raises:
  assumes "load_data_id p = None"
    and "fit_oscillation_decay_exp env (hardware_dataset env p qbs) = Inr efit"
    and "make_fit_results efit qbs = Inr fr1"
    and "plot_grid env DecayExp (hardware_dataset env p qbs) = Some e"
  shows "analyse_and_save env p qbs t =
     Some (t @ [FetchResults, Fit DecayExp, Plot DecayExp], Inl e)"
  using assms
  by (simp add: analyse_and_save_eq analysis_block_eq fit_with_def and_then_def)

lemma analyse_and_save_gaussian_raises:
  assumes "load_data_id p = None"
    and "fit_oscillation_decay_exp env (hardware_dataset env p qbs) = Inr efit"
    and "make_fit_results efit qbs = Inr fr1"
    and "plot_grid env DecayExp (hardware_dataset env p qbs) = None"
    and "fit_oscillation_decay_gaussian env (hardware_dataset env p qbs) = Inl e"
  shows "analyse_and_save env p qbs t =
     Some (t @ [FetchResults, Fit DecayExp, Plot DecayExp, Fit DecayGaussian], Inl e)"
  using assms
  by (simp add: analyse_and_save_eq analysis_block_eq fit_with_def and_then_def)

lemma analyse_and_save_gaussian_record_raises:
  assumes "load_data_id p = None"
    and "fit_oscillation_decay_exp env (hardware_dataset env p qbs) = Inr efit"
    and "make_fit_results efit qbs = Inr fr1"
    and "plot_grid env DecayExp (hardware_dataset env p qbs) = None"
    and "fit_oscillation_decay_gaussian env (hardware_dataset env p qbs) = Inr gfit"
    and "make_fit_results gfit qbs = Inl e"
  shows "analyse_and_save env p qbs t =
     Some (t @ [FetchResults, Fit DecayExp, Plot DecayExp, Fit DecayGaussian], Inl e)"
  using assms
  by (simp add: analyse_and_save_eq analysis_block_eq fit_with_def and_then_def)

lemma analyse_and_save_gaussian_plot_raises:
  assumes "load_data_id p = None"
    and "fit_oscillation_decay_exp env (hardware_dataset env p qbs) = Inr efit"
    and "make_fit_results efit qbs = Inr fr1"
    and "plot_grid env DecayExp (hardware_dataset env p qbs) = None"
    and "fit_oscillation_decay_gaussian env (hardware_dataset env p qbs) = Inr gfit"
    and "make_fit_results gfit qbs = Inr fr2"
    and "plot_grid env DecayGaussian (hardware_dataset env p qbs) = Some e"
  shows "analyse_and_save env p qbs t =
     Some (t @ [FetchResults, Fit DecayExp, Plot DecayExp, Fit DecayGaussian,
                Plot DecayGaussian], Inl e)"
  using assms
  by (simp add: analyse_and_save_eq analysis_block_eq fit_with_def and_then_def)

lemma analyse_and_save_saves:
  assumes "load_data_id p = None"
    and "fit_oscillation_decay_exp env (hardware_dataset env p qbs) = Inr efit"
    and "make_fit_results efit qbs = Inr fr1"
    and "plot_grid env DecayExp (hardware_dataset env p qbs) = None"
    and "fit_oscillation_decay_gaussian env (hardware_dataset env p qbs) = Inr gfit"
    and "make_fit_results gfit qbs = Inr fr2"
    and "plot_grid env DecayGaussian (hardware_dataset env p qbs) = None"
  shows "\<exists>sv. analyse_and_save env p qbs t =
     Some (t @ [FetchResults, Fit DecayExp, Plot DecayExp, Fit DecayGaussian,
                Plot DecayGaussian, Save], Inr sv)"
  using assms
  by (simp add: analyse_and_save_eq analysis_block_eq fit_with_def and_then_def emit_def ret_def)

text \<open>The ways the analysis of a hardware run ends: at the first call that raises, or saved.\<close>

lemma analyse_and_save_cases:
  assumes ld: "load_data_id p = None" and an: "analyse_and_save env p qbs t = Some (tr, r)"
  obtains
    (exp_fit_raised) e where
      "fit_oscillation_decay_exp env (hardware_dataset env p qbs) = Inl e"
      "tr = t @ [FetchResults, Fit DecayExp]" "r = Inl e"
  | (exp_record_raised) efit e where
      "fit_oscillation_decay_exp env (hardware_dataset env p qbs) = Inr efit"
      "make_fit_results efit qbs = Inl e"
      "tr = t @ [FetchResults, Fit DecayExp]" "r = Inl e"
  | (exp_plot_raised) efit fr1 e where
      "fit_oscillation_decay_exp env (hardware_dataset env p qbs) = Inr efit"
      "make_fit_results efit qbs = Inr fr1"
      "plot_grid env DecayExp (hardware_dataset env p qbs) = Some e"
      "tr = t @ [FetchResults, Fit DecayExp, Plot DecayExp]" "r = Inl e"
  | (gaussian_fit_raised) efit fr1 e where
      "fit_oscillation_decay_exp env (hardware_dataset env p qbs) = Inr efit"
      "make_fit_results efit qbs = Inr fr1"
      "plot_grid env DecayExp (hardware_dataset env p qbs) = None"
      "fit_oscillation_decay_gaussian env (hardware_dataset env p qbs) = Inl e"
      "tr = t @ [FetchResults, Fit DecayExp, Plot DecayExp, Fit DecayGaussian]" "r = Inl e"
  | (gaussian_record_raised) efit fr1 gfit e where
      "fit_oscillation_decay_exp env (hardware_dataset env p qbs) = Inr efit"
      "make_fit_results efit qbs = Inr fr1"
      "plot_grid env DecayExp (hardware_dataset env p qbs) = None"
      "fit_oscillation_decay_gaussian env (hardware_dataset env p qbs) = Inr gfit"
      "make_fit_results gfit qbs = Inl e"
      "tr = t @ [FetchResults, Fit DecayExp, Plot DecayExp, Fit DecayGaussian]" "r = Inl e"
  | (gaussian_plot_raised) efit fr1 gfit fr2 e where
      "fit_oscillation_decay_exp env (hardware_dataset env p qbs) = Inr efit"
      "make_fit_results efit qbs = Inr fr1"
      "plot_grid env DecayExp (hardware_dataset env p qbs) = None"
      "fit_oscillation_decay_gaussian env (hardware_dataset env p qbs) = Inr gfit"
      "make_fit_results gfit qbs = Inr fr2"
      "plot_grid env DecayGaussian (hardware_dataset env p qbs) = Some e"
      "tr = t @ [FetchResults, Fit DecayExp, Plot DecayExp, Fit DecayGaussian,
                 Plot DecayGaussian]" "r = Inl e"
  | (saved) efit fr1 gfit fr2 sv where
      "fit_oscillation_decay_exp env (hardware_dataset env p qbs) = Inr efit"
      "make_fit_results efit qbs = Inr fr1"
      "plot_grid env DecayExp (hardware_dataset env p qbs) = None"
      "fit_oscillation_decay_gaussian env (hardware_dataset env p qbs) = Inr gfit"
      "make_fit_results gfit qbs = Inr fr2"
      "plot_grid env DecayGaussian (hardware_dataset env p qbs) = None"
      "tr = t @ [FetchResults, Fit DecayExp, Plot DecayExp, Fit DecayGaussian,
                 Plot DecayGaussian, Save]" "r = Inr sv"
proof (cases "fit_oscillation_decay_exp env (hardware_dataset env p qbs)")
  case (Inl e)
  from an analyse_and_save_exp_raises [OF ld Inl, of t] show thesis
    by (intro exp_fit_raised [OF Inl]) simp_all
next
  case efit: (Inr efit)
  show thesis
  proof (cases "make_fit_results efit qbs")
    case (Inl e)
    from an analyse_and_save_exp_record_raises [OF ld efit Inl, of t] show thesis
      by (intro exp_record_raised [OF efit Inl]) simp_all
  next
    case fr1: (Inr fr1)
    show thesis
    proof (cases "plot_grid env DecayExp (hardware_dataset env p qbs)")
      case (Some e)
      from an analyse_and_save_exp_plot_raises [OF ld efit fr1 Some, of t] show thesis
        by (intro exp_plot_raised [OF efit fr1 Some]) simp_all
    next
      case p1: None
      show thesis
      proof (cases "fit_oscillation_decay_gaussian env (hardware_dataset env p qbs)")
        case (Inl e)
        from an analyse_and_save_gaussian_raises [OF ld efit fr1 p1 Inl, of t] show thesis
          by (intro gaussian_fit_raised [OF efit fr1 p1 Inl]) simp_all
      next
        case gfit: (Inr gfit)
        show thesis
        proof (cases "make_fit_results gfit qbs")
          case (Inl e)
          from an analyse_and_save_gaussian_record_raises [OF ld efit fr1 p1 gfit Inl, of t]
          show thesis
            by (intro gaussian_record_raised [OF efit fr1 p1 gfit Inl]) simp_all
        next
          case fr2: (Inr fr2)
          show thesis
          proof (cases "plot_grid env DecayGaussian (hardware_dataset env p qbs)")
            case (Some e)
            from an analyse_and_save_gaussian_plot_raises [OF ld efit fr1 p1 gfit fr2 Some, of t]
            show thesis
              by (intro gaussian_plot_raised [OF efit fr1 p1 gfit fr2 Some]) simp_all
          next
            case None
            from analyse_and_save_saves [OF ld efit fr1 p1 gfit fr2 None, of t]
            obtain sv where "analyse_and_save env p qbs t =
               Some (t @ [FetchResults, Fit DecayExp, Plot DecayExp, Fit DecayGaussian,
                          Plot DecayGaussian, Save], Inr sv)" ..
            with an show thesis by (intro saved [OF efit fr1 p1 gfit fr2 None, of sv]) simp_all
          qed
        qed
      qed
    qed
  qed
qed

lemma analyse_and_save_trace:
  assumes "load_data_id p = None" and "analyse_and_save env p qbs t = Some (tr, r)"
  shows "\<exists>post. tr = t @ FetchResults # post \<and> (\<forall>e. r = Inl e \<longrightarrow> Save \<notin> set post)"
  using assms by (cases rule: analyse_and_save_cases) simp_all

lemma run_never_finishing:
  assumes "\<not> simulate p" and "load_data_id p = None" and "connect env = None"
    and "select_qubits (quam_load env) (qubits p) = Inr qbs"
    and "build_program env (length qbs) (num_averages p) (idle_times env p) = None"
    and "session_execute env = None"
    and "\<forall>k. is_processing env k \<and> poll_body env (num_averages p) k = None"
  shows "run env p = None"
proof -
  have "poll_loop env (num_averages p) 0 t = None" for t
  proof (cases "poll_loop env (num_averages p) 0 t")
    case None
    then show ?thesis .
  next
    case (Some r)
    from poll_loop_stops [OF Some] assms(7) show ?thesis by simp
  qed
  then show ?thesis
    using assms(1-6)
    by (simp add: run_def script_def initialize_eq execute_branch_eq may_raise_def
        and_then_def emit_def ret_def)
qed

text \<open>
  The ways a hardware run that returns ends: at the first call that raises, or in the
  analysis, after a poll that found the job no longer processing.
\<close>

lemma run_hardware_cases:
  assumes ns: "\<not> simulate p" and ld: "load_data_id p = None" and run: "run env p = Some (tr, r)"
  obtains
    (connect_raised) e where "connect env = Some e"
      "tr = [LoadMachine, GenerateConfig, Connect]" "r = Inl e"
  | (select_raised) e where "connect env = None"
      "select_qubits (quam_load env) (qubits p) = Inl e"
      "tr = [LoadMachine, GenerateConfig, Connect]" "r = Inl e"
  | (build_raised) qbs e where "connect env = None"
      "select_qubits (quam_load env) (qubits p) = Inr qbs"
      "build_program env (length qbs) (num_averages p) (idle_times env p) = Some e"
      "tr = [LoadMachine, GenerateConfig, Connect,
             BuildProgram (length qbs) (num_averages p) (idle_times env p)]" "r = Inl e"
  | (session_raised) qbs e where "connect env = None"
      "select_qubits (quam_load env) (qubits p) = Inr qbs"
      "build_program env (length qbs) (num_averages p) (idle_times env p) = None"
      "session_execute env = Some e"
      "tr = [LoadMachine, GenerateConfig, Connect,
             BuildProgram (length qbs) (num_averages p) (idle_times env p), Execute]" "r = Inl e"
  | (poll_raised) qbs j e where "connect env = None"
      "select_qubits (quam_load env) (qubits p) = Inr qbs"
      "build_program env (length qbs) (num_averages p) (idle_times env p) = None"
      "session_execute env = None"
      "\<forall>i<j. is_processing env i \<and> poll_body env (num_averages p) i = None"
      "is_processing env j" "poll_body env (num_averages p) j = Some e"
      "tr = [LoadMachine, GenerateConfig, Connect,
             BuildProgram (length qbs) (num_averages p) (idle_times env p), Execute] @
            concat (replicate j [IsProcessing True, FetchCounter]) @
            [IsProcessing True, FetchCounter]" "r = Inl e"
  | (analysed) qbs j where "connect env = None"
      "select_qubits (quam_load env) (qubits p) = Inr qbs"
      "build_program env (length qbs) (num_averages p) (idle_times env p) = None"
      "session_execute env = None"
      "\<forall>i<j. is_processing env i \<and> poll_body env (num_averages p) i = None"
      "\<not> is_processing env j"
      "analyse_and_save env p qbs
         ([LoadMachine, GenerateConfig, Connect,
           BuildProgram (length qbs) (num_averages p) (idle_times env p), Execute] @
          concat (replicate j [IsProcessing True, FetchCounter]) @ [IsProcessing False]) =
       Some (tr, r)"
proof (cases "connect env")
  case (Some e)
  with run ld have "tr = [LoadMachine, GenerateConfig, Connect]" "r = Inl e"
    by (simp_all add: run_def script_def and_then_def initialize_eq)
  with Some show thesis by (rule connect_raised)
next
  case conn: None
  show thesis
  proof (cases "select_qubits (quam_load env) (qubits p)")
    case (Inl e)
    with run ld conn have "tr = [LoadMachine, GenerateConfig, Connect]" "r = Inl e"
      by (simp_all add: run_def script_def and_then_def initialize_eq)
    with conn Inl show thesis by (rule select_raised)
  next
    case sel: (Inr qbs)
    let ?t = "[LoadMachine, GenerateConfig, Connect,
               BuildProgram (length qbs) (num_averages p) (idle_times env p)]"
    show thesis
    proof (cases "build_program env (length qbs) (num_averages p) (idle_times env p)")
      case (Some e)
      with run ld conn sel have "tr = ?t" "r = Inl e"
        by (simp_all add: run_def script_def and_then_def initialize_eq emit_def may_raise_def
            raise_def)
      with conn sel Some show thesis by (rule build_raised)
    next
      case bp: None
      from run ns ld conn sel bp
      have rest: "and_then (execute_branch env p) (\<lambda>_. analyse_and_save env p qbs) ?t =
          Some (tr, r)"
        by (simp add: run_def script_def and_then_def initialize_eq emit_def may_raise_def ret_def)
      then show thesis
      proof (cases rule: and_then_cases)
        case (raised e)
        from raised(1) show thesis
        proof (cases rule: execute_branch_Some)
          case (session_raised e')
          from session_raised(2,3) raised(2) have "tr = ?t @ [Execute]" "r = Inl e'" by simp_all
          then have "tr = [LoadMachine, GenerateConfig, Connect,
             BuildProgram (length qbs) (num_averages p) (idle_times env p), Execute]"
            and "r = Inl e'" by simp_all
          with conn sel bp session_raised(1) show thesis by (rule that(4))
        next
          case (finished j)
          then show thesis by simp
        next
          case (poll_raised j e')
          from poll_raised(5,6) raised(2)
          have "tr = [LoadMachine, GenerateConfig, Connect,
             BuildProgram (length qbs) (num_averages p) (idle_times env p), Execute] @
            concat (replicate j [IsProcessing True, FetchCounter]) @
            [IsProcessing True, FetchCounter]" and "r = Inl e'" by simp_all
          with conn sel bp poll_raised(1-4) show thesis by (intro that(5))
        qed
      next
        case (went_on t2 u)
        from went_on(1) show thesis
        proof (cases rule: execute_branch_Some)
          case (session_raised e')
          then show thesis by simp
        next
          case (poll_raised j e')
          then show thesis by simp
        next
          case (finished j)
          from finished(4) went_on(2)
          have "analyse_and_save env p qbs
             ([LoadMachine, GenerateConfig, Connect,
               BuildProgram (length qbs) (num_averages p) (idle_times env p), Execute] @
              concat (replicate j [IsProcessing True, FetchCounter]) @ [IsProcessing False]) =
            Some (tr, r)" by simp
          with conn sel bp finished(1-3) show thesis by (intro that(6))
        qed
      qed
    qed
  qed
qed

lemma int64_mult_in_range: "in_int64 (a * b) \<Longrightarrow> int64_mult a b = a * b"
  unfolding int64_mult_def in_int64_def
  by (simp add: sint_sbintrunc' signed_take_bit_int_eq_self flip: of_int_mult)

lemma in_int64_floor4: "in_int64 x \<Longrightarrow> in_int64 (4 * (x div 4))"
  unfolding in_int64_def by simp presburger

lemma idle_times_in_range:
  "in_int64 (min_wait_time_in_ns p) \<Longrightarrow> in_int64 (max_wait_time_in_ns p) \<Longrightarrow>
   idle_times env p =
     map (\<lambda>x. x div 4) (arange (min_wait_time_in_ns p) (max_wait_time_in_ns p) 4)"
  by (simp add: idle_times_def)

lemma idle_times_params0: "idle_times env params0 = [4, 5]"
  by (simp add: params0_def Parameters_def idle_times_def in_int64_def arange.simps)

lemma arange_step4:
  "arange a b 4 = map (\<lambda>k. a + 4 * int k) [0 ..< nat ((b - a + 3) div 4)]"
proof (induction "nat (b - a)" arbitrary: a rule: less_induct)
  case less
  show ?case
  proof (cases "a < b")
    case False
    then have "(b - a + 3) div 4 \<le> 0" by simp
    with False show ?thesis by (simp add: arange.simps)
  next
    case True
    then have "nat (b - (a + 4)) < nat (b - a)" by simp
    from less [OF this]
    have IH: "arange (a + 4) b 4 =
        map (\<lambda>k. a + 4 + 4 * int k) [0 ..< nat ((b - (a + 4) + 3) div 4)]" .
    have n: "nat ((b - a + 3) div 4) = Suc (nat ((b - (a + 4) + 3) div 4))"
      using True by simp
    have "arange a b 4 = a # arange (a + 4) b 4"
      using True by (subst arange.simps) simp
    also have "\<dots> = map (\<lambda>k. a + 4 * int k) [0 ..< nat ((b - a + 3) div 4)]"
      unfolding IH n by (simp add: map_upt_Suc algebra_simps del: upt_Suc)
    finally show ?thesis .
  qed
qed

lemma arange_step4_index:
  "k < nat ((b - a + 3) div 4) \<longleftrightarrow> a + 4 * int k < b"
  by (cases "a < b") (simp_all add: zless_nat_eq_int_zless, presburger+)


lemma arange_step4_bounds:
  assumes "x \<in> set (arange a b 4)"
  shows "a \<le> x \<and> x < b"
proof -
  from assms obtain k where k: "k < nat ((b - a + 3) div 4)" and x: "x = a + 4 * int k"
    unfolding arange_step4 by auto
  from k have "a + 4 * int k < b" by (simp only: arange_step4_index)
  with x show ?thesis by simp
qed

lemma time_coord_hardware_dataset:
  assumes "in_int64 (min_wait_time_in_ns p)" and "in_int64 (max_wait_time_in_ns p)"
  shows "time_coord (hardware_dataset env p qbs) =
     map (\<lambda>k. 4 * ((min_wait_time_in_ns p + 4 * int k) div 4))
       [0 ..< nat ((max_wait_time_in_ns p - min_wait_time_in_ns p + 3) div 4)]"
proof -
  have "int64_mult 4 (x div 4) = 4 * (x div 4)"
    if "x \<in> set (arange (min_wait_time_in_ns p) (max_wait_time_in_ns p) 4)" for x
  proof -
    from arange_step4_bounds [OF that] assms have "in_int64 x"
      unfolding in_int64_def by linarith
    then have "in_int64 (4 * (x div 4))" by (rule in_int64_floor4)
    then show ?thesis by (rule int64_mult_in_range)
  qed
  then have "map (\<lambda>x. int64_mult 4 (x div 4))
        (arange (min_wait_time_in_ns p) (max_wait_time_in_ns p) 4) =
      map (\<lambda>x. 4 * (x div 4)) (arange (min_wait_time_in_ns p) (max_wait_time_in_ns p) 4)"
    by simp
  then show ?thesis
    by (simp add: hardware_dataset_def fetch_results_as_xarray_def assign_coords_time_def
        idle_times_in_range [OF assms] arange_step4 o_def)
qed

lemma frequency_of_keys:
  "k \<in> fst ` set (frequency_of fit) \<longleftrightarrow> (\<exists>v. (k, v) \<in> set fit \<and> 0 < fv_f v)"
  by (force simp: frequency_of_def where_positive_drop_def sel_def)

lemma decay_of_keys: "fst ` set (decay_of fit) = fst ` set fit"
  by (force simp: decay_of_def tau_of_def sel_def)

lemma decay_error_of_keys: "fst ` set (decay_error_of fit) = fst ` set fit"
  by (force simp: decay_error_of_def tau_error_of_def)

lemma loc_Inl: "loc arr k = Inl e \<longleftrightarrow> k \<notin> fst ` set arr \<and> e = KeyError k"
  using map_of_eq_None_iff [of arr k] by (auto simp: loc_def split: option.splits)

lemma frequency_of_subset:
  assumes "k \<in> fst ` set (frequency_of fit)"
  shows "k \<in> fst ` set fit"
proof -
  from assms obtain v where "(k, v) \<in> set fit" by (auto simp: frequency_of_keys)
  then have "fst (k, v) \<in> fst ` set fit" by (rule imageI)
  then show ?thesis by simp
qed

lemma fit_record_Inl:
  "fit_record fit k = Inl e \<longleftrightarrow> k \<notin> fst ` set (frequency_of fit) \<and> e = KeyError k"
proof (cases "k \<in> fst ` set (frequency_of fit)")
  case False
  then have "loc (frequency_of fit) k = Inl (KeyError k)" by (simp add: loc_Inl)
  with False show ?thesis by (auto simp: fit_record_def)
next
  case True
  then have k: "k \<in> fst ` set fit" by (rule frequency_of_subset)
  from True obtain f where "loc (frequency_of fit) k = Inr f"
    by (cases "loc (frequency_of fit) k") (auto simp: loc_Inl)
  moreover from k obtain d where "loc (decay_of fit) k = Inr d"
    by (cases "loc (decay_of fit) k") (auto simp: loc_Inl decay_of_keys)
  moreover from k obtain de where "loc (decay_error_of fit) k = Inr de"
    by (cases "loc (decay_error_of fit) k") (auto simp: loc_Inl decay_error_of_keys)
  ultimately show ?thesis using True by (simp add: fit_record_def)
qed

lemma build_fit_results_Inl:
  "build_fit_results fit qbs acc = Inl e \<longleftrightarrow>
   (\<exists>pre q post. qbs = pre @ q # post \<and> e = KeyError (name q) \<and>
      name q \<notin> fst ` set (frequency_of fit) \<and>
      (\<forall>x\<in>set pre. name x \<in> fst ` set (frequency_of fit)))"
proof (induction qbs arbitrary: acc)
  case Nil
  then show ?case by simp
next
  case (Cons a qbs)
  show ?case
  proof (cases "fit_record fit (name a)")
    case (Inl e')
    then have bad: "name a \<notin> fst ` set (frequency_of fit)" and e': "e' = KeyError (name a)"
      by (simp_all add: fit_record_Inl)
    show ?thesis
    proof
      assume "build_fit_results fit (a # qbs) acc = Inl e"
      with Inl e' have "e = KeyError (name a)" by simp
      with bad have "a # qbs = [] @ a # qbs \<and> e = KeyError (name a) \<and>
          name a \<notin> fst ` set (frequency_of fit) \<and>
          (\<forall>x\<in>set []. name x \<in> fst ` set (frequency_of fit))" by simp
      then show "\<exists>pre q post. a # qbs = pre @ q # post \<and> e = KeyError (name q) \<and>
          name q \<notin> fst ` set (frequency_of fit) \<and>
          (\<forall>x\<in>set pre. name x \<in> fst ` set (frequency_of fit))" by blast
    next
      assume "\<exists>pre q post. a # qbs = pre @ q # post \<and> e = KeyError (name q) \<and>
          name q \<notin> fst ` set (frequency_of fit) \<and>
          (\<forall>x\<in>set pre. name x \<in> fst ` set (frequency_of fit))"
      then obtain pre q post where h: "a # qbs = pre @ q # post" "e = KeyError (name q)"
        "name q \<notin> fst ` set (frequency_of fit)"
        "\<forall>x\<in>set pre. name x \<in> fst ` set (frequency_of fit)" by blast
      have "pre = []"
      proof (cases pre)
        case Nil then show ?thesis .
      next
        case (Cons x xs)
        with h(1) have "x = a" by simp
        with Cons h(4) bad show ?thesis by simp
      qed
      with h(1,2) have "e = KeyError (name a)" by simp
      with Inl e' show "build_fit_results fit (a # qbs) acc = Inl e" by simp
    qed
  next
    case (Inr r)
    then have good: "name a \<in> fst ` set (frequency_of fit)"
      using fit_record_Inl [of fit "name a"] by (cases "name a \<in> fst ` set (frequency_of fit)") auto
    have "build_fit_results fit (a # qbs) acc = Inl e \<longleftrightarrow>
        build_fit_results fit qbs (AList.update (name a) r acc) = Inl e"
      using Inr by simp
    also have "\<dots> \<longleftrightarrow> (\<exists>pre q post. qbs = pre @ q # post \<and> e = KeyError (name q) \<and>
        name q \<notin> fst ` set (frequency_of fit) \<and>
        (\<forall>x\<in>set pre. name x \<in> fst ` set (frequency_of fit)))"
      by (rule Cons.IH)
    also have "\<dots> \<longleftrightarrow> (\<exists>pre q post. a # qbs = pre @ q # post \<and> e = KeyError (name q) \<and>
        name q \<notin> fst ` set (frequency_of fit) \<and>
        (\<forall>x\<in>set pre. name x \<in> fst ` set (frequency_of fit)))"
    proof
      assume "\<exists>pre q post. qbs = pre @ q # post \<and> e = KeyError (name q) \<and>
        name q \<notin> fst ` set (frequency_of fit) \<and>
        (\<forall>x\<in>set pre. name x \<in> fst ` set (frequency_of fit))"
      then obtain pre q post where h: "qbs = pre @ q # post" "e = KeyError (name q)"
        "name q \<notin> fst ` set (frequency_of fit)"
        "\<forall>x\<in>set pre. name x \<in> fst ` set (frequency_of fit)" by blast
      with good have "a # qbs = (a # pre) @ q # post \<and> e = KeyError (name q) \<and>
        name q \<notin> fst ` set (frequency_of fit) \<and>
        (\<forall>x\<in>set (a # pre). name x \<in> fst ` set (frequency_of fit))" by simp
      then show "\<exists>pre q post. a # qbs = pre @ q # post \<and> e = KeyError (name q) \<and>
        name q \<notin> fst ` set (frequency_of fit) \<and>
        (\<forall>x\<in>set pre. name x \<in> fst ` set (frequency_of fit))" by blast
    next
      assume "\<exists>pre q post. a # qbs = pre @ q # post \<and> e = KeyError (name q) \<and>
        name q \<notin> fst ` set (frequency_of fit) \<and>
        (\<forall>x\<in>set pre. name x \<in> fst ` set (frequency_of fit))"
      then obtain pre q post where h: "a # qbs = pre @ q # post" "e = KeyError (name q)"
        "name q \<notin> fst ` set (frequency_of fit)"
        "\<forall>x\<in>set pre. name x \<in> fst ` set (frequency_of fit)" by blast
      from h(1,3) good obtain pre' where pre: "pre = a # pre'"
        by (cases pre) auto
      with h have "qbs = pre' @ q # post \<and> e = KeyError (name q) \<and>
        name q \<notin> fst ` set (frequency_of fit) \<and>
        (\<forall>x\<in>set pre'. name x \<in> fst ` set (frequency_of fit))" by simp
      then show "\<exists>pre q post. qbs = pre @ q # post \<and> e = KeyError (name q) \<and>
        name q \<notin> fst ` set (frequency_of fit) \<and>
        (\<forall>x\<in>set pre. name x \<in> fst ` set (frequency_of fit))" by blast
    qed
    finally show ?thesis .
  qed
qed

lemma make_fit_results_Inr_positive:
  assumes "make_fit_results fit qbs = Inr fr" and "q \<in> set qbs"
  shows "\<exists>v. (name q, v) \<in> set fit \<and> 0 < fv_f v"
proof -
  from make_fit_results_lookup [OF assms] obtain r where "fit_record fit (name q) = Inr r"
    by blast
  then have "name q \<in> fst ` set (frequency_of fit)"
    using fit_record_Inl [of fit "name q"] by (cases "name q \<in> fst ` set (frequency_of fit)") auto
  then show ?thesis by (simp add: frequency_of_keys)
qed

lemma make_fit_results_nonpositive:
  assumes "q \<in> set qbs" and "\<forall>v. (name q, v) \<in> set fit \<longrightarrow> fv_f v \<le> 0"
  shows "\<exists>q'\<in>set qbs. make_fit_results fit qbs = Inl (KeyError (name q')) \<and>
     (\<forall>v. (name q', v) \<in> set fit \<longrightarrow> fv_f v \<le> 0)"
proof (cases "make_fit_results fit qbs")
  case (Inr fr)
  from make_fit_results_Inr_positive [OF Inr assms(1)] assms(2) show ?thesis by force
next
  case (Inl e)
  then obtain pre q' post where h: "qbs = pre @ q' # post" "e = KeyError (name q')"
    "name q' \<notin> fst ` set (frequency_of fit)"
    by (auto simp: make_fit_results_def build_fit_results_Inl)
  from h(3) have "\<forall>v. (name q', v) \<in> set fit \<longrightarrow> fv_f v \<le> 0"
    by (force simp: frequency_of_keys)
  with h(1,2) Inl show ?thesis by auto
qed

lemma map_of_frequency_of:
  "map_of (frequency_of fit) k =
     map_option fv_f (map_of (filter (\<lambda>(q, v). 0 < fv_f v) fit) k)"
  unfolding frequency_of_def where_positive_drop_def sel_def by (induction fit) auto

lemma map_of_decay_of:
  "map_of (decay_of fit) k = map_option (\<lambda>w. (1 / 10 ^ 9) * (1 / fv_decay w)) (map_of fit k)"
  unfolding decay_of_def tau_of_def sel_def by (induction fit) auto

lemma map_of_decay_error_of:
  "map_of (decay_error_of fit) k =
     map_option (\<lambda>w. (1 / 10 ^ 9) * ((1 / fv_decay w) * (sqrt (fv_decay_decay w) / fv_decay w)))
       (map_of fit k)"
  unfolding decay_error_of_def tau_error_of_def by (induction fit) auto

text \<open>
  The record of one qubit, from the rows of the fit: \<open>v\<close> is the row the frequency array
  keeps for the name, \<open>w\<close> the row of the name in the fit itself.
\<close>

lemma fit_record_Inr:
  assumes "fit_record fit k = Inr r"
  shows "\<exists>v w. map_of (filter (\<lambda>(q, v). 0 < fv_f v) fit) k = Some v \<and> map_of fit k = Some w \<and>
     r = [(''freq_offset'', 10 ^ 9 * fv_f v),
          (''decay'', (1 / 10 ^ 9) * (1 / fv_decay w)),
          (''decay_error'',
           (1 / 10 ^ 9) * ((1 / fv_decay w) * (sqrt (fv_decay_decay w) / fv_decay w)))]"
proof -
  from assms obtain f d de where
    f: "loc (frequency_of fit) k = Inr f" and d: "loc (decay_of fit) k = Inr d" and
    de: "loc (decay_error_of fit) k = Inr de" and
    r: "r = [(''freq_offset'', 10 ^ 9 * f), (''decay'', d), (''decay_error'', de)]"
    by (auto simp: fit_record_def split: sum.splits)
  from f obtain v where v: "map_of (filter (\<lambda>(q, v). 0 < fv_f v) fit) k = Some v" "f = fv_f v"
    by (auto simp: loc_def map_of_frequency_of split: option.splits)
  from d obtain w where w: "map_of fit k = Some w" "d = (1 / 10 ^ 9) * (1 / fv_decay w)"
    by (auto simp: loc_def map_of_decay_of split: option.splits)
  from de w(1) have "de = (1 / 10 ^ 9) * ((1 / fv_decay w) * (sqrt (fv_decay_decay w) / fv_decay w))"
    by (auto simp: loc_def map_of_decay_error_of split: option.splits)
  with v w r show ?thesis by blast
qed

lemma make_fit_results_values:
  assumes "make_fit_results fit qbs = Inr fr" and "q \<in> set qbs"
  shows "\<exists>v w d de.
     map_of (filter (\<lambda>(k, v). 0 < fv_f v) fit) (name q) = Some v \<and>
     map_of fit (name q) = Some w \<and>
     map_of fr (name q) =
       Some [(''freq_offset'', 10 ^ 9 * fv_f v), (''decay'', d), (''decay_error'', de)] \<and>
     (fv_decay w \<noteq> 0 \<longrightarrow> d = (1 / 10 ^ 9) * (1 / fv_decay w)) \<and>
     (fv_decay w \<noteq> 0 \<and> 0 \<le> fv_decay_decay w \<longrightarrow>
        de = (1 / 10 ^ 9) * ((1 / fv_decay w) * (sqrt (fv_decay_decay w) / fv_decay w)))"
proof -
  from make_fit_results_lookup [OF assms] obtain r where
    r: "fit_record fit (name q) = Inr r" and m: "map_of fr (name q) = Some r" by blast
  from fit_record_Inr [OF r] obtain v w where
    v: "map_of (filter (\<lambda>(k, v). 0 < fv_f v) fit) (name q) = Some v" and
    w: "map_of fit (name q) = Some w" and
    rv: "r = [(''freq_offset'', 10 ^ 9 * fv_f v),
          (''decay'', (1 / 10 ^ 9) * (1 / fv_decay w)),
          (''decay_error'',
           (1 / 10 ^ 9) * ((1 / fv_decay w) * (sqrt (fv_decay_decay w) / fv_decay w)))]"
    by blast
  let ?d = "(1 / 10 ^ 9) * (1 / fv_decay w)"
  let ?de = "(1 / 10 ^ 9) * ((1 / fv_decay w) * (sqrt (fv_decay_decay w) / fv_decay w))"
  have "map_of (filter (\<lambda>(k, v). 0 < fv_f v) fit) (name q) = Some v \<and>
     map_of fit (name q) = Some w \<and>
     map_of fr (name q) =
       Some [(''freq_offset'', 10 ^ 9 * fv_f v), (''decay'', ?d), (''decay_error'', ?de)] \<and>
     (fv_decay w \<noteq> 0 \<longrightarrow> ?d = (1 / 10 ^ 9) * (1 / fv_decay w)) \<and>
     (fv_decay w \<noteq> 0 \<and> 0 \<le> fv_decay_decay w \<longrightarrow>
        ?de = (1 / 10 ^ 9) * ((1 / fv_decay w) * (sqrt (fv_decay_decay w) / fv_decay w)))"
    using v w m rv by simp
  then show ?thesis by (intro exI)
qed

text \<open>A run that loads a stored dataset: no hardware call, and an exception at the latest
  when the title of the first figure is formatted.\<close>

lemma analysis_block_load:
  assumes "load_data_id p = Some i" and "analysis_block env p qbs ds m res t = Some (t', r)"
  shows "(\<exists>e. r = Inl e) \<and> (t' = t @ [Fit m] \<or> t' = t @ [Fit m, Plot m])"
  using assms
  by (auto simp: analysis_block_def and_then_def emit_def lift_def ret_def raise_def may_raise_def
      split: option.splits sum.splits)

lemma analyse_and_save_load:
  assumes ld: "load_data_id p = Some i" and an: "analyse_and_save env p qbs t = Some (tr, r)"
  shows "(\<exists>e. r = Inl e) \<and>
    (tr = t @ [LoadFromId i] \<or> tr = t @ [LoadFromId i, Fit DecayExp] \<or>
     tr = t @ [LoadFromId i, Fit DecayExp, Plot DecayExp])"
proof -
  from an have "and_then (data_fetching env p qbs) (\<lambda>ds.
      and_then (analysis_block env p qbs ds DecayExp [(''ds'', VDataset ds)]) (\<lambda>r1.
      and_then (analysis_block env p qbs ds DecayGaussian r1) (\<lambda>r2.
      and_then (emit Save) (\<lambda>_.
      ret \<lparr> sv_results = AList.update ''initial_parameters'' (VParameters p) r2,
            sv_machine = quam_load env, sv_outcomes = outcomes_of qbs \<rparr>)))) t = Some (tr, r)"
    by (simp add: analyse_and_save_def)
  then show ?thesis
  proof (cases rule: and_then_cases)
    case (raised e)
    with ld show ?thesis
      by (auto simp: data_fetching_def and_then_def emit_def lift_def
          split: option.splits sum.splits)
  next
    case (went_on t1 ds)
    from went_on(1) ld have t1: "t1 = t @ [LoadFromId i]"
      by (auto simp: data_fetching_def and_then_def emit_def lift_def
          split: option.splits sum.splits)
    from went_on(2) show ?thesis
    proof (cases rule: and_then_cases)
      case (raised e)
      from analysis_block_load [OF ld raised(1)] raised(2) t1 show ?thesis by auto
    next
      case (went_on t2 r1)
      from analysis_block_load [OF ld went_on(1)] show ?thesis by simp
    qed
  qed
qed

lemma run_load_returned:
  assumes ns: "\<not> simulate p" and ld: "load_data_id p = Some i" and run: "run env p = Some (tr, r)"
  shows "(\<exists>e. r = Inl e) \<and> Connect \<notin> set tr \<and> Execute \<notin> set tr \<and> FetchResults \<notin> set tr \<and>
    Save \<notin> set tr \<and> (\<forall>m. Fit m \<in> set tr \<longrightarrow> LoadFromId i \<in> set tr)"
proof (cases "select_qubits (quam_load env) (qubits p)")
  case (Inl e)
  with run ld show ?thesis
    by (auto simp: run_def script_def and_then_def initialize_eq)
next
  case sel: (Inr qbs)
  let ?t = "[LoadMachine, GenerateConfig,
             BuildProgram (length qbs) (num_averages p) (idle_times env p)]"
  show ?thesis
  proof (cases "build_program env (length qbs) (num_averages p) (idle_times env p)")
    case (Some e)
    with run ld sel show ?thesis
      by (auto simp: run_def script_def and_then_def initialize_eq emit_def may_raise_def raise_def)
  next
    case None
    with run ns ld sel have "analyse_and_save env p qbs ?t = Some (tr, r)"
      by (simp add: run_def script_def and_then_def initialize_eq emit_def may_raise_def ret_def)
    from analyse_and_save_load [OF ld this] show ?thesis by auto
  qed
qed

lemma run_env0_load:
  "run (env0 \<lparr> load_from_id := \<lambda>i. Inr stored0 \<rparr>) (params0 \<lparr> load_data_id := Some 7 \<rparr>) =
     Some ([LoadMachine, GenerateConfig, BuildProgram 1 1500 [4, 5], LoadFromId 7,
            Fit DecayExp, Plot DecayExp], Inl (NameError ''date_time''))"
  by (simp add: script_defs example_defs)

lemma shot_view:
  assumes "declared_for nq s" and "i < nq"
  shows "declared_for nq (shot i r s)"
    and "init_state (shot i r s) = (init_state s)[i := r]"
    and "state_st (shot i r s) = (state_st s)[i := state_st s ! i @ [init_state s ! i XOR r]]"
  using assms by (simp_all add: shot_def Let_def declared_for_def)

lemma for_each_idle_view:
  assumes "declared_for nq s" and "i < nq"
  shows "declared_for nq (for_each_idle i rd k ts s) \<and>
    init_state (for_each_idle i rd k ts s) =
      (init_state s)[i := last (init_state s ! i # map rd [k ..< k + length ts])] \<and>
    state_st (for_each_idle i rd k ts s) =
      (state_st s)[i := state_st s ! i @
         map (\<lambda>(a, b). a XOR b)
           (zip (init_state s ! i # map rd [k ..< k + length ts]) (map rd [k ..< k + length ts]))]"
  using assms
proof (induction ts arbitrary: k s)
  case Nil
  then show ?case by (simp add: declared_for_def)
next
  case (Cons t ts)
  let ?s = "shot i (rd k) s"
  have d: "declared_for nq ?s" by (rule shot_view(1) [OF Cons.prems])
  have lens: "i < length (init_state s)" "i < length (state_st s)"
    using Cons.prems by (simp_all add: declared_for_def)
  have up: "[k ..< k + length (t # ts)] = k # [Suc k ..< Suc k + length ts]"
    by (subst upt_rec) simp
  from Cons.IH [OF d Cons.prems(2), of "Suc k"] show ?case
    unfolding up
    by (simp add: shot_view(2,3) [OF Cons.prems] lens)
qed

lemma zip_shift_append:
  "zip (a # xs @ ys) (xs @ ys) = zip (a # xs) xs @ zip (last (a # xs) # ys) ys"
  by (induction xs arbitrary: a) simp_all

lemma last_shift_append: "last (a # xs @ ys) = last (last (a # xs) # ys)"
  by (cases ys) simp_all

lemma for_n_view:
  assumes "declared_for nq s" and "i < nq"
  shows "declared_for nq (for_n i rd n n_avg ts s) \<and>
    init_state (for_n i rd n n_avg ts s) =
      (init_state s)[i := last (init_state s ! i #
         concat (map (\<lambda>m. map (rd (n + int m)) [0 ..< length ts]) [0 ..< nat (n_avg - n)]))] \<and>
    state_st (for_n i rd n n_avg ts s) =
      (state_st s)[i := state_st s ! i @
         map (\<lambda>(a, b). a XOR b)
           (zip (init_state s ! i #
                   concat (map (\<lambda>m. map (rd (n + int m)) [0 ..< length ts]) [0 ..< nat (n_avg - n)]))
                (concat (map (\<lambda>m. map (rd (n + int m)) [0 ..< length ts]) [0 ..< nat (n_avg - n)])))]"
  using assms
proof (induction i rd n n_avg ts s rule: for_n.induct)
  case (1 i rd n n_avg ts s)
  show ?case
  proof (cases "n < n_avg")
    case False
    with 1(2) show ?thesis by (simp add: for_n.simps declared_for_def)
  next
    case True
    let ?s1 = "s \<lparr> n_st := n_st s @ [n] \<rparr>"
    let ?s2 = "for_each_idle i (rd n) 0 ts ?s1"
    let ?R0 = "map (rd n) [0 ..< length ts]"
    let ?R1 = "concat (map (\<lambda>m. map (rd (n + 1 + int m)) [0 ..< length ts])
                 [0 ..< nat (n_avg - (n + 1))])"
    have d1: "declared_for nq ?s1" using 1(2) by (simp add: declared_for_def)
    from for_each_idle_view [OF d1 1(3), of "rd n" 0 ts]
    have d2: "declared_for nq ?s2"
      and i2: "init_state ?s2 = (init_state s)[i := last (init_state s ! i # ?R0)]"
      and st2: "state_st ?s2 = (state_st s)[i := state_st s ! i @
         map (\<lambda>(a, b). a XOR b) (zip (init_state s ! i # ?R0) ?R0)]"
      by simp_all
    have lens: "i < length (init_state s)" "i < length (state_st s)"
      using 1(2,3) by (simp_all add: declared_for_def)
    have N: "nat (n_avg - n) = Suc (nat (n_avg - (n + 1)))" using True by simp
    have R: "concat (map (\<lambda>m. map (rd (n + int m)) [0 ..< length ts]) [0 ..< nat (n_avg - n)]) =
        ?R0 @ ?R1"
      unfolding N by (simp add: map_upt_Suc add.assoc del: upt_Suc)
    have step: "for_n i rd n n_avg ts s = for_n i rd (n + 1) n_avg ts ?s2"
      using True by (subst for_n.simps) simp
    from 1(1) [OF True d2 1(3)] show ?thesis
      unfolding step R
      by (simp add: i2 st2 lens zip_shift_append last_shift_append)
  qed
qed


lemma mult_pred_plus: "0 < (a::nat) \<Longrightarrow> a * T = (a - 1) * T + T"
  by (cases a) simp_all

lemma concat_rows:
  "length (concat (map (\<lambda>m. map (f m) [0 ..< T]) [0 ..< N])) = N * T \<and>
   (\<forall>m k. m < N \<longrightarrow> k < T \<longrightarrow>
      concat (map (\<lambda>m. map (f m) [0 ..< T]) [0 ..< N]) ! (m * T + k) = f m k)"
proof (induction N)
  case 0
  then show ?case by simp
next
  case (Suc N)
  let ?C = "concat (map (\<lambda>m. map (f m) [0 ..< T]) [0 ..< N])"
  from Suc have len: "length ?C = N * T"
    and IH: "\<And>m k. m < N \<Longrightarrow> k < T \<Longrightarrow> ?C ! (m * T + k) = f m k" by simp_all
  have app: "concat (map (\<lambda>m. map (f m) [0 ..< T]) [0 ..< Suc N]) = ?C @ map (f N) [0 ..< T]"
    by simp
  have "(?C @ map (f N) [0 ..< T]) ! (m * T + k) = f m k" if m: "m < Suc N" and k: "k < T" for m k
  proof (cases "m < N")
    case True
    then have "Suc m * T \<le> N * T" by (intro mult_le_mono1) simp
    with k have "m * T + k < N * T" by simp
    then show ?thesis by (simp add: nth_append len IH [OF True k])
  next
    case False
    with m have "m = N" by simp
    with k show ?thesis by (simp add: nth_append len)
  qed
  then show ?case unfolding app by (simp add: len)
qed

lemma ramsey_prefix:
  assumes "m \<le> nq"
  shows "declared_for nq (foldl (\<lambda>s i. for_n i (rd i) 0 n_avg ts s) (qua_declare nq mem) [0 ..< m]) \<and>
    (\<forall>j<nq.
       init_state (foldl (\<lambda>s i. for_n i (rd i) 0 n_avg ts s) (qua_declare nq mem) [0 ..< m]) ! j =
         (if j < m
          then last (mem j # concat (map (\<lambda>a. map (rd j (int a)) [0 ..< length ts]) [0 ..< nat n_avg]))
          else mem j) \<and>
       state_st (foldl (\<lambda>s i. for_n i (rd i) 0 n_avg ts s) (qua_declare nq mem) [0 ..< m]) ! j =
         (if j < m
          then map (\<lambda>(a, b). a XOR b)
                 (zip (mem j # concat (map (\<lambda>a. map (rd j (int a)) [0 ..< length ts]) [0 ..< nat n_avg]))
                      (concat (map (\<lambda>a. map (rd j (int a)) [0 ..< length ts]) [0 ..< nat n_avg])))
          else []))"
  using assms
proof (induction m)
  case 0
  then show ?case by (simp add: qua_declare_def declared_for_def)
next
  case (Suc m)
  let ?s = "foldl (\<lambda>s i. for_n i (rd i) 0 n_avg ts s) (qua_declare nq mem) [0 ..< m]"
  from Suc have m: "m < nq" by simp
  from Suc have d: "declared_for nq ?s"
    and IH: "\<And>j. j < nq \<Longrightarrow>
       init_state ?s ! j =
         (if j < m
          then last (mem j # concat (map (\<lambda>a. map (rd j (int a)) [0 ..< length ts]) [0 ..< nat n_avg]))
          else mem j) \<and>
       state_st ?s ! j =
         (if j < m
          then map (\<lambda>(a, b). a XOR b)
                 (zip (mem j # concat (map (\<lambda>a. map (rd j (int a)) [0 ..< length ts]) [0 ..< nat n_avg]))
                      (concat (map (\<lambda>a. map (rd j (int a)) [0 ..< length ts]) [0 ..< nat n_avg])))
          else [])"
    by simp_all
  have lens: "m < length (init_state ?s)" "m < length (state_st ?s)"
    using d m by (simp_all add: declared_for_def)
  have fold: "foldl (\<lambda>s i. for_n i (rd i) 0 n_avg ts s) (qua_declare nq mem) [0 ..< Suc m] =
      for_n m (rd m) 0 n_avg ts ?s" by simp
  from for_n_view [OF d m, of "rd m" 0 n_avg ts] IH [OF m]
  have v: "declared_for nq (for_n m (rd m) 0 n_avg ts ?s)"
    "init_state (for_n m (rd m) 0 n_avg ts ?s) =
      (init_state ?s)[m := last (mem m #
         concat (map (\<lambda>a. map (rd m (int a)) [0 ..< length ts]) [0 ..< nat n_avg]))]"
    "state_st (for_n m (rd m) 0 n_avg ts ?s) =
      (state_st ?s)[m := map (\<lambda>(a, b). a XOR b)
           (zip (mem m # concat (map (\<lambda>a. map (rd m (int a)) [0 ..< length ts]) [0 ..< nat n_avg]))
                (concat (map (\<lambda>a. map (rd m (int a)) [0 ..< length ts]) [0 ..< nat n_avg])))]"
    by simp_all
  show ?case
    unfolding fold
  proof (intro conjI allI impI)
    show "declared_for nq (for_n m (rd m) 0 n_avg ts ?s)" by (rule v(1))
  next
    fix j assume j: "j < nq"
    show "init_state (for_n m (rd m) 0 n_avg ts ?s) ! j =
         (if j < Suc m
          then last (mem j # concat (map (\<lambda>a. map (rd j (int a)) [0 ..< length ts]) [0 ..< nat n_avg]))
          else mem j)"
      using IH [OF j] lens by (cases "j = m") (simp_all add: v(2) less_Suc_eq)
    show "state_st (for_n m (rd m) 0 n_avg ts ?s) ! j =
         (if j < Suc m
          then map (\<lambda>(a, b). a XOR b)
                 (zip (mem j # concat (map (\<lambda>a. map (rd j (int a)) [0 ..< length ts]) [0 ..< nat n_avg]))
                      (concat (map (\<lambda>a. map (rd j (int a)) [0 ..< length ts]) [0 ..< nat n_avg])))
          else [])"
      using IH [OF j] lens by (cases "j = m") (simp_all add: v(3) less_Suc_eq)
  qed
qed

lemma in_polls_iff:
  "x \<in> set (concat (replicate j [IsProcessing True, FetchCounter])) \<longleftrightarrow>
   0 < j \<and> (x = IsProcessing True \<or> x = FetchCounter)"
  by (induction j) auto


section \<open>The claims\<close>

text \<open>
  Claim C10.  Qubit selection: when the \<open>qubits\<close> parameter is \<open>None\<close> or the empty string
  the machine's active qubits are used; otherwise the listed names are looked up in the
  machine's qubit dictionary in the given order; and a listed name the dictionary lacks
  (the first such name, once the connection has been opened) ends the run with a
  \<open>KeyError\<close> for that name before any program is built.
\<close>

theorem qubit_selection:
  "(qubits p = QNone \<or> qubits p = QStr [] \<longrightarrow>
      select_qubits (quam_load env) (qubits p) = Inr (active_qubits (quam_load env))) \<and>
   (qubits p = QList names \<and>
    (\<forall>n\<in>set names. map_of (machine_qubits (quam_load env)) n \<noteq> None) \<longrightarrow>
      select_qubits (quam_load env) (qubits p) =
        Inr (map (\<lambda>n. the (map_of (machine_qubits (quam_load env)) n)) names)) \<and>
   (qubits p = QList (pre @ n # post) \<and>
    (\<forall>x\<in>set pre. map_of (machine_qubits (quam_load env)) x \<noteq> None) \<and>
    map_of (machine_qubits (quam_load env)) n = None \<and>
    (load_data_id p = None \<longrightarrow> connect env = None) \<longrightarrow>
      (\<exists>tr. run env p = Some (tr, Inl (KeyError n)) \<and>
            (\<forall>nq na ts. BuildProgram nq na ts \<notin> set tr)))"
proof (intro conjI impI)
  assume "qubits p = QNone \<or> qubits p = QStr []"
  then show "select_qubits (quam_load env) (qubits p) = Inr (active_qubits (quam_load env))"
    by (auto simp: select_qubits_def)
next
  assume "qubits p = QList names \<and>
    (\<forall>n\<in>set names. map_of (machine_qubits (quam_load env)) n \<noteq> None)"
  then show "select_qubits (quam_load env) (qubits p) =
        Inr (map (\<lambda>n. the (map_of (machine_qubits (quam_load env)) n)) names)"
    by (simp add: select_qubits_def lookup_qubits_present)
next
  assume h: "qubits p = QList (pre @ n # post) \<and>
    (\<forall>x\<in>set pre. map_of (machine_qubits (quam_load env)) x \<noteq> None) \<and>
    map_of (machine_qubits (quam_load env)) n = None \<and>
    (load_data_id p = None \<longrightarrow> connect env = None)"
  then have sel: "select_qubits (quam_load env) (qubits p) = Inl (KeyError n)"
    by (simp add: select_qubits_def lookup_qubits_absent)
  have "run env p =
      Some ([LoadMachine, GenerateConfig] @ (if load_data_id p = None then [Connect] else []),
            Inl (KeyError n))"
    using h sel by (simp add: run_def script_def and_then_def initialize_eq)
  then show "\<exists>tr. run env p = Some (tr, Inl (KeyError n)) \<and>
      (\<forall>nq na ts. BuildProgram nq na ts \<notin> set tr)"
    by auto
qed

theorem qubit_selection_witness:
  "select_qubits (quam_load env0) (qubits (params0 \<lparr> qubits := QNone \<rparr>)) = Inr [qD1, qD2] \<and>
   select_qubits (quam_load env0) (qubits (params0 \<lparr> qubits := QList [''qD2'', ''qD1''] \<rparr>)) =
     Inr [qD2, qD1] \<and>
   (\<exists>tr. run env0 (params0 \<lparr> qubits := QList [''qD2'', ''qX'', ''qD1''] \<rparr>) =
            Some (tr, Inl (KeyError ''qX'')) \<and>
         (\<forall>nq na ts. BuildProgram nq na ts \<notin> set tr))"
proof -
  have a: "select_qubits (quam_load env0) (qubits (params0 \<lparr> qubits := QNone \<rparr>)) = Inr [qD1, qD2]"
    using qubit_selection [of "params0 \<lparr> qubits := QNone \<rparr>" env0]
    by (simp add: env0_def machine0_def)
  have b: "select_qubits (quam_load env0) (qubits (params0 \<lparr> qubits := QList [''qD2'', ''qD1''] \<rparr>)) =
     Inr [qD2, qD1]"
    using qubit_selection [of "params0 \<lparr> qubits := QList [''qD2'', ''qD1''] \<rparr>" env0
        "[''qD2'', ''qD1'']"]
    by (simp add: env0_def machine0_def)
  have c: "\<exists>tr. run env0 (params0 \<lparr> qubits := QList [''qD2'', ''qX'', ''qD1''] \<rparr>) =
            Some (tr, Inl (KeyError ''qX'')) \<and>
         (\<forall>nq na ts. BuildProgram nq na ts \<notin> set tr)"
    using qubit_selection [of "params0 \<lparr> qubits := QList [''qD2'', ''qX'', ''qD1''] \<rparr>" env0
        _ "[''qD2'']" "''qX''" "[''qD1'']"]
    by (simp add: env0_def machine0_def params0_def Parameters_def)
  from a b c show ?thesis by blast
qed

text \<open>
  Claim C4 says that the fetch, fit and persist phases are performed for simulator runs as
  well as hardware runs.  The script guards them with \<open>if not node.parameters.simulate\<close>
  (line 177): the simulated run below calls neither the result fetch nor a fit, and what it
  saves holds the figure of the simulated samples only.
\<close>

theorem simulated_run_counterexample:
  "trace_of env0 (params0 \<lparr> simulate := True \<rparr>) =
     Some [LoadMachine, GenerateConfig, Connect, BuildProgram 1 1500 [4, 5], Simulate 10000,
           PlotSamples, Save] \<and>
   map_option sv_results (saved_of env0 (params0 \<lparr> simulate := True \<rparr>)) =
     Some [(''figure'', VFigure SamplesFigure)] \<and>
   saved_result env0 (params0 \<lparr> simulate := True \<rparr>) ''ds'' = None \<and>
   saved_result env0 (params0 \<lparr> simulate := True \<rparr>) ''fit_results'' = None"
  by (simp add: trace_of_def saved_of_def saved_result_def run_env0_simulate)

text \<open>
  Claim C4, amended.  A simulated run fetches no results, loads no dataset and fits
  nothing, and when it saves, its results are the figure of the simulated samples alone.
  A run on hardware (not simulated, \<open>load_data_id\<close> unset) that reaches \<open>node.save()\<close> ends
  with these calls, in this order and none of them earlier: the fetch of the results, from
  which the dataset it saves is built, the exponential fit and its plot, the Gaussian fit
  and its plot, and the save.  A run with \<open>load_data_id\<close> set opens no connection, executes
  nothing and fetches nothing: whatever it fits it has loaded from the stored node.
\<close>

theorem fetch_and_fit_unless_simulated:
  "(simulate p \<and> run env p = Some (tr, r) \<longrightarrow>
      FetchResults \<notin> set tr \<and> (\<forall>i. LoadFromId i \<notin> set tr) \<and> (\<forall>m. Fit m \<notin> set tr) \<and>
      (\<forall>sv. r = Inr sv \<longrightarrow> sv_results sv = [(''figure'', VFigure SamplesFigure)])) \<and>
   (\<not> simulate p \<and> load_data_id p = None \<and> run env p = Some (tr, Inr sv') \<longrightarrow>
      (\<exists>pre qbs fr.
         tr = pre @ [FetchResults, Fit DecayExp, Plot DecayExp, Fit DecayGaussian,
                     Plot DecayGaussian, Save] \<and>
         FetchResults \<notin> set pre \<and> (\<forall>m. Fit m \<notin> set pre) \<and> Save \<notin> set pre \<and>
         select_qubits (quam_load env) (qubits p) = Inr qbs \<and>
         map_of (sv_results sv') ''ds'' = Some (VDataset (hardware_dataset env p qbs)) \<and>
         map_of (sv_results sv') ''fit_results'' = Some (VFitResults fr))) \<and>
   (\<not> simulate p \<and> load_data_id p = Some i \<and> run env p = Some (tr, r) \<longrightarrow>
      Connect \<notin> set tr \<and> Execute \<notin> set tr \<and> FetchResults \<notin> set tr \<and>
      (\<forall>m. Fit m \<in> set tr \<longrightarrow> LoadFromId i \<in> set tr))"
proof (intro conjI impI)
  assume h: "simulate p \<and> run env p = Some (tr, r)"
  then have sim: "simulate p" and run: "run env p = Some (tr, r)" by simp_all
  show "FetchResults \<notin> set tr" by (rule run_simulated(1) [OF sim run])
  show "\<forall>i. LoadFromId i \<notin> set tr" by (intro allI run_simulated(2) [OF sim run])
  show "\<forall>m. Fit m \<notin> set tr" by (intro allI run_simulated(3) [OF sim run])
  show "\<forall>sv. r = Inr sv \<longrightarrow> sv_results sv = [(''figure'', VFigure SamplesFigure)]"
  proof (intro allI impI)
    fix sv assume "r = Inr sv"
    from run_simulated(4) [OF sim run this]
    show "sv_results sv = [(''figure'', VFigure SamplesFigure)]" by simp
  qed
next
  assume h: "\<not> simulate p \<and> load_data_id p = None \<and> run env p = Some (tr, Inr sv')"
  then have ns: "\<not> simulate p" and run: "run env p = Some (tr, Inr sv')" by simp_all
  from ns run obtain qbs fr2 j where
    sel: "select_qubits (quam_load env) (qubits p) = Inr qbs" and
    tr: "tr = [LoadMachine, GenerateConfig, Connect,
           BuildProgram (length qbs) (num_averages p) (idle_times env p), Execute] @
          concat (replicate j [IsProcessing True, FetchCounter]) @
          [IsProcessing False, FetchResults, Fit DecayExp, Plot DecayExp,
           Fit DecayGaussian, Plot DecayGaussian, Save]" and
    sv: "sv' = \<lparr> sv_results =
              [(''ds'', VDataset (hardware_dataset env p qbs)),
               (''fit_results'', VFitResults fr2),
               (''figure'', VFigure (GridFigure DecayExp)),
               (''figure_gaussian'', VFigure (GridFigure DecayGaussian)),
               (''initial_parameters'', VParameters p)],
            sv_machine = quam_load env, sv_outcomes = outcomes_of qbs \<rparr>"
    by (rule run_saved_not_simulated)
  let ?pre = "[LoadMachine, GenerateConfig, Connect,
           BuildProgram (length qbs) (num_averages p) (idle_times env p), Execute] @
          concat (replicate j [IsProcessing True, FetchCounter]) @ [IsProcessing False]"
  have a: "tr = ?pre @ [FetchResults, Fit DecayExp, Plot DecayExp, Fit DecayGaussian,
                     Plot DecayGaussian, Save]" by (simp add: tr)
  have b: "FetchResults \<notin> set ?pre" "\<forall>m. Fit m \<notin> set ?pre" "Save \<notin> set ?pre"
    by (simp_all add: in_polls_iff)
  have c: "map_of (sv_results sv') ''ds'' = Some (VDataset (hardware_dataset env p qbs))"
    "map_of (sv_results sv') ''fit_results'' = Some (VFitResults fr2)"
    by (simp_all add: sv)
  from a b sel c show "\<exists>pre qbs fr.
         tr = pre @ [FetchResults, Fit DecayExp, Plot DecayExp, Fit DecayGaussian,
                     Plot DecayGaussian, Save] \<and>
         FetchResults \<notin> set pre \<and> (\<forall>m. Fit m \<notin> set pre) \<and> Save \<notin> set pre \<and>
         select_qubits (quam_load env) (qubits p) = Inr qbs \<and>
         map_of (sv_results sv') ''ds'' = Some (VDataset (hardware_dataset env p qbs)) \<and>
         map_of (sv_results sv') ''fit_results'' = Some (VFitResults fr)"
    by (intro exI conjI)
next
  assume h: "\<not> simulate p \<and> load_data_id p = Some i \<and> run env p = Some (tr, r)"
  then have ns: "\<not> simulate p" and ld: "load_data_id p = Some i"
    and run: "run env p = Some (tr, r)" by simp_all
  from run_load_returned [OF ns ld run]
  show "Connect \<notin> set tr" "Execute \<notin> set tr" "FetchResults \<notin> set tr"
    "\<forall>m. Fit m \<in> set tr \<longrightarrow> LoadFromId i \<in> set tr"
    by simp_all
qed

theorem fetch_and_fit_unless_simulated_witness:
  "(\<exists>tr r. simulate (params0 \<lparr> simulate := True \<rparr>) \<and>
      run env0 (params0 \<lparr> simulate := True \<rparr>) = Some (tr, r) \<and>
      FetchResults \<notin> set tr \<and> (\<forall>m. Fit m \<notin> set tr)) \<and>
   (\<exists>tr sv pre. \<not> simulate params0 \<and> load_data_id params0 = None \<and>
      run env0 params0 = Some (tr, Inr sv) \<and>
      tr = pre @ [FetchResults, Fit DecayExp, Plot DecayExp, Fit DecayGaussian,
                  Plot DecayGaussian, Save] \<and> FetchResults \<notin> set pre \<and> Save \<notin> set pre) \<and>
   (\<exists>tr r. \<not> simulate (params0 \<lparr> load_data_id := Some 7 \<rparr>) \<and>
      load_data_id (params0 \<lparr> load_data_id := Some 7 \<rparr>) = Some 7 \<and>
      run (env0 \<lparr> load_from_id := \<lambda>i. Inr stored0 \<rparr>) (params0 \<lparr> load_data_id := Some 7 \<rparr>) =
        Some (tr, r) \<and>
      Fit DecayExp \<in> set tr \<and> LoadFromId 7 \<in> set tr \<and> FetchResults \<notin> set tr)"
proof -
  have s: "simulate (params0 \<lparr> simulate := True \<rparr>)" by simp
  have n: "\<not> simulate params0" and l: "load_data_id params0 = None"
    by (simp_all add: params0_def Parameters_def)
  have n3: "\<not> simulate (params0 \<lparr> load_data_id := Some 7 \<rparr>)"
    and l3: "load_data_id (params0 \<lparr> load_data_id := Some 7 \<rparr>) = Some 7"
    by (simp_all add: params0_def Parameters_def)
  obtain tr1 r1 where r1: "run env0 (params0 \<lparr> simulate := True \<rparr>) = Some (tr1, r1)"
    by (rule that [OF run_env0_simulate])
  obtain tr2 sv2 where r2: "run env0 params0 = Some (tr2, Inr sv2)"
    by (rule that [OF run_env0])
  obtain tr3 r3 where r3: "run (env0 \<lparr> load_from_id := \<lambda>i. Inr stored0 \<rparr>)
      (params0 \<lparr> load_data_id := Some 7 \<rparr>) = Some (tr3, r3)" and f3: "Fit DecayExp \<in> set tr3"
    by (rule that [OF run_env0_load]) simp
  from fetch_and_fit_unless_simulated [of "params0 \<lparr> simulate := True \<rparr>" env0 tr1 r1] s r1
  have a: "FetchResults \<notin> set tr1 \<and> (\<forall>m. Fit m \<notin> set tr1)" by simp
  have hyp2: "\<not> simulate params0 \<and> load_data_id params0 = None \<and>
      run env0 params0 = Some (tr2, Inr sv2)"
    using n l r2 by (intro conjI)
  from fetch_and_fit_unless_simulated [of params0 env0 tr2 _ sv2, THEN conjunct2, THEN conjunct1,
      THEN mp, OF hyp2]
  obtain pre where b: "tr2 = pre @ [FetchResults, Fit DecayExp, Plot DecayExp, Fit DecayGaussian,
                  Plot DecayGaussian, Save]" "FetchResults \<notin> set pre" "Save \<notin> set pre"
    by (elim conjE exE) (rule that)
  from fetch_and_fit_unless_simulated [of "params0 \<lparr> load_data_id := Some 7 \<rparr>"
      "env0 \<lparr> load_from_id := \<lambda>i. Inr stored0 \<rparr>" tr3 r3 _ 7] n3 l3 r3 f3
  have c: "LoadFromId 7 \<in> set tr3 \<and> FetchResults \<notin> set tr3" by blast
  from s r1 a have A: "\<exists>tr r. simulate (params0 \<lparr> simulate := True \<rparr>) \<and>
      run env0 (params0 \<lparr> simulate := True \<rparr>) = Some (tr, r) \<and>
      FetchResults \<notin> set tr \<and> (\<forall>m. Fit m \<notin> set tr)" by blast
  from n l r2 b have B: "\<exists>tr sv pre. \<not> simulate params0 \<and> load_data_id params0 = None \<and>
      run env0 params0 = Some (tr, Inr sv) \<and>
      tr = pre @ [FetchResults, Fit DecayExp, Plot DecayExp, Fit DecayGaussian,
                  Plot DecayGaussian, Save] \<and> FetchResults \<notin> set pre \<and> Save \<notin> set pre"
    by (intro exI conjI)
  from c have c1: "LoadFromId 7 \<in> set tr3" and c2: "FetchResults \<notin> set tr3" by simp_all
  from n3 l3 r3 f3 c1 c2 have C: "\<exists>tr r. \<not> simulate (params0 \<lparr> load_data_id := Some 7 \<rparr>) \<and>
      load_data_id (params0 \<lparr> load_data_id := Some 7 \<rparr>) = Some 7 \<and>
      run (env0 \<lparr> load_from_id := \<lambda>i. Inr stored0 \<rparr>) (params0 \<lparr> load_data_id := Some 7 \<rparr>) =
        Some (tr, r) \<and>
      Fit DecayExp \<in> set tr \<and> LoadFromId 7 \<in> set tr \<and> FetchResults \<notin> set tr"
    by (intro exI conjI)
  from A B C show ?thesis by (intro conjI)
qed

text \<open>
  Claim C1 says that one fit with one fixed decay model is made and that the persisted
  \<open>"fit_results"\<close> are its output, no second fit replacing them.  The script fits twice:
  in the run below the exponential fit gives the record with offset 5 MHz, the Gaussian
  fit follows, and the node is saved with the Gaussian record (offset 4 MHz) under
  \<open>"fit_results"\<close>.
\<close>

theorem second_fit_counterexample:
  "trace_of env0 params0 =
     Some [LoadMachine, GenerateConfig, Connect, BuildProgram 1 1500 [4, 5], Execute,
           IsProcessing True, FetchCounter, IsProcessing True, FetchCounter,
           IsProcessing False, FetchResults, Fit DecayExp, Plot DecayExp,
           Fit DecayGaussian, Plot DecayGaussian, Save] \<and>
   make_fit_results exp_fit0 [qD1] =
     Inr [(''qD1'', [(''freq_offset'', 5000000), (''decay'', 1 / 1000000), (''decay_error'', 0)])] \<and>
   saved_result env0 params0 ''fit_results'' =
     Some (VFitResults
       [(''qD1'', [(''freq_offset'', 4000000), (''decay'', 1 / 500000), (''decay_error'', 0)])])"
  by (simp add: trace_of_def saved_of_def saved_result_def run_env0 exp_record0)

text \<open>
  Claim C1, amended.  The analysis makes two least-squares fits of the same dataset, the
  exponential-decay model first and the Gaussian-decay model second, each against its
  own fixed model.  Both write their record under \<open>"fit_results"\<close>, so the record a
  non-simulated run saves is the one built from the output of the Gaussian fit; of the
  exponential fit the saved results keep the figure, under \<open>"figure"\<close>, next to the
  Gaussian one under \<open>"figure_gaussian"\<close>.
\<close>

theorem saved_fit_results_are_gaussian:
  assumes "\<not> simulate p" and "run env p = Some (tr, Inr sv)"
    and "select_qubits (quam_load env) (qubits p) = Inr qbs"
  shows "\<exists>efit gfit fr pre mid post.
     fit_oscillation_decay_exp env (hardware_dataset env p qbs) = Inr efit \<and>
     fit_oscillation_decay_gaussian env (hardware_dataset env p qbs) = Inr gfit \<and>
     tr = pre @ Fit DecayExp # mid @ Fit DecayGaussian # post \<and>
     make_fit_results gfit qbs = Inr fr \<and>
     map_of (sv_results sv) ''fit_results'' = Some (VFitResults fr) \<and>
     map_of (sv_results sv) ''figure'' = Some (VFigure (GridFigure DecayExp)) \<and>
     map_of (sv_results sv) ''figure_gaussian'' = Some (VFigure (GridFigure DecayGaussian))"
proof -
  from assms(1,2) obtain qbs' efit gfit fr1 fr2 j where
    sel: "select_qubits (quam_load env) (qubits p) = Inr qbs'" and
    e: "fit_oscillation_decay_exp env (hardware_dataset env p qbs') = Inr efit" and
    g: "fit_oscillation_decay_gaussian env (hardware_dataset env p qbs') = Inr gfit" and
    fr: "make_fit_results gfit qbs' = Inr fr2" and
    tr: "tr = [LoadMachine, GenerateConfig, Connect,
           BuildProgram (length qbs') (num_averages p) (idle_times env p), Execute] @
          concat (replicate j [IsProcessing True, FetchCounter]) @
          [IsProcessing False, FetchResults, Fit DecayExp, Plot DecayExp,
           Fit DecayGaussian, Plot DecayGaussian, Save]" and
    sv: "sv = \<lparr> sv_results =
              [(''ds'', VDataset (hardware_dataset env p qbs')),
               (''fit_results'', VFitResults fr2),
               (''figure'', VFigure (GridFigure DecayExp)),
               (''figure_gaussian'', VFigure (GridFigure DecayGaussian)),
               (''initial_parameters'', VParameters p)],
            sv_machine = quam_load env, sv_outcomes = outcomes_of qbs' \<rparr>"
    by (rule run_saved_not_simulated)
  from sel assms(3) have q: "qbs' = qbs" by simp
  have split: "tr = ([LoadMachine, GenerateConfig, Connect,
           BuildProgram (length qbs') (num_averages p) (idle_times env p), Execute] @
          concat (replicate j [IsProcessing True, FetchCounter]) @
          [IsProcessing False, FetchResults]) @ Fit DecayExp # [Plot DecayExp] @
          Fit DecayGaussian # [Plot DecayGaussian, Save]"
    by (simp add: tr)
  have r1: "map_of (sv_results sv) ''fit_results'' = Some (VFitResults fr2)"
    and r2: "map_of (sv_results sv) ''figure'' = Some (VFigure (GridFigure DecayExp))"
    and r3: "map_of (sv_results sv) ''figure_gaussian'' = Some (VFigure (GridFigure DecayGaussian))"
    by (simp_all add: sv)
  from e g fr r1 r2 r3 split show ?thesis unfolding q by blast
qed

theorem saved_fit_results_are_gaussian_witness:
  "\<not> simulate params0 \<and> select_qubits (quam_load env0) (qubits params0) = Inr [qD1] \<and>
   (\<exists>tr sv fr. run env0 params0 = Some (tr, Inr sv) \<and>
      make_fit_results gauss_fit0 [qD1] = Inr fr \<and>
      map_of (sv_results sv) ''fit_results'' = Some (VFitResults fr))"
proof -
  have n: "\<not> simulate params0" by (simp add: params0_def Parameters_def)
  have q: "select_qubits (quam_load env0) (qubits params0) = Inr [qD1]"
    by (simp add: example_defs)
  obtain tr sv where r: "run env0 params0 = Some (tr, Inr sv)"
    by (rule that [OF run_env0])
  from saved_fit_results_are_gaussian [OF n r q] obtain gfit fr where
    g: "fit_oscillation_decay_gaussian env0 (hardware_dataset env0 params0 [qD1]) = Inr gfit" and
    fr: "make_fit_results gfit [qD1] = Inr fr"
      "map_of (sv_results sv) ''fit_results'' = Some (VFitResults fr)"
    by blast
  from g have "gfit = gauss_fit0" by (simp add: env0_def)
  with n q r fr show ?thesis by blast
qed

text \<open>
  Claim C2 says that the fitted frequency offset and T2* are written back as updated qubit
  parameters in the saved state.  The script assigns nothing to the machine between
  \<open>Quam.load()\<close> and \<open>node.machine = machine\<close>: the run below fits an offset of 4 MHz and a
  decay time of 2 microseconds for qD1 and saves the machine it loaded, in which qD1 still
  has the frequency and the \<open>T2ramsey\<close> it was loaded with.
\<close>

theorem machine_unchanged_counterexample:
  "saved_result env0 params0 ''fit_results'' =
     Some (VFitResults
       [(''qD1'', [(''freq_offset'', 4000000), (''decay'', 1 / 500000), (''decay_error'', 0)])]) \<and>
   saved_machine env0 params0 = Some machine0 \<and> quam_load env0 = machine0 \<and>
   map_of (machine_qubits machine0) ''qD1'' = Some qD1 \<and>
   f_01 qD1 = 5000000000 \<and> T2ramsey qD1 = 1 / 200000"
proof -
  have "saved_result env0 params0 ''fit_results'' =
     Some (VFitResults
       [(''qD1'', [(''freq_offset'', 4000000), (''decay'', 1 / 500000), (''decay_error'', 0)])])"
    by (simp add: saved_of_def saved_result_def run_env0)
  moreover have "saved_machine env0 params0 = Some machine0"
    by (simp add: saved_of_def saved_machine_def run_env0)
  moreover have "quam_load env0 = machine0" by (simp add: env0_def)
  moreover have "map_of (machine_qubits machine0) ''qD1'' = Some qD1" by (simp add: machine0_def)
  moreover have "f_01 qD1 = 5000000000 \<and> T2ramsey qD1 = 1 / 200000" by (simp add: qD1_def)
  ultimately show ?thesis by simp
qed

text \<open>
  Claim C2, amended.  After fitting, the script persists the fitted frequency offset and
  decay time of each qubit under study in the fit-result record of the saved node, not in
  the machine: for each selected qubit the record holds, from the output of the Gaussian
  fit, \<open>"freq_offset"\<close> \<open>1e9 * f\<close> with \<open>f\<close> the qubit's positive fitted frequency,
  \<open>"decay"\<close> \<open>1e-9 * (1 / decay)\<close> and \<open>"decay_error"\<close>
  \<open>1e-9 * ((1 / decay) * (sqrt(decay_decay) / decay))\<close> (where the fitted decay rate is
  not zero and the square root is of a number that is not negative; a float division by
  zero and the square root of a negative number give infinities and NaN, which the reals
  do not have).  The machine the run saves is the machine as loaded, whose qubit parameters
  the script leaves as they were.
\<close>

theorem fit_reported_machine_as_loaded:
  assumes "run env p = Some (tr, Inr sv)"
  shows "sv_machine sv = quam_load env \<and>
    (\<not> simulate p \<longrightarrow>
       (\<exists>qbs gfit fr. select_qubits (quam_load env) (qubits p) = Inr qbs \<and>
          fit_oscillation_decay_gaussian env (hardware_dataset env p qbs) = Inr gfit \<and>
          map_of (sv_results sv) ''fit_results'' = Some (VFitResults fr) \<and>
          (\<forall>q\<in>set qbs. \<exists>v w d de.
              map_of (filter (\<lambda>(k, v). 0 < fv_f v) gfit) (name q) = Some v \<and>
              map_of gfit (name q) = Some w \<and>
              map_of fr (name q) =
                Some [(''freq_offset'', 10 ^ 9 * fv_f v), (''decay'', d), (''decay_error'', de)] \<and>
              (fv_decay w \<noteq> 0 \<longrightarrow> d = (1 / 10 ^ 9) * (1 / fv_decay w)) \<and>
              (fv_decay w \<noteq> 0 \<and> 0 \<le> fv_decay_decay w \<longrightarrow>
                 de = (1 / 10 ^ 9) *
                      ((1 / fv_decay w) * (sqrt (fv_decay_decay w) / fv_decay w))))))"
proof (intro conjI impI)
  show "sv_machine sv = quam_load env" by (rule run_saved_machine [OF assms])
next
  assume ns: "\<not> simulate p"
  from ns assms obtain qbs gfit fr2 where
    sel: "select_qubits (quam_load env) (qubits p) = Inr qbs" and
    g: "fit_oscillation_decay_gaussian env (hardware_dataset env p qbs) = Inr gfit" and
    fr: "make_fit_results gfit qbs = Inr fr2" and
    sv: "sv = \<lparr> sv_results =
              [(''ds'', VDataset (hardware_dataset env p qbs)),
               (''fit_results'', VFitResults fr2),
               (''figure'', VFigure (GridFigure DecayExp)),
               (''figure_gaussian'', VFigure (GridFigure DecayGaussian)),
               (''initial_parameters'', VParameters p)],
            sv_machine = quam_load env, sv_outcomes = outcomes_of qbs \<rparr>"
    by (rule run_saved_not_simulated)
  have r: "map_of (sv_results sv) ''fit_results'' = Some (VFitResults fr2)" by (simp add: sv)
  have each: "\<forall>q\<in>set qbs. \<exists>v w d de.
              map_of (filter (\<lambda>(k, v). 0 < fv_f v) gfit) (name q) = Some v \<and>
              map_of gfit (name q) = Some w \<and>
              map_of fr2 (name q) =
                Some [(''freq_offset'', 10 ^ 9 * fv_f v), (''decay'', d), (''decay_error'', de)] \<and>
              (fv_decay w \<noteq> 0 \<longrightarrow> d = (1 / 10 ^ 9) * (1 / fv_decay w)) \<and>
              (fv_decay w \<noteq> 0 \<and> 0 \<le> fv_decay_decay w \<longrightarrow>
                 de = (1 / 10 ^ 9) *
                      ((1 / fv_decay w) * (sqrt (fv_decay_decay w) / fv_decay w)))"
    by (intro ballI make_fit_results_values [OF fr])
  from sel g r each show "\<exists>qbs gfit fr. select_qubits (quam_load env) (qubits p) = Inr qbs \<and>
          fit_oscillation_decay_gaussian env (hardware_dataset env p qbs) = Inr gfit \<and>
          map_of (sv_results sv) ''fit_results'' = Some (VFitResults fr) \<and>
          (\<forall>q\<in>set qbs. \<exists>v w d de.
              map_of (filter (\<lambda>(k, v). 0 < fv_f v) gfit) (name q) = Some v \<and>
              map_of gfit (name q) = Some w \<and>
              map_of fr (name q) =
                Some [(''freq_offset'', 10 ^ 9 * fv_f v), (''decay'', d), (''decay_error'', de)] \<and>
              (fv_decay w \<noteq> 0 \<longrightarrow> d = (1 / 10 ^ 9) * (1 / fv_decay w)) \<and>
              (fv_decay w \<noteq> 0 \<and> 0 \<le> fv_decay_decay w \<longrightarrow>
                 de = (1 / 10 ^ 9) *
                      ((1 / fv_decay w) * (sqrt (fv_decay_decay w) / fv_decay w))))"
    by (intro exI conjI)
qed

theorem fit_reported_machine_as_loaded_witness:
  "\<not> simulate params0 \<and>
   (\<exists>tr sv. run env0 params0 = Some (tr, Inr sv) \<and> sv_machine sv = quam_load env0 \<and>
      (\<exists>fr. map_of (sv_results sv) ''fit_results'' = Some (VFitResults fr) \<and>
         map_of fr (name qD1) =
           Some [(''freq_offset'', 4000000), (''decay'', 1 / 500000), (''decay_error'', 0)]))"
proof -
  have n: "\<not> simulate params0" by (simp add: params0_def Parameters_def)
  have q: "select_qubits (quam_load env0) (qubits params0) = Inr [qD1]"
    by (simp add: example_defs)
  have nm: "name qD1 = ''qD1''" by (simp add: qD1_def)
  obtain tr sv where r: "run env0 params0 = Some (tr, Inr sv)"
    by (rule that [OF run_env0])
  note both = fit_reported_machine_as_loaded [OF r]
  from both have m: "sv_machine sv = quam_load env0" by (rule conjunct1)
  from both [THEN conjunct2, THEN mp, OF n] obtain qbs gfit fr where
    sel: "select_qubits (quam_load env0) (qubits params0) = Inr qbs" and
    g0: "fit_oscillation_decay_gaussian env0 (hardware_dataset env0 params0 qbs) = Inr gfit" and
    fr: "map_of (sv_results sv) ''fit_results'' = Some (VFitResults fr)" and
    vals: "\<forall>q\<in>set qbs. \<exists>v w d de.
              map_of (filter (\<lambda>(k, v). 0 < fv_f v) gfit) (name q) = Some v \<and>
              map_of gfit (name q) = Some w \<and>
              map_of fr (name q) =
                Some [(''freq_offset'', 10 ^ 9 * fv_f v), (''decay'', d), (''decay_error'', de)] \<and>
              (fv_decay w \<noteq> 0 \<longrightarrow> d = (1 / 10 ^ 9) * (1 / fv_decay w)) \<and>
              (fv_decay w \<noteq> 0 \<and> 0 \<le> fv_decay_decay w \<longrightarrow>
                 de = (1 / 10 ^ 9) *
                      ((1 / fv_decay w) * (sqrt (fv_decay_decay w) / fv_decay w)))"
    by (elim conjE exE) (rule that)
  from sel q have qbs: "qbs = [qD1]" by simp
  from g0 have g: "fit_oscillation_decay_gaussian env0 (hardware_dataset env0 params0 [qD1]) =
      Inr gfit" by (simp add: qbs)
  have "qD1 \<in> set qbs" by (simp add: qbs)
  from vals [rule_format, OF this] obtain v w d de where
    v: "map_of (filter (\<lambda>(k, v). 0 < fv_f v) gfit) (name qD1) = Some v" and
    w: "map_of gfit (name qD1) = Some w" and
    rec: "map_of fr (name qD1) =
        Some [(''freq_offset'', 10 ^ 9 * fv_f v), (''decay'', d), (''decay_error'', de)]" and
    d: "fv_decay w \<noteq> 0 \<longrightarrow> d = (1 / 10 ^ 9) * (1 / fv_decay w)" and
    de: "fv_decay w \<noteq> 0 \<and> 0 \<le> fv_decay_decay w \<longrightarrow>
         de = (1 / 10 ^ 9) * ((1 / fv_decay w) * (sqrt (fv_decay_decay w) / fv_decay w))"
    by (elim conjE exE) (rule that)
  from g have gf: "gfit = gauss_fit0" by (simp add: env0_def)
  from v have vv: "fv_f v = 1 / 250" by (auto simp: gf gauss_fit0_def nm)
  from w have ww: "fv_decay w = 1 / 2000" "fv_decay_decay w = 0"
    by (auto simp: gf gauss_fit0_def nm)
  from d de have "d = 1 / 500000" "de = 0" by (simp_all add: ww)
  with rec vv have "map_of fr (name qD1) =
      Some [(''freq_offset'', 4000000), (''decay'', 1 / 500000), (''decay_error'', 0)]"
    by simp
  with r m fr have "\<exists>tr sv. run env0 params0 = Some (tr, Inr sv) \<and>
      sv_machine sv = quam_load env0 \<and>
      (\<exists>fr. map_of (sv_results sv) ''fit_results'' = Some (VFitResults fr) \<and>
         map_of fr (name qD1) =
           Some [(''freq_offset'', 4000000), (''decay'', 1 / 500000), (''decay_error'', 0)])"
    by (intro exI conjI)
  with n show ?thesis by (intro conjI)
qed

text \<open>
  Claim C3.  The results a hardware run (not simulated, \<open>load_data_id\<close> unset) saves hold the
  labelled dataset (key \<open>"ds"\<close>: the dataset built from the fetched results, its qubit
  coordinate naming the selected qubits), the plotted figures (keys \<open>"figure"\<close> and
  \<open>"figure_gaussian"\<close>) and, under \<open>"fit_results"\<close>, one record for every selected qubit and
  for no other name, each record holding exactly the keys \<open>"freq_offset"\<close>, \<open>"decay"\<close> and
  \<open>"decay_error"\<close> with the values computed from the Gaussian fit.  The claim speaks of
  every non-simulated run; a run with \<open>load_data_id\<close> set is one, and it saves nothing: the
  title of its first figure formats \<open>date_time\<close>, which is bound on the hardware branch only
  (line 165), so the run below ends with \<open>NameError\<close> after the first fit.
\<close>

theorem saved_results_bundle:
  "(\<not> simulate p \<and> load_data_id p = None \<and> run env p = Some (tr, Inr sv) \<and>
    select_qubits (quam_load env) (qubits p) = Inr qbs \<longrightarrow>
      map fst (sv_results sv) =
        [''ds'', ''fit_results'', ''figure'', ''figure_gaussian'', ''initial_parameters''] \<and>
      (\<exists>gfit fr.
         fit_oscillation_decay_gaussian env (hardware_dataset env p qbs) = Inr gfit \<and>
         map_of (sv_results sv) ''ds'' = Some (VDataset (hardware_dataset env p qbs)) \<and>
         qubit_coord (hardware_dataset env p qbs) = map name qbs \<and>
         state_var (hardware_dataset env p qbs) = result_handles env \<and>
         map_of (sv_results sv) ''figure'' = Some (VFigure (GridFigure DecayExp)) \<and>
         map_of (sv_results sv) ''figure_gaussian'' = Some (VFigure (GridFigure DecayGaussian)) \<and>
         map_of (sv_results sv) ''fit_results'' = Some (VFitResults fr) \<and>
         fst ` set fr = name ` set qbs \<and> distinct (map fst fr) \<and>
         (\<forall>(k, r)\<in>set fr. map fst r = [''freq_offset'', ''decay'', ''decay_error'']) \<and>
         (\<forall>q\<in>set qbs. \<exists>v w d de.
            map_of (filter (\<lambda>(k, v). 0 < fv_f v) gfit) (name q) = Some v \<and>
            map_of gfit (name q) = Some w \<and>
            map_of fr (name q) =
              Some [(''freq_offset'', 10 ^ 9 * fv_f v), (''decay'', d), (''decay_error'', de)] \<and>
            (fv_decay w \<noteq> 0 \<longrightarrow> d = (1 / 10 ^ 9) * (1 / fv_decay w)) \<and>
            (fv_decay w \<noteq> 0 \<and> 0 \<le> fv_decay_decay w \<longrightarrow>
               de = (1 / 10 ^ 9) *
                    ((1 / fv_decay w) * (sqrt (fv_decay_decay w) / fv_decay w)))))) \<and>
   (\<not> simulate p \<and> load_data_id p = Some i \<and> run env p = Some (tr, r) \<longrightarrow>
      (\<exists>e. r = Inl e) \<and> Save \<notin> set tr) \<and>
   run (env0 \<lparr> load_from_id := \<lambda>i. Inr stored0 \<rparr>) (params0 \<lparr> load_data_id := Some 7 \<rparr>) =
     Some ([LoadMachine, GenerateConfig, BuildProgram 1 1500 [4, 5], LoadFromId 7,
            Fit DecayExp, Plot DecayExp], Inl (NameError ''date_time''))"
proof (intro conjI impI)
  assume h: "\<not> simulate p \<and> load_data_id p = None \<and> run env p = Some (tr, Inr sv) \<and>
    select_qubits (quam_load env) (qubits p) = Inr qbs"
  then have ns: "\<not> simulate p" and run: "run env p = Some (tr, Inr sv)" by simp_all
  from ns run obtain qbs' gfit fr2 where
    sel: "select_qubits (quam_load env) (qubits p) = Inr qbs'" and
    g: "fit_oscillation_decay_gaussian env (hardware_dataset env p qbs') = Inr gfit" and
    fr: "make_fit_results gfit qbs' = Inr fr2" and
    sv: "sv = \<lparr> sv_results =
              [(''ds'', VDataset (hardware_dataset env p qbs')),
               (''fit_results'', VFitResults fr2),
               (''figure'', VFigure (GridFigure DecayExp)),
               (''figure_gaussian'', VFigure (GridFigure DecayGaussian)),
               (''initial_parameters'', VParameters p)],
            sv_machine = quam_load env, sv_outcomes = outcomes_of qbs' \<rparr>"
    by (rule run_saved_not_simulated)
  from sel h have q: "qbs' = qbs" by simp
  show "map fst (sv_results sv) =
           [''ds'', ''fit_results'', ''figure'', ''figure_gaussian'', ''initial_parameters'']"
    by (simp add: sv)
  have ds: "map_of (sv_results sv) ''ds'' = Some (VDataset (hardware_dataset env p qbs))"
    and f1: "map_of (sv_results sv) ''figure'' = Some (VFigure (GridFigure DecayExp))"
    and f2: "map_of (sv_results sv) ''figure_gaussian'' = Some (VFigure (GridFigure DecayGaussian))"
    and f3: "map_of (sv_results sv) ''fit_results'' = Some (VFitResults fr2)"
    by (simp_all add: sv q)
  have qc: "qubit_coord (hardware_dataset env p qbs) = map name qbs"
    and st: "state_var (hardware_dataset env p qbs) = result_handles env"
    by (simp_all add: hardware_dataset_def fetch_results_as_xarray_def assign_coords_time_def)
  have g': "fit_oscillation_decay_gaussian env (hardware_dataset env p qbs) = Inr gfit"
    using g by (simp add: q)
  have fr': "make_fit_results gfit qbs = Inr fr2" using fr by (simp add: q)
  have dom: "fst ` set fr2 = name ` set qbs" and dist: "distinct (map fst fr2)"
    using make_fit_results_entries(1,2) [OF fr'] by simp_all
  have shape: "\<forall>(k, r)\<in>set fr2. map fst r = [''freq_offset'', ''decay'', ''decay_error'']"
  proof (clarify)
    fix k r assume "(k, r) \<in> set fr2"
    from make_fit_results_entries(3) [OF fr' this]
    show "map fst r = [''freq_offset'', ''decay'', ''decay_error'']" by (rule fit_record_keys)
  qed
  have vals: "\<forall>q\<in>set qbs. \<exists>v w d de.
            map_of (filter (\<lambda>(k, v). 0 < fv_f v) gfit) (name q) = Some v \<and>
            map_of gfit (name q) = Some w \<and>
            map_of fr2 (name q) =
              Some [(''freq_offset'', 10 ^ 9 * fv_f v), (''decay'', d), (''decay_error'', de)] \<and>
            (fv_decay w \<noteq> 0 \<longrightarrow> d = (1 / 10 ^ 9) * (1 / fv_decay w)) \<and>
            (fv_decay w \<noteq> 0 \<and> 0 \<le> fv_decay_decay w \<longrightarrow>
               de = (1 / 10 ^ 9) *
                    ((1 / fv_decay w) * (sqrt (fv_decay_decay w) / fv_decay w)))"
    by (intro ballI make_fit_results_values [OF fr'])
  from g' ds qc st f1 f2 f3 dom dist shape vals
  show "\<exists>gfit fr.
         fit_oscillation_decay_gaussian env (hardware_dataset env p qbs) = Inr gfit \<and>
         map_of (sv_results sv) ''ds'' = Some (VDataset (hardware_dataset env p qbs)) \<and>
         qubit_coord (hardware_dataset env p qbs) = map name qbs \<and>
         state_var (hardware_dataset env p qbs) = result_handles env \<and>
         map_of (sv_results sv) ''figure'' = Some (VFigure (GridFigure DecayExp)) \<and>
         map_of (sv_results sv) ''figure_gaussian'' = Some (VFigure (GridFigure DecayGaussian)) \<and>
         map_of (sv_results sv) ''fit_results'' = Some (VFitResults fr) \<and>
         fst ` set fr = name ` set qbs \<and> distinct (map fst fr) \<and>
         (\<forall>(k, r)\<in>set fr. map fst r = [''freq_offset'', ''decay'', ''decay_error'']) \<and>
         (\<forall>q\<in>set qbs. \<exists>v w d de.
            map_of (filter (\<lambda>(k, v). 0 < fv_f v) gfit) (name q) = Some v \<and>
            map_of gfit (name q) = Some w \<and>
            map_of fr (name q) =
              Some [(''freq_offset'', 10 ^ 9 * fv_f v), (''decay'', d), (''decay_error'', de)] \<and>
            (fv_decay w \<noteq> 0 \<longrightarrow> d = (1 / 10 ^ 9) * (1 / fv_decay w)) \<and>
            (fv_decay w \<noteq> 0 \<and> 0 \<le> fv_decay_decay w \<longrightarrow>
               de = (1 / 10 ^ 9) *
                    ((1 / fv_decay w) * (sqrt (fv_decay_decay w) / fv_decay w))))"
    by (intro exI conjI)
next
  assume h: "\<not> simulate p \<and> load_data_id p = Some i \<and> run env p = Some (tr, r)"
  then have ns: "\<not> simulate p" and ld: "load_data_id p = Some i"
    and run: "run env p = Some (tr, r)" by simp_all
  from run_load_returned [OF ns ld run] show "\<exists>e. r = Inl e" "Save \<notin> set tr" by simp_all
next
  show "run (env0 \<lparr> load_from_id := \<lambda>i. Inr stored0 \<rparr>) (params0 \<lparr> load_data_id := Some 7 \<rparr>) =
     Some ([LoadMachine, GenerateConfig, BuildProgram 1 1500 [4, 5], LoadFromId 7,
            Fit DecayExp, Plot DecayExp], Inl (NameError ''date_time''))"
    by (rule run_env0_load)
qed

theorem saved_results_bundle_witness:
  "\<not> simulate params0 \<and> load_data_id params0 = None \<and>
   select_qubits (quam_load env0) (qubits params0) = Inr [qD1] \<and>
   (\<exists>tr sv. run env0 params0 = Some (tr, Inr sv) \<and>
      map fst (sv_results sv) =
        [''ds'', ''fit_results'', ''figure'', ''figure_gaussian'', ''initial_parameters''] \<and>
      map_of (sv_results sv) ''ds'' = Some (VDataset (hardware_dataset env0 params0 [qD1])) \<and>
      (\<exists>fr. map_of (sv_results sv) ''fit_results'' = Some (VFitResults fr) \<and>
         map_of fr (name qD1) =
           Some [(''freq_offset'', 4000000), (''decay'', 1 / 500000), (''decay_error'', 0)])) \<and>
   \<not> simulate (params0 \<lparr> load_data_id := Some 7 \<rparr>) \<and>
   load_data_id (params0 \<lparr> load_data_id := Some 7 \<rparr>) = Some 7 \<and>
   (\<exists>tr r e. run (env0 \<lparr> load_from_id := \<lambda>i. Inr stored0 \<rparr>)
               (params0 \<lparr> load_data_id := Some 7 \<rparr>) = Some (tr, r) \<and>
      r = Inl e \<and> Save \<notin> set tr)"
proof -
  have n: "\<not> simulate params0" and l: "load_data_id params0 = None"
    by (simp_all add: params0_def Parameters_def)
  have n3: "\<not> simulate (params0 \<lparr> load_data_id := Some 7 \<rparr>)"
    and l3: "load_data_id (params0 \<lparr> load_data_id := Some 7 \<rparr>) = Some 7"
    by (simp_all add: params0_def Parameters_def)
  have q: "select_qubits (quam_load env0) (qubits params0) = Inr [qD1]"
    by (simp add: example_defs)
  have nm: "name qD1 = ''qD1''" by (simp add: qD1_def)
  obtain tr sv where r: "run env0 params0 = Some (tr, Inr sv)"
    by (rule that [OF run_env0])
  have hyp: "\<not> simulate params0 \<and> load_data_id params0 = None \<and>
      run env0 params0 = Some (tr, Inr sv) \<and>
      select_qubits (quam_load env0) (qubits params0) = Inr [qD1]"
    using n l r q by (intro conjI)
  note saved0 = saved_results_bundle [where p = params0 and env = env0 and tr = tr and sv = sv
      and qbs = "[qD1]", THEN conjunct1, THEN mp, OF hyp]
  from saved0 obtain gfit fr where
    keys: "map fst (sv_results sv) =
        [''ds'', ''fit_results'', ''figure'', ''figure_gaussian'', ''initial_parameters'']" and
    g: "fit_oscillation_decay_gaussian env0 (hardware_dataset env0 params0 [qD1]) = Inr gfit" and
    ds: "map_of (sv_results sv) ''ds'' = Some (VDataset (hardware_dataset env0 params0 [qD1]))" and
    fr: "map_of (sv_results sv) ''fit_results'' = Some (VFitResults fr)" and
    vals: "\<forall>q\<in>set [qD1]. \<exists>v w d de.
            map_of (filter (\<lambda>(k, v). 0 < fv_f v) gfit) (name q) = Some v \<and>
            map_of gfit (name q) = Some w \<and>
            map_of fr (name q) =
              Some [(''freq_offset'', 10 ^ 9 * fv_f v), (''decay'', d), (''decay_error'', de)] \<and>
            (fv_decay w \<noteq> 0 \<longrightarrow> d = (1 / 10 ^ 9) * (1 / fv_decay w)) \<and>
            (fv_decay w \<noteq> 0 \<and> 0 \<le> fv_decay_decay w \<longrightarrow>
               de = (1 / 10 ^ 9) *
                    ((1 / fv_decay w) * (sqrt (fv_decay_decay w) / fv_decay w)))"
    by (elim conjE exE) (rule that)
  have "qD1 \<in> set [qD1]" by simp
  from vals [rule_format, OF this] obtain v w d de where
    v: "map_of (filter (\<lambda>(k, v). 0 < fv_f v) gfit) (name qD1) = Some v" and
    w: "map_of gfit (name qD1) = Some w" and
    rec: "map_of fr (name qD1) =
        Some [(''freq_offset'', 10 ^ 9 * fv_f v), (''decay'', d), (''decay_error'', de)]" and
    d: "fv_decay w \<noteq> 0 \<longrightarrow> d = (1 / 10 ^ 9) * (1 / fv_decay w)" and
    de: "fv_decay w \<noteq> 0 \<and> 0 \<le> fv_decay_decay w \<longrightarrow>
         de = (1 / 10 ^ 9) * ((1 / fv_decay w) * (sqrt (fv_decay_decay w) / fv_decay w))"
    by (elim conjE exE) (rule that)
  from g have gf: "gfit = gauss_fit0" by (simp add: env0_def)
  from v have vv: "fv_f v = 1 / 250" by (auto simp: gf gauss_fit0_def nm)
  from w have ww: "fv_decay w = 1 / 2000" "fv_decay_decay w = 0"
    by (auto simp: gf gauss_fit0_def nm)
  from d de have "d = 1 / 500000" "de = 0" by (simp_all add: ww)
  with rec vv have rec': "map_of fr (name qD1) =
      Some [(''freq_offset'', 4000000), (''decay'', 1 / 500000), (''decay_error'', 0)]"
    by simp
  from r keys ds fr rec' have A: "\<exists>tr sv. run env0 params0 = Some (tr, Inr sv) \<and>
      map fst (sv_results sv) =
        [''ds'', ''fit_results'', ''figure'', ''figure_gaussian'', ''initial_parameters''] \<and>
      map_of (sv_results sv) ''ds'' = Some (VDataset (hardware_dataset env0 params0 [qD1])) \<and>
      (\<exists>fr. map_of (sv_results sv) ''fit_results'' = Some (VFitResults fr) \<and>
         map_of fr (name qD1) =
           Some [(''freq_offset'', 4000000), (''decay'', 1 / 500000), (''decay_error'', 0)])"
    by (intro exI conjI)
  obtain tr3 r3 where r3: "run (env0 \<lparr> load_from_id := \<lambda>i. Inr stored0 \<rparr>)
      (params0 \<lparr> load_data_id := Some 7 \<rparr>) = Some (tr3, r3)"
    by (rule that [OF run_env0_load])
  have hyp3: "\<not> simulate (params0 \<lparr> load_data_id := Some 7 \<rparr>) \<and>
      load_data_id (params0 \<lparr> load_data_id := Some 7 \<rparr>) = Some 7 \<and>
      run (env0 \<lparr> load_from_id := \<lambda>i. Inr stored0 \<rparr>)
        (params0 \<lparr> load_data_id := Some 7 \<rparr>) = Some (tr3, r3)"
    using n3 l3 r3 by (intro conjI)
  from saved_results_bundle [where p = "params0 \<lparr> load_data_id := Some 7 \<rparr>"
      and env = "env0 \<lparr> load_from_id := \<lambda>i. Inr stored0 \<rparr>" and tr = tr3 and r = r3 and i = 7,
      THEN conjunct2, THEN conjunct1, THEN mp, OF hyp3]
  obtain e where e: "r3 = Inl e" and s3: "Save \<notin> set tr3"
    by (elim conjE exE) (rule that)
  from r3 e s3 have B: "\<exists>tr r e. run (env0 \<lparr> load_from_id := \<lambda>i. Inr stored0 \<rparr>)
               (params0 \<lparr> load_data_id := Some 7 \<rparr>) = Some (tr, r) \<and>
      r = Inl e \<and> Save \<notin> set tr"
    by (intro exI conjI)
  from n l q A n3 l3 B show ?thesis by (intro conjI)
qed

text \<open>
  Claim C8.  On hardware (not simulated, no \<open>load_data_id\<close>) the script polls the job: every
  poll that finds the job processing is followed by a fetch of the iteration counter, and
  the results are fetched and fitted only after a poll at which the job reported that it
  is no longer processing.  A run whose job reports at every poll that it is processing
  never fetches results, fits or saves: it can only end with an exception; and when no
  library call raises it does not return at all.
\<close>

theorem polling_precedes_fetch:
  assumes "\<not> simulate p" and "load_data_id p = None"
  shows "(run env p = Some (tr, r) \<and> (FetchResults \<in> set tr \<or> (\<exists>m. Fit m \<in> set tr)) \<longrightarrow>
      (\<exists>j pre post. \<not> is_processing env j \<and> (\<forall>i<j. is_processing env i) \<and>
         tr = pre @ [Execute] @ concat (replicate j [IsProcessing True, FetchCounter]) @
                [IsProcessing False, FetchResults] @ post \<and>
         FetchResults \<notin> set pre \<and> (\<forall>m. Fit m \<notin> set pre))) \<and>
    ((\<forall>k. is_processing env k) \<and> run env p = Some (tr, r) \<longrightarrow>
       FetchResults \<notin> set tr \<and> (\<forall>m. Fit m \<notin> set tr) \<and> Save \<notin> set tr \<and> (\<exists>e. r = Inl e)) \<and>
    ((\<forall>k. is_processing env k \<and> poll_body env (num_averages p) k = None) \<and>
     connect env = None \<and> select_qubits (quam_load env) (qubits p) = Inr qbs \<and>
     build_program env (length qbs) (num_averages p) (idle_times env p) = None \<and>
     session_execute env = None \<longrightarrow> run env p = None)"
proof (intro conjI impI)
  assume h: "run env p = Some (tr, r) \<and> (FetchResults \<in> set tr \<or> (\<exists>m. Fit m \<in> set tr))"
  then have run: "run env p = Some (tr, r)"
    and ev: "FetchResults \<in> set tr \<or> (\<exists>m. Fit m \<in> set tr)" by simp_all
  from assms run show "\<exists>j pre post. \<not> is_processing env j \<and> (\<forall>i<j. is_processing env i) \<and>
         tr = pre @ [Execute] @ concat (replicate j [IsProcessing True, FetchCounter]) @
                [IsProcessing False, FetchResults] @ post \<and>
         FetchResults \<notin> set pre \<and> (\<forall>m. Fit m \<notin> set pre)"
  proof (cases rule: run_hardware_cases)
    case (connect_raised e)
    with ev show ?thesis by auto
  next
    case (select_raised e)
    with ev show ?thesis by auto
  next
    case (build_raised qbs e)
    with ev show ?thesis by auto
  next
    case (session_raised qbs e)
    with ev show ?thesis by auto
  next
    case (poll_raised qbs j e)
    from poll_raised(8) have "FetchResults \<notin> set tr" and "\<forall>m. Fit m \<notin> set tr"
      by (simp_all add: in_polls_iff)
    with ev show ?thesis by simp
  next
    case (analysed qbs j)
    let ?pre = "[LoadMachine, GenerateConfig, Connect,
           BuildProgram (length qbs) (num_averages p) (idle_times env p)]"
    from analyse_and_save_trace [OF assms(2) analysed(7)] obtain post where
      "tr = ([LoadMachine, GenerateConfig, Connect,
           BuildProgram (length qbs) (num_averages p) (idle_times env p), Execute] @
          concat (replicate j [IsProcessing True, FetchCounter]) @ [IsProcessing False]) @
          FetchResults # post" by blast
    then have tr: "tr = ?pre @ [Execute] @ concat (replicate j [IsProcessing True, FetchCounter]) @
                [IsProcessing False, FetchResults] @ post" by simp
    from analysed(5) have before: "\<forall>i<j. is_processing env i" by simp
    have clean: "FetchResults \<notin> set ?pre" "\<forall>m. Fit m \<notin> set ?pre" by simp_all
    from analysed(6) before tr clean show ?thesis by (intro exI conjI)
  qed
next
  assume h: "(\<forall>k. is_processing env k) \<and> run env p = Some (tr, r)"
  then have always: "\<forall>k. is_processing env k" and run: "run env p = Some (tr, r)" by simp_all
  from assms run
  have "FetchResults \<notin> set tr \<and> (\<forall>m. Fit m \<notin> set tr) \<and> Save \<notin> set tr \<and> (\<exists>e. r = Inl e)"
  proof (cases rule: run_hardware_cases)
    case (poll_raised qbs j e)
    then show ?thesis by (simp add: in_polls_iff)
  next
    case (analysed qbs j)
    with always show ?thesis by simp
  qed simp_all
  then show "FetchResults \<notin> set tr" "\<forall>m. Fit m \<notin> set tr" "Save \<notin> set tr" "\<exists>e. r = Inl e"
    by simp_all
next
  assume "(\<forall>k. is_processing env k \<and> poll_body env (num_averages p) k = None) \<and>
     connect env = None \<and> select_qubits (quam_load env) (qubits p) = Inr qbs \<and>
     build_program env (length qbs) (num_averages p) (idle_times env p) = None \<and>
     session_execute env = None"
  then show "run env p = None"
    using run_never_finishing [OF assms, of env qbs] by simp
qed

theorem polling_precedes_fetch_witness:
  "\<not> simulate params0 \<and> load_data_id params0 = None \<and>
   (\<exists>tr r. run env0 params0 = Some (tr, r) \<and> FetchResults \<in> set tr \<and>
      (\<exists>j pre post. \<not> is_processing env0 j \<and>
         tr = pre @ [Execute] @ concat (replicate j [IsProcessing True, FetchCounter]) @
                [IsProcessing False, FetchResults] @ post)) \<and>
   \<not> simulate (params0 \<lparr> num_averages := 0 \<rparr>) \<and>
   load_data_id (params0 \<lparr> num_averages := 0 \<rparr>) = None \<and>
   (\<forall>k. is_processing (env0 \<lparr> is_processing := \<lambda>k. True \<rparr>) k) \<and>
   (\<exists>tr r. run (env0 \<lparr> is_processing := \<lambda>k. True \<rparr>) (params0 \<lparr> num_averages := 0 \<rparr>) =
              Some (tr, r) \<and>
      r = Inl (ZeroDivisionError ''division by zero'') \<and> FetchResults \<notin> set tr \<and>
      Save \<notin> set tr) \<and>
   run (env0 \<lparr> is_processing := \<lambda>k. True \<rparr>) params0 = None"
proof -
  let ?E = "env0 \<lparr> is_processing := \<lambda>k. True \<rparr>"
  let ?p = "params0 \<lparr> num_averages := 0 \<rparr>"
  have n: "\<not> simulate params0" and l: "load_data_id params0 = None"
    by (simp_all add: params0_def Parameters_def)
  have n2: "\<not> simulate ?p" and l2: "load_data_id ?p = None"
    by (simp_all add: params0_def Parameters_def)
  obtain tr r where r: "run env0 params0 = Some (tr, r)" and f: "FetchResults \<in> set tr"
    by (rule that [OF run_env0]) simp
  have hyp: "run env0 params0 = Some (tr, r) \<and> (FetchResults \<in> set tr \<or> (\<exists>m. Fit m \<in> set tr))"
    using r f by simp
  from polling_precedes_fetch [OF n l, where env = env0 and tr = tr and r = r,
      THEN conjunct1, THEN mp, OF hyp]
  obtain j pre post where "\<not> is_processing env0 j"
    "tr = pre @ [Execute] @ concat (replicate j [IsProcessing True, FetchCounter]) @
                [IsProcessing False, FetchResults] @ post"
    by (elim conjE exE) (rule that)
  with r f have A: "\<exists>tr r. run env0 params0 = Some (tr, r) \<and> FetchResults \<in> set tr \<and>
      (\<exists>j pre post. \<not> is_processing env0 j \<and>
         tr = pre @ [Execute] @ concat (replicate j [IsProcessing True, FetchCounter]) @
                [IsProcessing False, FetchResults] @ post)"
    by (intro exI conjI)
  have always: "\<forall>k. is_processing ?E k" by simp
  have run2: "run ?E ?p =
      Some ([LoadMachine, GenerateConfig, Connect, BuildProgram 1 0 [4, 5], Execute,
             IsProcessing True, FetchCounter], Inl (ZeroDivisionError ''division by zero''))"
    by (simp add: script_defs example_defs)
  obtain tr2 r2 where r2: "run ?E ?p = Some (tr2, r2)"
    and e2: "r2 = Inl (ZeroDivisionError ''division by zero'')"
    by (rule that [OF run2]) simp
  have hyp2: "(\<forall>k. is_processing ?E k) \<and> run ?E ?p = Some (tr2, r2)"
    using always r2 by (intro conjI)
  from polling_precedes_fetch [OF n2 l2, where env = ?E and tr = tr2 and r = r2,
      THEN conjunct2, THEN conjunct1, THEN mp, OF hyp2]
  have c: "FetchResults \<notin> set tr2" "Save \<notin> set tr2" by simp_all
  from r2 e2 c have B: "\<exists>tr r. run ?E ?p = Some (tr, r) \<and>
      r = Inl (ZeroDivisionError ''division by zero'') \<and> FetchResults \<notin> set tr \<and>
      Save \<notin> set tr"
    by (intro exI conjI)
  have q: "select_qubits (quam_load ?E) (qubits params0) = Inr [qD1]"
    by (simp add: example_defs)
  have hyp3: "(\<forall>k. is_processing ?E k \<and> poll_body ?E (num_averages params0) k = None) \<and>
     connect ?E = None \<and> select_qubits (quam_load ?E) (qubits params0) = Inr [qD1] \<and>
     build_program ?E (length [qD1]) (num_averages params0) (idle_times ?E params0) = None \<and>
     session_execute ?E = None"
  proof -
    have it: "idle_times ?E params0 = [4, 5]" by (rule idle_times_params0)
    have na: "num_averages params0 = 1500" by (simp add: params0_def Parameters_def)
    have pb: "\<forall>k. is_processing ?E k \<and> poll_body ?E (num_averages params0) k = None"
      by (simp add: na env0_def poll_body_def)
    have bp: "build_program ?E (length [qD1]) (num_averages params0) (idle_times ?E params0) =
        None"
      unfolding it na by (simp add: env0_def)
    have cs: "connect ?E = None" "session_execute ?E = None" by (simp_all add: env0_def)
    from pb cs(1) q bp cs(2) show ?thesis by (intro conjI)
  qed
  from polling_precedes_fetch [OF n l, where env = ?E and qbs = "[qD1]",
      THEN conjunct2, THEN conjunct2, THEN mp, OF hyp3]
  have C: "run ?E params0 = None" .
  from n l A n2 l2 always B C show ?thesis by (intro conjI)
qed



text \<open>
  Claim C5 says that the time coordinate holds four times the clock-cycle values for every
  configured sweep range.  The sweep and its product by 4 are arrays of 64-bit integers:
  for the range from \<open>2^63\<close> to \<open>2^63 + 8\<close> numpy leaves the integers (its array holds
  \<open>2^61\<close> twice), the product wraps around, and the coordinate is negative where four
  times the clock-cycle value \<open>floor(2^63 / 4)\<close> is \<open>2^63\<close>.
\<close>

theorem time_coordinate_counterexample:
  "min_wait_time_in_ns (params0 \<lparr> min_wait_time_in_ns := 9223372036854775808,
                                  max_wait_time_in_ns := 9223372036854775816 \<rparr>) + 4 * int 0 <
   max_wait_time_in_ns (params0 \<lparr> min_wait_time_in_ns := 9223372036854775808,
                                  max_wait_time_in_ns := 9223372036854775816 \<rparr>) \<and>
   time_coord (hardware_dataset
     (env0 \<lparr> np_wide_sweep := \<lambda>a b. [2305843009213693952, 2305843009213693952] \<rparr>)
     (params0 \<lparr> min_wait_time_in_ns := 9223372036854775808,
                max_wait_time_in_ns := 9223372036854775816 \<rparr>) [qD1]) =
     [- 9223372036854775808, - 9223372036854775808] \<and>
   4 * ((min_wait_time_in_ns (params0 \<lparr> min_wait_time_in_ns := 9223372036854775808,
                                        max_wait_time_in_ns := 9223372036854775816 \<rparr>) +
         4 * int 0) div 4) = 9223372036854775808"
  by (simp add: hardware_dataset_def fetch_results_as_xarray_def assign_coords_time_def
      idle_times_def in_int64_def int64_mult_def params0_def Parameters_def env0_def)

text \<open>
  Claim C5, amended.  For every sweep range whose bounds fit a signed 64-bit integer, the
  dataset a hardware run builds is labelled along \<open>qubit\<close> by the names of the selected
  qubits and along \<open>time\<close> by the idle times in nanoseconds: the coordinate has one entry
  for every \<open>k = 0, 1, ...\<close> with \<open>min_wait_time_in_ns + 4k < max_wait_time_in_ns\<close> (the
  maximum excluded) and its \<open>k\<close>-th entry is 4 times the clock-cycle value
  \<open>floor((min_wait_time_in_ns + 4k) / 4)\<close>; this is the dataset such a run saves.
\<close>

theorem time_coordinate:
  assumes "in_int64 (min_wait_time_in_ns p)" and "in_int64 (max_wait_time_in_ns p)"
  shows "qubit_coord (hardware_dataset env p qbs) = map name qbs \<and>
   time_coord (hardware_dataset env p qbs) = map (\<lambda>t. 4 * t) (idle_times env p) \<and>
   (\<forall>k. k < length (time_coord (hardware_dataset env p qbs)) \<longleftrightarrow>
        min_wait_time_in_ns p + 4 * int k < max_wait_time_in_ns p) \<and>
   (\<forall>k. min_wait_time_in_ns p + 4 * int k < max_wait_time_in_ns p \<longrightarrow>
        time_coord (hardware_dataset env p qbs) ! k =
          4 * ((min_wait_time_in_ns p + 4 * int k) div 4)) \<and>
   (\<not> simulate p \<and> run env p = Some (tr, Inr sv) \<and>
    select_qubits (quam_load env) (qubits p) = Inr qbs \<longrightarrow>
      map_of (sv_results sv) ''ds'' = Some (VDataset (hardware_dataset env p qbs)))"
proof (intro conjI allI impI)
  show "qubit_coord (hardware_dataset env p qbs) = map name qbs"
    by (simp add: hardware_dataset_def fetch_results_as_xarray_def assign_coords_time_def)
  show "time_coord (hardware_dataset env p qbs) = map (\<lambda>t. 4 * t) (idle_times env p)"
    by (simp add: time_coord_hardware_dataset [OF assms] idle_times_in_range [OF assms]
        arange_step4 o_def)
  show "k < length (time_coord (hardware_dataset env p qbs)) \<longleftrightarrow>
        min_wait_time_in_ns p + 4 * int k < max_wait_time_in_ns p" for k
    by (simp add: time_coord_hardware_dataset [OF assms] arange_step4_index)
  show "time_coord (hardware_dataset env p qbs) ! k =
          4 * ((min_wait_time_in_ns p + 4 * int k) div 4)"
    if "min_wait_time_in_ns p + 4 * int k < max_wait_time_in_ns p" for k
  proof -
    from that have "k < nat ((max_wait_time_in_ns p - min_wait_time_in_ns p + 3) div 4)"
      by (simp only: arange_step4_index)
    then show ?thesis by (simp add: time_coord_hardware_dataset [OF assms])
  qed
next
  assume h: "\<not> simulate p \<and> run env p = Some (tr, Inr sv) \<and>
    select_qubits (quam_load env) (qubits p) = Inr qbs"
  then have ns: "\<not> simulate p" and run: "run env p = Some (tr, Inr sv)" by simp_all
  from ns run obtain qbs' fr2 where
    sel: "select_qubits (quam_load env) (qubits p) = Inr qbs'" and
    sv: "sv = \<lparr> sv_results =
              [(''ds'', VDataset (hardware_dataset env p qbs')),
               (''fit_results'', VFitResults fr2),
               (''figure'', VFigure (GridFigure DecayExp)),
               (''figure_gaussian'', VFigure (GridFigure DecayGaussian)),
               (''initial_parameters'', VParameters p)],
            sv_machine = quam_load env, sv_outcomes = outcomes_of qbs' \<rparr>"
    by (rule run_saved_not_simulated)
  from sel h have "qbs' = qbs" by simp
  then show "map_of (sv_results sv) ''ds'' = Some (VDataset (hardware_dataset env p qbs))"
    by (simp add: sv)
qed

theorem time_coordinate_witness:
  "in_int64 (min_wait_time_in_ns (params0 \<lparr> min_wait_time_in_ns := 17, max_wait_time_in_ns := 30 \<rparr>)) \<and>
   in_int64 (max_wait_time_in_ns (params0 \<lparr> min_wait_time_in_ns := 17, max_wait_time_in_ns := 30 \<rparr>)) \<and>
   min_wait_time_in_ns (params0 \<lparr> min_wait_time_in_ns := 17, max_wait_time_in_ns := 30 \<rparr>) +
     4 * int 3 <
   max_wait_time_in_ns (params0 \<lparr> min_wait_time_in_ns := 17, max_wait_time_in_ns := 30 \<rparr>) \<and>
   time_coord (hardware_dataset env0
     (params0 \<lparr> min_wait_time_in_ns := 17, max_wait_time_in_ns := 30 \<rparr>) [qD1]) ! 3 = 28 \<and>
   length (time_coord (hardware_dataset env0
     (params0 \<lparr> min_wait_time_in_ns := 17, max_wait_time_in_ns := 30 \<rparr>) [qD1])) = 4 \<and>
   in_int64 (min_wait_time_in_ns params0) \<and> in_int64 (max_wait_time_in_ns params0) \<and>
   \<not> simulate params0 \<and> select_qubits (quam_load env0) (qubits params0) = Inr [qD1] \<and>
   saved_result env0 params0 ''ds'' = Some (VDataset (hardware_dataset env0 params0 [qD1]))"
proof -
  let ?p = "params0 \<lparr> min_wait_time_in_ns := 17, max_wait_time_in_ns := 30 \<rparr>"
  have i1: "in_int64 (min_wait_time_in_ns ?p)" and i2: "in_int64 (max_wait_time_in_ns ?p)"
    by (simp_all add: in_int64_def)
  have i3: "in_int64 (min_wait_time_in_ns params0)" and i4: "in_int64 (max_wait_time_in_ns params0)"
    by (simp_all add: in_int64_def params0_def Parameters_def)
  have lt: "min_wait_time_in_ns ?p + 4 * int 3 < max_wait_time_in_ns ?p" by simp
  from time_coordinate [OF i1 i2, of env0 "[qD1]", THEN conjunct2, THEN conjunct2, THEN conjunct2,
      THEN conjunct1, rule_format, OF lt]
  have a: "time_coord (hardware_dataset env0 ?p [qD1]) ! 3 = 28" by simp
  have b: "length (time_coord (hardware_dataset env0 ?p [qD1])) = 4"
  proof -
    from time_coordinate [OF i1 i2, of env0 "[qD1]", THEN conjunct2, THEN conjunct2, THEN conjunct1]
    have iff: "k < length (time_coord (hardware_dataset env0 ?p [qD1])) \<longleftrightarrow>
        17 + 4 * int k < 30" for k by simp
    from iff [of 3] iff [of 4] show ?thesis by simp
  qed
  have n: "\<not> simulate params0" by (simp add: params0_def Parameters_def)
  have q: "select_qubits (quam_load env0) (qubits params0) = Inr [qD1]"
    by (simp add: example_defs)
  obtain tr sv where r: "run env0 params0 = Some (tr, Inr sv)"
    by (rule that [OF run_env0])
  from time_coordinate [OF i3 i4, of env0 "[qD1]" tr sv] n r q
  have "map_of (sv_results sv) ''ds'' = Some (VDataset (hardware_dataset env0 params0 [qD1]))"
    by simp
  with r have c: "saved_result env0 params0 ''ds'' =
      Some (VDataset (hardware_dataset env0 params0 [qD1]))"
    by (simp add: saved_result_def saved_of_def)
  from i1 i2 lt a b i3 i4 n q c show ?thesis by (intro conjI)
qed

text \<open>
  Claim C7.  A non-simulated run reaches \<open>node.save()\<close> only if both fits gave every selected
  qubit a strictly positive frequency.  \<open>frequency.where(frequency > 0, drop=True)\<close> drops
  a qubit whose fitted frequency is not positive from the frequency array, the
  \<open>.loc[q.name]\<close> lookup of a dropped name raises \<open>KeyError\<close>, so building the record over
  the selected qubits raises for the first dropped one; a hardware run that has reached
  the fit whose output drops a selected qubit ends right after that fit with this
  \<open>KeyError\<close>, with nothing saved.
\<close>

theorem positive_frequency_needed:
  "(\<not> simulate p \<and> run env p = Some (tr, Inr sv) \<and>
    select_qubits (quam_load env) (qubits p) = Inr qbs \<longrightarrow>
      (\<exists>efit gfit.
         fit_oscillation_decay_exp env (hardware_dataset env p qbs) = Inr efit \<and>
         fit_oscillation_decay_gaussian env (hardware_dataset env p qbs) = Inr gfit \<and>
         (\<forall>q\<in>set qbs. (\<exists>v. (name q, v) \<in> set efit \<and> 0 < fv_f v) \<and>
                       (\<exists>v. (name q, v) \<in> set gfit \<and> 0 < fv_f v)))) \<and>
   ((\<forall>v. (k, v) \<in> set fit \<longrightarrow> fv_f v \<le> 0) \<longrightarrow>
      k \<notin> fst ` set (frequency_of fit) \<and> loc (frequency_of fit) k = Inl (KeyError k)) \<and>
   (q \<in> set qbs \<and> (\<forall>v. (name q, v) \<in> set fit \<longrightarrow> fv_f v \<le> 0) \<longrightarrow>
      (\<exists>q'\<in>set qbs. make_fit_results fit qbs = Inl (KeyError (name q')) \<and>
         (\<forall>v. (name q', v) \<in> set fit \<longrightarrow> fv_f v \<le> 0))) \<and>
   (\<not> simulate p \<and> load_data_id p = None \<and> run env p = Some (tr, r) \<and>
    select_qubits (quam_load env) (qubits p) = Inr qbs \<and> Fit DecayExp \<in> set tr \<and>
    fit_oscillation_decay_exp env (hardware_dataset env p qbs) = Inr fit \<and>
    q \<in> set qbs \<and> (\<forall>v. (name q, v) \<in> set fit \<longrightarrow> fv_f v \<le> 0) \<longrightarrow>
      (\<exists>q'\<in>set qbs. r = Inl (KeyError (name q')) \<and>
         (\<forall>v. (name q', v) \<in> set fit \<longrightarrow> fv_f v \<le> 0)) \<and>
      last tr = Fit DecayExp \<and> Save \<notin> set tr) \<and>
   (\<not> simulate p \<and> load_data_id p = None \<and> run env p = Some (tr, r) \<and>
    select_qubits (quam_load env) (qubits p) = Inr qbs \<and> Fit DecayGaussian \<in> set tr \<and>
    fit_oscillation_decay_gaussian env (hardware_dataset env p qbs) = Inr fit \<and>
    q \<in> set qbs \<and> (\<forall>v. (name q, v) \<in> set fit \<longrightarrow> fv_f v \<le> 0) \<longrightarrow>
      (\<exists>q'\<in>set qbs. r = Inl (KeyError (name q')) \<and>
         (\<forall>v. (name q', v) \<in> set fit \<longrightarrow> fv_f v \<le> 0)) \<and>
      last tr = Fit DecayGaussian \<and> Save \<notin> set tr)"
proof (intro conjI impI)
  assume h: "\<not> simulate p \<and> run env p = Some (tr, Inr sv) \<and>
    select_qubits (quam_load env) (qubits p) = Inr qbs"
  then have ns: "\<not> simulate p" and run: "run env p = Some (tr, Inr sv)" by simp_all
  from ns run obtain qbs' efit gfit fr1 fr2 where
    sel: "select_qubits (quam_load env) (qubits p) = Inr qbs'" and
    e: "fit_oscillation_decay_exp env (hardware_dataset env p qbs') = Inr efit"
       "make_fit_results efit qbs' = Inr fr1" and
    g: "fit_oscillation_decay_gaussian env (hardware_dataset env p qbs') = Inr gfit"
       "make_fit_results gfit qbs' = Inr fr2"
    by (rule run_saved_not_simulated)
  from sel h have q: "qbs' = qbs" by simp
  have "\<forall>q\<in>set qbs. (\<exists>v. (name q, v) \<in> set efit \<and> 0 < fv_f v) \<and>
                       (\<exists>v. (name q, v) \<in> set gfit \<and> 0 < fv_f v)"
    using make_fit_results_Inr_positive [OF e(2)] make_fit_results_Inr_positive [OF g(2)]
    unfolding q by blast
  with e(1) g(1) show "\<exists>efit gfit.
         fit_oscillation_decay_exp env (hardware_dataset env p qbs) = Inr efit \<and>
         fit_oscillation_decay_gaussian env (hardware_dataset env p qbs) = Inr gfit \<and>
         (\<forall>q\<in>set qbs. (\<exists>v. (name q, v) \<in> set efit \<and> 0 < fv_f v) \<and>
                       (\<exists>v. (name q, v) \<in> set gfit \<and> 0 < fv_f v))"
    unfolding q by blast
next
  assume h: "\<forall>v. (k, v) \<in> set fit \<longrightarrow> fv_f v \<le> 0"
  show drop: "k \<notin> fst ` set (frequency_of fit)"
  proof
    assume "k \<in> fst ` set (frequency_of fit)"
    then obtain v where v: "(k, v) \<in> set fit" "0 < fv_f v"
      unfolding frequency_of_keys by blast
    from h v(1) have "fv_f v \<le> 0" by blast
    with v(2) show False by simp
  qed
  then show "loc (frequency_of fit) k = Inl (KeyError k)" by (simp add: loc_Inl)
next
  assume "q \<in> set qbs \<and> (\<forall>v. (name q, v) \<in> set fit \<longrightarrow> fv_f v \<le> 0)"
  then show "\<exists>q'\<in>set qbs. make_fit_results fit qbs = Inl (KeyError (name q')) \<and>
         (\<forall>v. (name q', v) \<in> set fit \<longrightarrow> fv_f v \<le> 0)"
    using make_fit_results_nonpositive [of q qbs fit] by simp
next
  assume h: "\<not> simulate p \<and> load_data_id p = None \<and> run env p = Some (tr, r) \<and>
    select_qubits (quam_load env) (qubits p) = Inr qbs \<and> Fit DecayExp \<in> set tr \<and>
    fit_oscillation_decay_exp env (hardware_dataset env p qbs) = Inr fit \<and>
    q \<in> set qbs \<and> (\<forall>v. (name q, v) \<in> set fit \<longrightarrow> fv_f v \<le> 0)"
  then have ns: "\<not> simulate p" and ld: "load_data_id p = None"
    and run: "run env p = Some (tr, r)"
    and sel: "select_qubits (quam_load env) (qubits p) = Inr qbs"
    and reached: "Fit DecayExp \<in> set tr"
    and fit: "fit_oscillation_decay_exp env (hardware_dataset env p qbs) = Inr fit"
    by simp_all
  from h obtain q' where q': "q' \<in> set qbs"
    and m: "make_fit_results fit qbs = Inl (KeyError (name q'))"
    and neg: "\<forall>v. (name q', v) \<in> set fit \<longrightarrow> fv_f v \<le> 0"
    using make_fit_results_nonpositive [of q qbs fit] by blast
  from ns ld run
  have "r = Inl (KeyError (name q')) \<and> last tr = Fit DecayExp \<and> Save \<notin> set tr"
  proof (cases rule: run_hardware_cases)
    case (poll_raised qbs' j e')
    with reached show ?thesis by (simp add: in_polls_iff del: set_concat)
  next
    case (analysed qbs' j)
    with sel have q: "qbs' = qbs" by simp
    from ld analysed(7) show ?thesis
      by (cases rule: analyse_and_save_cases)
        (use fit m q in \<open>simp_all add: in_polls_iff del: set_concat\<close>)
  qed (use reached in \<open>simp_all add: in_polls_iff del: set_concat\<close>)
  then have out: "r = Inl (KeyError (name q'))" and fin: "last tr = Fit DecayExp"
    and nosave: "Save \<notin> set tr" by simp_all
  from out neg have "r = Inl (KeyError (name q')) \<and>
      (\<forall>v. (name q', v) \<in> set fit \<longrightarrow> fv_f v \<le> 0)" by (rule conjI)
  with q' show "\<exists>q'\<in>set qbs. r = Inl (KeyError (name q')) \<and>
         (\<forall>v. (name q', v) \<in> set fit \<longrightarrow> fv_f v \<le> 0)" by (rule rev_bexI)
  from fin show "last tr = Fit DecayExp" .
  from nosave show "Save \<notin> set tr" .
next
  assume h: "\<not> simulate p \<and> load_data_id p = None \<and> run env p = Some (tr, r) \<and>
    select_qubits (quam_load env) (qubits p) = Inr qbs \<and> Fit DecayGaussian \<in> set tr \<and>
    fit_oscillation_decay_gaussian env (hardware_dataset env p qbs) = Inr fit \<and>
    q \<in> set qbs \<and> (\<forall>v. (name q, v) \<in> set fit \<longrightarrow> fv_f v \<le> 0)"
  then have ns: "\<not> simulate p" and ld: "load_data_id p = None"
    and run: "run env p = Some (tr, r)"
    and sel: "select_qubits (quam_load env) (qubits p) = Inr qbs"
    and reached: "Fit DecayGaussian \<in> set tr"
    and fit: "fit_oscillation_decay_gaussian env (hardware_dataset env p qbs) = Inr fit"
    by simp_all
  from h obtain q' where q': "q' \<in> set qbs"
    and m: "make_fit_results fit qbs = Inl (KeyError (name q'))"
    and neg: "\<forall>v. (name q', v) \<in> set fit \<longrightarrow> fv_f v \<le> 0"
    using make_fit_results_nonpositive [of q qbs fit] by blast
  from ns ld run
  have "r = Inl (KeyError (name q')) \<and> last tr = Fit DecayGaussian \<and> Save \<notin> set tr"
  proof (cases rule: run_hardware_cases)
    case (poll_raised qbs' j e')
    with reached show ?thesis by (simp add: in_polls_iff del: set_concat)
  next
    case (analysed qbs' j)
    with sel have q: "qbs' = qbs" by simp
    from ld analysed(7) show ?thesis
      by (cases rule: analyse_and_save_cases)
        (use fit m q reached in \<open>simp_all add: in_polls_iff del: set_concat\<close>)
  qed (use reached in \<open>simp_all add: in_polls_iff del: set_concat\<close>)
  then have out: "r = Inl (KeyError (name q'))" and fin: "last tr = Fit DecayGaussian"
    and nosave: "Save \<notin> set tr" by simp_all
  from out neg have "r = Inl (KeyError (name q')) \<and>
      (\<forall>v. (name q', v) \<in> set fit \<longrightarrow> fv_f v \<le> 0)" by (rule conjI)
  with q' show "\<exists>q'\<in>set qbs. r = Inl (KeyError (name q')) \<and>
         (\<forall>v. (name q', v) \<in> set fit \<longrightarrow> fv_f v \<le> 0)" by (rule rev_bexI)
  from fin show "last tr = Fit DecayGaussian" .
  from nosave show "Save \<notin> set tr" .
qed

theorem positive_frequency_needed_witness:
  "(\<exists>tr sv. \<not> simulate params0 \<and> run env0 params0 = Some (tr, Inr sv) \<and>
      select_qubits (quam_load env0) (qubits params0) = Inr [qD1] \<and>
      (\<exists>v. (name qD1, v) \<in> set exp_fit0 \<and> 0 < fv_f v) \<and>
      (\<exists>v. (name qD1, v) \<in> set gauss_fit0 \<and> 0 < fv_f v)) \<and>
   loc (frequency_of [(''qD1'', \<lparr> fv_a = 1 / 2, fv_f = - (1 / 200), fv_phi = 0,
        fv_offset = 1 / 2, fv_decay = 1 / 1000, fv_decay_decay = 0 \<rparr>)]) ''qD1'' =
     Inl (KeyError ''qD1'') \<and>
   make_fit_results [(''qD1'', \<lparr> fv_a = 1 / 2, fv_f = - (1 / 200), fv_phi = 0,
        fv_offset = 1 / 2, fv_decay = 1 / 1000, fv_decay_decay = 0 \<rparr>)] [qD1] =
     Inl (KeyError ''qD1'') \<and>
   (\<exists>tr r. run (env0 \<lparr> fit_oscillation_decay_exp := \<lambda>ds. Inr [(''qD1'', \<lparr> fv_a = 1 / 2,
        fv_f = - (1 / 200), fv_phi = 0, fv_offset = 1 / 2, fv_decay = 1 / 1000,
        fv_decay_decay = 0 \<rparr>)] \<rparr>) params0 = Some (tr, r) \<and>
      Fit DecayExp \<in> set tr \<and> r = Inl (KeyError ''qD1'') \<and> last tr = Fit DecayExp \<and>
      Save \<notin> set tr) \<and>
   (\<exists>tr r. run (env0 \<lparr> fit_oscillation_decay_gaussian := \<lambda>ds. Inr [(''qD1'', \<lparr> fv_a = 1 / 2,
        fv_f = - (1 / 200), fv_phi = 0, fv_offset = 1 / 2, fv_decay = 1 / 1000,
        fv_decay_decay = 0 \<rparr>)] \<rparr>) params0 = Some (tr, r) \<and>
      Fit DecayGaussian \<in> set tr \<and> r = Inl (KeyError ''qD1'') \<and>
      last tr = Fit DecayGaussian \<and> Save \<notin> set tr)"
proof -
  let ?neg = "[(''qD1'', \<lparr> fv_a = 1 / 2, fv_f = - (1 / 200), fv_phi = 0,
        fv_offset = 1 / 2, fv_decay = 1 / 1000, fv_decay_decay = 0 \<rparr>)]"
  let ?E2 = "env0 \<lparr> fit_oscillation_decay_exp := \<lambda>ds. Inr ?neg \<rparr>"
  let ?E3 = "env0 \<lparr> fit_oscillation_decay_gaussian := \<lambda>ds. Inr ?neg \<rparr>"
  have n: "\<not> simulate params0" and l: "load_data_id params0 = None"
    by (simp_all add: params0_def Parameters_def)
  have nm: "name qD1 = ''qD1''" by (simp add: qD1_def)
  have q: "select_qubits (quam_load env0) (qubits params0) = Inr [qD1]"
    "select_qubits (quam_load ?E2) (qubits params0) = Inr [qD1]"
    "select_qubits (quam_load ?E3) (qubits params0) = Inr [qD1]"
    by (simp_all add: example_defs)
  have f0: "fit_oscillation_decay_exp env0 (hardware_dataset env0 params0 [qD1]) = Inr exp_fit0"
    "fit_oscillation_decay_gaussian env0 (hardware_dataset env0 params0 [qD1]) = Inr gauss_fit0"
    by (simp_all add: env0_def)
  have f2: "fit_oscillation_decay_exp ?E2 (hardware_dataset ?E2 params0 [qD1]) = Inr ?neg"
    by (simp add: env0_def)
  have f3: "fit_oscillation_decay_gaussian ?E3 (hardware_dataset ?E3 params0 [qD1]) = Inr ?neg"
    by (simp add: env0_def)
  have neg: "\<forall>v. (''qD1'', v) \<in> set ?neg \<longrightarrow> fv_f v \<le> 0" by simp
  have neg': "\<forall>v. (name qD1, v) \<in> set ?neg \<longrightarrow> fv_f v \<le> 0" by (simp add: nm)
  have qin: "qD1 \<in> set [qD1]" by simp
  obtain tr sv where r: "run env0 params0 = Some (tr, Inr sv)"
    by (rule that [OF run_env0])
  have a: "(\<exists>v. (name qD1, v) \<in> set exp_fit0 \<and> 0 < fv_f v) \<and>
      (\<exists>v. (name qD1, v) \<in> set gauss_fit0 \<and> 0 < fv_f v)"
    using positive_frequency_needed [where p = params0 and env = env0 and tr = tr and sv = sv
        and qbs = "[qD1]", THEN conjunct1] n r q(1) f0
    by simp
  have b: "loc (frequency_of ?neg) ''qD1'' = Inl (KeyError ''qD1'')"
    using positive_frequency_needed [where k = "''qD1''" and fit = ?neg,
        THEN conjunct2, THEN conjunct1] neg
    by simp
  have c: "make_fit_results ?neg [qD1] = Inl (KeyError ''qD1'')"
    using positive_frequency_needed [where q = qD1 and qbs = "[qD1]" and fit = ?neg,
        THEN conjunct2, THEN conjunct2, THEN conjunct1] neg
    by (simp add: nm)
  have run2: "run ?E2 params0 =
     Some ([LoadMachine, GenerateConfig, Connect, BuildProgram 1 1500 [4, 5], Execute,
            IsProcessing True, FetchCounter, IsProcessing True, FetchCounter,
            IsProcessing False, FetchResults, Fit DecayExp], Inl (KeyError ''qD1''))"
    by (simp add: script_defs example_defs)
  obtain tr2 r2 where r2: "run ?E2 params0 = Some (tr2, r2)" and m2: "Fit DecayExp \<in> set tr2"
    by (rule that [OF run2]) simp
  from n l r2 q(2) m2 f2 qin neg'
  have h2: "\<not> simulate params0 \<and> load_data_id params0 = None \<and>
      run ?E2 params0 = Some (tr2, r2) \<and>
      select_qubits (quam_load ?E2) (qubits params0) = Inr [qD1] \<and> Fit DecayExp \<in> set tr2 \<and>
      fit_oscillation_decay_exp ?E2 (hardware_dataset ?E2 params0 [qD1]) = Inr ?neg \<and>
      qD1 \<in> set [qD1] \<and> (\<forall>v. (name qD1, v) \<in> set ?neg \<longrightarrow> fv_f v \<le> 0)"
    by (intro conjI)
  from positive_frequency_needed [where p = params0 and env = ?E2 and tr = tr2 and r = r2
      and qbs = "[qD1]" and fit = ?neg and q = qD1,
      THEN conjunct2, THEN conjunct2, THEN conjunct2, THEN conjunct1, THEN mp, OF h2]
  have d: "r2 = Inl (KeyError ''qD1'')" "last tr2 = Fit DecayExp" "Save \<notin> set tr2"
    by (simp_all add: nm)
  from r2 m2 d have D: "\<exists>tr r. run ?E2 params0 = Some (tr, r) \<and>
      Fit DecayExp \<in> set tr \<and> r = Inl (KeyError ''qD1'') \<and> last tr = Fit DecayExp \<and>
      Save \<notin> set tr"
    by (intro exI conjI)
  have run3: "run ?E3 params0 =
     Some ([LoadMachine, GenerateConfig, Connect, BuildProgram 1 1500 [4, 5], Execute,
            IsProcessing True, FetchCounter, IsProcessing True, FetchCounter,
            IsProcessing False, FetchResults, Fit DecayExp, Plot DecayExp, Fit DecayGaussian],
           Inl (KeyError ''qD1''))"
    by (simp add: script_defs example_defs)
  obtain tr3 r3 where r3: "run ?E3 params0 = Some (tr3, r3)"
    and m3: "Fit DecayGaussian \<in> set tr3"
    by (rule that [OF run3]) simp
  from n l r3 q(3) m3 f3 qin neg'
  have h3: "\<not> simulate params0 \<and> load_data_id params0 = None \<and>
      run ?E3 params0 = Some (tr3, r3) \<and>
      select_qubits (quam_load ?E3) (qubits params0) = Inr [qD1] \<and>
      Fit DecayGaussian \<in> set tr3 \<and>
      fit_oscillation_decay_gaussian ?E3 (hardware_dataset ?E3 params0 [qD1]) = Inr ?neg \<and>
      qD1 \<in> set [qD1] \<and> (\<forall>v. (name qD1, v) \<in> set ?neg \<longrightarrow> fv_f v \<le> 0)"
    by (intro conjI)
  from positive_frequency_needed [where p = params0 and env = ?E3 and tr = tr3 and r = r3
      and qbs = "[qD1]" and fit = ?neg and q = qD1,
      THEN conjunct2, THEN conjunct2, THEN conjunct2, THEN conjunct2, THEN mp, OF h3]
  have e: "r3 = Inl (KeyError ''qD1'')" "last tr3 = Fit DecayGaussian" "Save \<notin> set tr3"
    by (simp_all add: nm)
  from r3 m3 e have E: "\<exists>tr r. run ?E3 params0 = Some (tr, r) \<and>
      Fit DecayGaussian \<in> set tr \<and> r = Inl (KeyError ''qD1'') \<and>
      last tr = Fit DecayGaussian \<and> Save \<notin> set tr"
    by (intro exI conjI)
  from n r q(1) a have first: "\<exists>tr sv. \<not> simulate params0 \<and> run env0 params0 = Some (tr, Inr sv) \<and>
      select_qubits (quam_load env0) (qubits params0) = Inr [qD1] \<and>
      (\<exists>v. (name qD1, v) \<in> set exp_fit0 \<and> 0 < fv_f v) \<and>
      (\<exists>v. (name qD1, v) \<in> set gauss_fit0 \<and> 0 < fv_f v)"
    by blast
  from first b c D E show ?thesis by (intro conjI)
qed

text \<open>
  Claim C6.  For every qubit, every averaging iteration \<open>n\<close> and every idle time (position
  \<open>k\<close> of the sweep), the value saved to the qubit's stream is the XOR of the state just read
  with the state read at the shot before, that is at the previous idle time or, for the
  first idle time, at the last idle time of the previous iteration; at the very first shot
  the other operand is what the declared variable \<open>init_state[i]\<close> holds.  After the
  program \<open>init_state[i]\<close> holds the last state read.
\<close>

theorem saved_state_is_xor_with_previous:
  assumes "i < num_qubits" and "0 \<le> n" and "n < n_avg" and "k < length ts"
  shows "state_st (ramsey rd mem num_qubits n_avg ts) ! i ! (nat n * length ts + k) =
      (if k = 0 then (if n = 0 then mem i else rd i (n - 1) (length ts - 1))
       else rd i n (k - 1)) XOR rd i n k \<and>
    length (state_st (ramsey rd mem num_qubits n_avg ts) ! i) = nat n_avg * length ts \<and>
    init_state (ramsey rd mem num_qubits n_avg ts) ! i = rd i (n_avg - 1) (length ts - 1)"
proof -
  let ?T = "length ts"
  let ?N = "nat n_avg"
  let ?R = "concat (map (\<lambda>a. map (rd i (int a)) [0 ..< ?T]) [0 ..< ?N])"
  from ramsey_prefix [of num_qubits num_qubits rd n_avg ts mem] assms(1)
  have init: "init_state (ramsey rd mem num_qubits n_avg ts) ! i = last (mem i # ?R)"
    and st: "state_st (ramsey rd mem num_qubits n_avg ts) ! i =
      map (\<lambda>(a, b). a XOR b) (zip (mem i # ?R) ?R)"
    by (simp_all add: ramsey_def)
  from concat_rows [of "\<lambda>a. rd i (int a)" ?T ?N]
  have len: "length ?R = ?N * ?T"
    and row: "\<And>m j. m < ?N \<Longrightarrow> j < ?T \<Longrightarrow> ?R ! (m * ?T + j) = rd i (int m) j"
    by simp_all
  have T: "0 < ?T" using assms(4) by (cases ts) simp_all
  then have Tm: "?T - 1 < ?T" by linarith
  have mN: "nat n < ?N" using assms(2,3) by linarith
  from mN have "Suc (nat n) \<le> ?N" by (rule Suc_leI)
  then have "Suc (nat n) * ?T \<le> ?N * ?T" by (rule mult_le_mono1)
  with assms(4) have idx: "nat n * ?T + k < length ?R" by (simp add: len)
  have cur: "?R ! (nat n * ?T + k) = rd i n k"
    using row [OF mN assms(4)] assms(2) by simp
  have prev: "(mem i # ?R) ! (nat n * ?T + k) =
      (if k = 0 then (if n = 0 then mem i else rd i (n - 1) (?T - 1)) else rd i n (k - 1))"
  proof (cases "k = 0")
    case False
    then have "(mem i # ?R) ! (nat n * ?T + k) = ?R ! (nat n * ?T + (k - 1))"
      by (simp add: nth_Cons')
    also have "\<dots> = rd i n (k - 1)"
      using row [OF mN, of "k - 1"] assms(2,4) False by simp
    finally show ?thesis using False by simp
  next
    case True
    show ?thesis
    proof (cases "n = 0")
      case True
      with \<open>k = 0\<close> show ?thesis by simp
    next
      case False
      with assms(2) have pos: "0 < nat n" by linarith
      then have m1: "nat n - 1 < ?N" using mN by linarith
      have "nat n * ?T = (nat n - 1) * ?T + ?T"
        using pos by (rule mult_pred_plus)
      then have "nat n * ?T - 1 = (nat n - 1) * ?T + (?T - 1)" using T by linarith
      moreover have "nat n * ?T \<noteq> 0"
      proof -
        have "0 < nat n * ?T" using pos T by (rule mult_pos_pos)
        then show ?thesis by linarith
      qed
      ultimately have "(mem i # ?R) ! (nat n * ?T + k) = ?R ! ((nat n - 1) * ?T + (?T - 1))"
        using \<open>k = 0\<close> by (simp add: nth_Cons')
      also have "\<dots> = rd i (int (nat n - 1)) (?T - 1)"
        by (rule row [OF m1 Tm])
      also have "int (nat n - 1) = n - 1" using pos by linarith
      finally show ?thesis using \<open>k = 0\<close> False by simp
    qed
  qed
  have first: "state_st (ramsey rd mem num_qubits n_avg ts) ! i ! (nat n * ?T + k) =
      (if k = 0 then (if n = 0 then mem i else rd i (n - 1) (?T - 1)) else rd i n (k - 1))
        XOR rd i n k"
    using idx by (simp add: st prev cur)
  have second: "length (state_st (ramsey rd mem num_qubits n_avg ts) ! i) = ?N * ?T"
    by (simp add: st len)
  have Npos: "?N - 1 < ?N" using mN by linarith
  have "0 < length ?R" using idx by linarith
  then have ne: "?R \<noteq> []" by (rule length_greater_0_conv [THEN iffD1])
  then have "last (mem i # ?R) = last ?R" by (rule last_ConsR)
  also have "\<dots> = ?R ! (length ?R - 1)" by (rule last_conv_nth [OF ne])
  also have "length ?R - 1 = (?N - 1) * ?T + (?T - 1)"
  proof -
    have "0 < ?N" using mN by linarith
    then have "?N * ?T = (?N - 1) * ?T + ?T" by (rule mult_pred_plus)
    then have "?N * ?T - 1 = (?N - 1) * ?T + (?T - 1)" using T by linarith
    then show ?thesis by (simp only: len)
  qed
  also have "?R ! ((?N - 1) * ?T + (?T - 1)) = rd i (int (?N - 1)) (?T - 1)"
    by (rule row [OF Npos Tm])
  also have "int (?N - 1) = n_avg - 1" using assms(2,3) by linarith
  finally have third: "init_state (ramsey rd mem num_qubits n_avg ts) ! i =
      rd i (n_avg - 1) (?T - 1)"
    by (simp add: init)
  from first second third show ?thesis by (intro conjI)
qed

theorem saved_state_is_xor_with_previous_witness:
  "(1::nat) < 2 \<and> (0::int) \<le> 1 \<and> (1::int) < 2 \<and> (0::nat) < length [4, 5, 6 :: int] \<and>
   state_st (ramsey (\<lambda>i n k. if k = 2 then 1 else 0) (\<lambda>j. 0) 2 2 [4, 5, 6]) ! 1 ! 3 = 1 \<and>
   length (state_st (ramsey (\<lambda>i n k. if k = 2 then 1 else 0) (\<lambda>j. 0) 2 2 [4, 5, 6]) ! 1) = 6"
  using saved_state_is_xor_with_previous [of 1 2 1 2 0 "[4, 5, 6]"
      "\<lambda>i n k. if k = 2 then 1 else 0" "\<lambda>j. 0"]
  by (simp add: eval_nat_numeral)

end
